theory Spec2Isabelle
  imports Complex_Main
begin

section \<open>Python values used by the services\<close>

text \<open>
  Text is ASCII: a Python \<open>str\<close> is a \<open>string\<close> whose characters are code points
  below 128. The character tests below are Python's \<open>str.isspace\<close>, \<open>str.isalpha\<close>,
  \<open>str.lower\<close>, \<open>str.upper\<close> on that range; \<open>is_digit\<close> is the class \<open>\d\<close> of the
  \<open>re\<close> module there. Python floats are exact rationals; \<open>round(x, n)\<close> rounds half to
  even at \<open>n\<close> decimals.
\<close>

definition is_space :: "char \<Rightarrow> bool" where
  "is_space c = (of_char c \<in> {9, 10, 11, 12, 13, 28, 29, 30, 31, 32 :: nat})"

definition is_digit :: "char \<Rightarrow> bool" where
  "is_digit c = (48 \<le> (of_char c :: nat) \<and> (of_char c :: nat) \<le> 57)"

definition is_upper :: "char \<Rightarrow> bool" where
  "is_upper c = (65 \<le> (of_char c :: nat) \<and> (of_char c :: nat) \<le> 90)"

definition is_lower :: "char \<Rightarrow> bool" where
  "is_lower c = (97 \<le> (of_char c :: nat) \<and> (of_char c :: nat) \<le> 122)"

definition is_alpha :: "char \<Rightarrow> bool" where
  "is_alpha c = (is_upper c \<or> is_lower c)"

text \<open>An ASCII letter changes case by its bit of weight 32.\<close>

definition lower_char :: "char \<Rightarrow> char" where
  "lower_char c =
     (if is_upper c
      then (case c of Char b0 b1 b2 b3 b4 b5 b6 b7 \<Rightarrow> Char b0 b1 b2 b3 b4 True b6 b7)
      else c)"

definition upper_char :: "char \<Rightarrow> char" where
  "upper_char c =
     (if is_lower c
      then (case c of Char b0 b1 b2 b3 b4 b5 b6 b7 \<Rightarrow> Char b0 b1 b2 b3 b4 False b6 b7)
      else c)"

definition lower :: "string \<Rightarrow> string" where
  "lower s = map lower_char s"

text \<open>\<open>str.title()\<close>: a cased character is upper-cased after an uncased one and
  lower-cased after a cased one.\<close>

fun title_from :: "bool \<Rightarrow> string \<Rightarrow> string" where
  "title_from previous_is_cased [] = []"
| "title_from previous_is_cased (c # cs) =
     (if is_alpha c
      then (if previous_is_cased then lower_char c else upper_char c) # title_from True cs
      else c # title_from False cs)"

definition str_title :: "string \<Rightarrow> string" where
  "str_title s = title_from False s"

definition strip :: "string \<Rightarrow> string" where
  "strip s = rev (dropWhile is_space (rev (dropWhile is_space s)))"

text \<open>\<open>s.split()\<close>: the maximal runs of characters that are not whitespace.\<close>

fun words_from :: "string \<Rightarrow> string \<Rightarrow> string list" where
  "words_from w [] = (if w = [] then [] else [w])"
| "words_from w (c # cs) =
     (if is_space c then (if w = [] then words_from [] cs else w # words_from [] cs)
      else words_from (w @ [c]) cs)"

definition split_ws :: "string \<Rightarrow> string list" where
  "split_ws s = words_from [] s"

text \<open>\<open>s.split(sep)\<close> for a one-character separator: never empty, keeps empty pieces.\<close>

fun split_from :: "char \<Rightarrow> string \<Rightarrow> string \<Rightarrow> string list" where
  "split_from sep w [] = [w]"
| "split_from sep w (c # cs) =
     (if c = sep then w # split_from sep [] cs else split_from sep (w @ [c]) cs)"

definition split_on :: "char \<Rightarrow> string \<Rightarrow> string list" where
  "split_on sep s = split_from sep [] s"

definition newline :: char where
  "newline = CHR 0x0A"

text \<open>\<open>s.split('\n\n')\<close>.\<close>

fun split_blank_from :: "string \<Rightarrow> string \<Rightarrow> string list" where
  "split_blank_from w [] = [w]"
| "split_blank_from w [c] = [w @ [c]]"
| "split_blank_from w (a # b # cs) =
     (if a = newline \<and> b = newline then w # split_blank_from [] cs
      else split_blank_from (w @ [a]) (b # cs))"

definition split_paragraphs :: "string \<Rightarrow> string list" where
  "split_paragraphs s = split_blank_from [] s"

definition starts_with :: "string \<Rightarrow> string \<Rightarrow> bool" where
  "starts_with p s = (take (length p) s = p)"

text \<open>\<open>sub in s\<close> for strings.\<close>

fun contains :: "string \<Rightarrow> string \<Rightarrow> bool" where
  "contains [] sub = (sub = [])"
| "contains (c # cs) sub = (starts_with sub (c # cs) \<or> contains cs sub)"

text \<open>\<open>s.count(sub)\<close> for a non-empty \<open>sub\<close>: occurrences that do not overlap, from
  the left. The first argument is the number of characters still covered by the last
  occurrence.\<close>

fun count_from :: "nat \<Rightarrow> string \<Rightarrow> string \<Rightarrow> nat" where
  "count_from k sub [] = 0"
| "count_from 0 sub (c # cs) =
     (if starts_with sub (c # cs) then Suc (count_from (length sub - 1) sub cs)
      else count_from 0 sub cs)"
| "count_from (Suc k) sub (c # cs) = count_from k sub cs"

definition count_str :: "string \<Rightarrow> string \<Rightarrow> nat" where
  "count_str s sub = count_from 0 sub s"

fun join :: "string \<Rightarrow> string list \<Rightarrow> string" where
  "join sep [] = []"
| "join sep [x] = x"
| "join sep (x # y # ys) = x @ sep @ join sep (y # ys)"

definition replace_char :: "char \<Rightarrow> char \<Rightarrow> string \<Rightarrow> string" where
  "replace_char a b s = map (\<lambda>c. if c = a then b else c) s"

text \<open>\<open>round(x, n)\<close>.\<close>

definition round_half_even :: "rat \<Rightarrow> int" where
  "round_half_even y =
     (let f = \<lfloor>y\<rfloor>; d = y - of_int f
      in if d < 1 / 2 then f else if 1 / 2 < d then f + 1 else if even f then f else f + 1)"

definition py_round :: "rat \<Rightarrow> nat \<Rightarrow> rat" where
  "py_round x n = of_int (round_half_even (x * 10 ^ n)) / 10 ^ n"

text \<open>\<open>str(n)\<close> for an integer: its decimal digits. The first argument of
  \<open>digits_of\<close> bounds the number of digits.\<close>

definition digit_char :: "nat \<Rightarrow> char" where
  "digit_char d = char_of (48 + d)"

fun digits_of :: "nat \<Rightarrow> nat \<Rightarrow> string" where
  "digits_of 0 n = []"
| "digits_of (Suc fuel) n =
     (if n < 10 then [digit_char n] else digits_of fuel (n div 10) @ [digit_char (n mod 10)])"

definition str_int :: "int \<Rightarrow> string" where
  "str_int i =
     (if i < 0 then CHR ''-'' # digits_of (Suc (nat (- i))) (nat (- i))
      else digits_of (Suc (nat i)) (nat i))"

text \<open>A dictionary entry: the key is absent, its value is \<open>None\<close>, or it has a value.
  \<open>get_or f d\<close> is \<open>dict.get(key, d)\<close> and \<open>get f\<close> is \<open>dict.get(key)\<close>; their result
  \<open>None\<close> is Python's \<open>None\<close>.\<close>

datatype 'a field = Absent | PyNone | Val 'a

definition get_or :: "'a field \<Rightarrow> 'a \<Rightarrow> 'a option" where
  "get_or f d = (case f of Absent \<Rightarrow> Some d | PyNone \<Rightarrow> None | Val v \<Rightarrow> Some v)"

definition get :: "'a field \<Rightarrow> 'a option" where
  "get f = (case f of Absent \<Rightarrow> None | PyNone \<Rightarrow> None | Val v \<Rightarrow> Some v)"

definition truthy :: "string option \<Rightarrow> bool" where
  "truthy v = (case v of None \<Rightarrow> False | Some s \<Rightarrow> s \<noteq> [])"

datatype exn = KeyError string | AttributeError | TypeError | LibraryError string

text \<open>\<open>v.lower()\<close>: \<open>None\<close> has no such method.\<close>

definition lower_of :: "string option \<Rightarrow> exn + string" where
  "lower_of v = (case v of None \<Rightarrow> Inl AttributeError | Some s \<Rightarrow> Inr (lower s))"

section \<open>The matching engine (services/job\_matching\_engine.py)\<close>

record skill =
  skill_name :: "string field"
  skill_category :: "string field"
  proficiency_level :: "string field"

definition level_scores :: "(string \<times> nat) list" where
  "level_scores = [(''beginner'', 1), (''intermediate'', 2), (''advanced'', 3), (''expert'', 4)]"

definition calculate_skill_level_match :: "skill \<Rightarrow> skill \<Rightarrow> rat" where
  "calculate_skill_level_match candidate_skill job_skill =
     (case lower_of (get_or (proficiency_level candidate_skill) ''intermediate'') of
        Inl e \<Rightarrow> 1 / 2
      | Inr candidate_level \<Rightarrow>
          (case lower_of (get_or (proficiency_level job_skill) ''intermediate'') of
             Inl e \<Rightarrow> 1 / 2
           | Inr required_level \<Rightarrow>
               (let candidate_score = (case map_of level_scores candidate_level of
                                        Some n \<Rightarrow> n | None \<Rightarrow> 2);
                    required_score = (case map_of level_scores required_level of
                                        Some n \<Rightarrow> n | None \<Rightarrow> 2)
                in if required_score \<le> candidate_score then 1
                   else max 0 (1 - of_nat (required_score - candidate_score) * (25 / 100)))))"

text \<open>The dictionaries the engine reads. A key that callers may leave out or set to
  \<open>None\<close> is a \<open>field\<close>; a list-valued key is a list (the default of every read is
  \<open>[]\<close>); \<open>personal_info\<close> and \<open>contact_info\<close> are dictionaries (the default of every
  read is \<open>{}\<close>).\<close>

record work_exp =
  exp_job_title :: "string field"
  exp_company :: "string field"
  exp_duration :: "string field"
  exp_description :: "string field"

record education_entry =
  edu_field_of_study :: "string field"
  edu_degree :: "string field"

record personal =
  full_name :: "string field"

record contact =
  contact_email :: "string field"
  contact_location :: "string field"

record candidate =
  cand_id :: "int option"
  personal_info :: personal
  contact_info :: contact
  summary :: "string field"
  skills :: "skill list"
  education :: "education_entry list"
  work_experience :: "work_exp list"
  domain_expertise :: "string list"

record exp_req =
  min_years :: "rat field"
  max_years :: "rat field"
  level :: "string field"

text \<open>\<open>experience_requirements = None\<close>: the job has no such key.\<close>

record job =
  job_id :: "int option"
  title :: "string field"
  company :: "string field"
  location :: "string field"
  industry :: "string field"
  description :: "string field"
  requirements :: "string field"
  remote_ok :: "bool field"
  experience_requirements :: "exp_req option"
  required_skills :: "skill list"

text \<open>The engine's state that scoring reads: the flag \<open>_models_fitted\<close>, and what the
  fitted scikit-learn vectorizer and \<open>cosine_similarity\<close> return for two texts (the
  library is outside the repository).\<close>

record engine =
  models_fitted :: bool
  tfidf_cosine :: "string \<Rightarrow> string \<Rightarrow> exn + rat"

text \<open>\<open>datetime.now()\<close>: its ISO text and its year.\<close>

record clock =
  now_iso :: string
  now_year :: int

record matched_skill =
  ms_name :: string
  ms_candidate_level :: "string option"
  ms_required_level :: "string option"
  ms_match_score :: rat
  ms_weighted_score :: rat
  ms_category :: string

record missing_skill =
  mis_name :: string
  mis_required_level :: "string option"
  mis_category :: "string option"

text \<open>The explanatory texts, with the values the source formats into them.\<close>

datatype details =
    Insufficient_skill_data
  | Skills_matched nat nat
  | Years_experience rat string
  | Insufficient_domain_data
  | Direct_domain_match string
  | Compatible_domain string string
  | No_domain_expertise_match
  | Remote_work_available
  | Insufficient_location_data
  | Exact_location_match string
  | Compatible_locations string string
  | Different_locations string string
  | Insufficient_text_data
  | Tfidf_cosine_similarity rat
  | Keyword_based_similarity rat

text \<open>The dictionary a component scorer returns: \<open>score\<close> is always there, any other
  key is \<open>None\<close> when the dictionary does not have it.\<close>

record component =
  score :: rat
  error :: "exn option"
  details :: "details option"
  matched_skills :: "matched_skill list option"
  missing_skills :: "missing_skill list option"
  coverage_ratio :: "rat option"
  candidate_years :: "rat option"
  required_years :: "rat option"
  candidate_level :: "string option"
  required_level :: "string option option"
  years_score :: "rat option"
  level_score :: "rat option"
  industry_score :: "rat option"
  match_type :: "string option"
  matched_domain :: "string option"
  similarity_method :: "string option"

definition only_score :: "rat \<Rightarrow> component" where
  "only_score s =
     \<lparr>score = s, error = None, details = None, matched_skills = None, missing_skills = None,
      coverage_ratio = None, candidate_years = None, required_years = None,
      candidate_level = None, required_level = None, years_score = None, level_score = None,
      industry_score = None, match_type = None, matched_domain = None, similarity_method = None\<rparr>"

text \<open>\<open>except Exception as e: return {'score': 0.0, 'error': str(e)}\<close>.\<close>

definition on_error :: "exn + component \<Rightarrow> component" where
  "on_error r = (case r of Inl e \<Rightarrow> (only_score 0)\<lparr>error := Some e\<rparr> | Inr c \<Rightarrow> c)"

definition skill_weights :: "(string \<times> rat) list" where
  "skill_weights =
     [(''programming_languages'', 1), (''web_development'', 9 / 10),
      (''data_science'', 95 / 100), (''databases'', 8 / 10),
      (''cloud_technologies'', 85 / 100), (''mobile_development'', 8 / 10),
      (''design'', 7 / 10), (''project_management'', 75 / 100), (''soft_skills'', 6 / 10),
      (''cybersecurity'', 9 / 10), (''devops'', 85 / 100)]"

definition experience_levels :: "(string \<times> nat) list" where
  "experience_levels =
     [(''entry'', 0), (''junior'', 1), (''mid'', 2), (''senior'', 3), (''lead'', 4),
      (''principal'', 5), (''director'', 6)]"

definition domain_compatibility :: "(string \<times> string list) list" where
  "domain_compatibility =
     [(''technology'', [''technology'', ''finance'', ''healthcare'', ''education'', ''e-commerce'']),
      (''finance'', [''finance'', ''banking'', ''technology'', ''consulting'']),
      (''healthcare'', [''healthcare'', ''technology'', ''consulting'']),
      (''education'', [''education'', ''technology'', ''government'']),
      (''retail'', [''retail'', ''e-commerce'', ''technology'']),
      (''manufacturing'', [''manufacturing'', ''technology'', ''consulting'']),
      (''consulting'', [''consulting'', ''technology'', ''finance'', ''healthcare'']),
      (''government'', [''government'', ''technology'', ''defense'']),
      (''defense'', [''defense'', ''government'', ''technology'']),
      (''banking'', [''banking'', ''finance'', ''technology'']),
      (''automobile'', [''automobile'', ''manufacturing'', ''technology'']),
      (''e-commerce'', [''e-commerce'', ''retail'', ''technology''])]"

subsection \<open>Skills\<close>

text \<open>A dictionary keeps a key at the place of its first insertion and the value of its
  last.\<close>

fun dict_set :: "'k \<Rightarrow> 'v \<Rightarrow> ('k \<times> 'v) list \<Rightarrow> ('k \<times> 'v) list" where
  "dict_set k v [] = [(k, v)]"
| "dict_set k v (p # ps) = (if fst p = k then (k, v) # ps else p # dict_set k v ps)"

text \<open>\<open>skill['name'].lower()\<close>.\<close>

definition skill_key :: "skill \<Rightarrow> exn + string" where
  "skill_key s =
     (case skill_name s of
        Absent \<Rightarrow> Inl (KeyError ''name'')
      | PyNone \<Rightarrow> Inl AttributeError
      | Val n \<Rightarrow> Inr (lower n))"

text \<open>\<open>{skill['name'].lower(): skill for skill in skills}\<close>.\<close>

fun skill_dict_from :: "(string \<times> skill) list \<Rightarrow> skill list \<Rightarrow> exn + (string \<times> skill) list" where
  "skill_dict_from d [] = Inr d"
| "skill_dict_from d (s # ss) =
     (case skill_key s of Inl e \<Rightarrow> Inl e | Inr k \<Rightarrow> skill_dict_from (dict_set k s d) ss)"

definition skill_dict :: "skill list \<Rightarrow> exn + (string \<times> skill) list" where
  "skill_dict ss = skill_dict_from [] ss"

text \<open>The loop over \<open>job_skill_dict.items()\<close>; its state is \<open>matched_skills\<close>,
  \<open>missing_skills\<close> and \<open>skill_scores\<close>.\<close>

fun skill_loop ::
  "(string \<times> skill) list \<Rightarrow> (string \<times> skill) list \<Rightarrow>
   matched_skill list \<times> missing_skill list \<times> rat list \<Rightarrow>
   exn + matched_skill list \<times> missing_skill list \<times> rat list" where
  "skill_loop candidate_skill_dict [] st = Inr st"
| "skill_loop candidate_skill_dict ((job_skill_name, job_skill) # rest)
     (matched, missing, skill_scores) =
     (case map_of candidate_skill_dict job_skill_name of
        Some candidate_skill \<Rightarrow>
          (let skill_match_score = calculate_skill_level_match candidate_skill job_skill
           in case lower_of (get_or (skill_category job_skill) ''technical'') of
                Inl e \<Rightarrow> Inl e
              | Inr c \<Rightarrow>
                  (let category = replace_char CHR '' '' CHR ''_'' c;
                       weight = (case map_of skill_weights category of
                                   Some w \<Rightarrow> w | None \<Rightarrow> 7 / 10);
                       weighted_score = skill_match_score * weight
                   in skill_loop candidate_skill_dict rest
                        (matched @
                           [\<lparr>ms_name = str_title job_skill_name,
                             ms_candidate_level = get_or (proficiency_level candidate_skill) ''unknown'',
                             ms_required_level = get_or (proficiency_level job_skill) ''intermediate'',
                             ms_match_score = skill_match_score,
                             ms_weighted_score = weighted_score,
                             ms_category = category\<rparr>],
                         missing, skill_scores @ [weighted_score])))
      | None \<Rightarrow>
          skill_loop candidate_skill_dict rest
            (matched,
             missing @
               [\<lparr>mis_name = str_title job_skill_name,
                 mis_required_level = get_or (proficiency_level job_skill) ''intermediate'',
                 mis_category = get_or (skill_category job_skill) ''technical''\<rparr>],
             skill_scores))"

text \<open>The body of the \<open>try\<close> of \<open>_calculate_skill_match\<close>; \<open>Inl\<close> is the exception
  it raises.\<close>

definition skill_match_body :: "candidate \<Rightarrow> job \<Rightarrow> exn + component" where
  "skill_match_body c j =
     (let candidate_skills = skills c; job_skills = required_skills j
      in if candidate_skills = [] \<or> job_skills = []
         then Inr ((only_score 0)\<lparr>details := Some Insufficient_skill_data\<rparr>)
         else
           (case skill_dict candidate_skills of
              Inl e \<Rightarrow> Inl e
            | Inr candidate_skill_dict \<Rightarrow>
                (case skill_dict job_skills of
                   Inl e \<Rightarrow> Inl e
                 | Inr job_skill_dict \<Rightarrow>
                     (case skill_loop candidate_skill_dict job_skill_dict ([], [], []) of
                        Inl e \<Rightarrow> Inl e
                      | Inr (matched, missing, skill_scores) \<Rightarrow>
                          (let overall_score =
                                 (if skill_scores \<noteq> []
                                  then (sum_list skill_scores / of_nat (length skill_scores)) *
                                       (of_nat (length matched) / of_nat (length job_skills))
                                  else 0)
                           in Inr ((only_score (py_round overall_score 3))
                                \<lparr>matched_skills := Some matched,
                                  missing_skills := Some missing,
                                  coverage_ratio :=
                                    Some (py_round (of_nat (length matched) /
                                                    of_nat (length job_skills)) 3),
                                  details :=
                                    Some (Skills_matched (length matched)
                                            (length job_skills))\<rparr>))))))"

definition calculate_skill_match :: "candidate \<Rightarrow> job \<Rightarrow> component" where
  "calculate_skill_match c j = on_error (skill_match_body c j)"

subsection \<open>Experience\<close>

text \<open>\<open>re.search\<close>: the match at the leftmost position that has one. The three
  patterns of \<open>_parse_duration_to_years\<close> are matched by hand; in each of them a greedy
  repetition is followed by something its own characters cannot start, so the first
  attempt at a position is the only one that can succeed.\<close>

fun search_from :: "(string \<Rightarrow> 'a option) \<Rightarrow> string \<Rightarrow> 'a option" where
  "search_from match_at [] = match_at []"
| "search_from match_at (c # cs) =
     (case match_at (c # cs) of Some g \<Rightarrow> Some g | None \<Rightarrow> search_from match_at cs)"

text \<open>\<open>(\d+(?:\.\d+)?)\s*(?:year|yr)\<close> at the start of \<open>s\<close>: group 1.\<close>

definition year_at :: "string \<Rightarrow> string option" where
  "year_at s =
     (let whole = takeWhile is_digit s; r = dropWhile is_digit s
      in if whole = [] then None
         else
           (let frac = (case r of [] \<Rightarrow> []
                        | d # r' \<Rightarrow> if d = CHR ''.'' then takeWhile is_digit r' else []);
                number = (if frac = [] then whole else whole @ ''.'' @ frac);
                r2 = (if frac = [] then r else dropWhile is_digit (tl r));
                r3 = dropWhile is_space r2
            in if starts_with ''year'' r3 \<or> starts_with ''yr'' r3 then Some number else None))"

text \<open>\<open>(\d+)\s*(?:month|mo)\<close> at the start of \<open>s\<close>: group 1.\<close>

definition month_at :: "string \<Rightarrow> string option" where
  "month_at s =
     (let number = takeWhile is_digit s; r = dropWhile is_space (dropWhile is_digit s)
      in if number = [] then None
         else if starts_with ''month'' r \<or> starts_with ''mo'' r then Some number else None)"

text \<open>\<open>(\d{4})\s*[-...]\s*(\d{4}|present|current)\<close> at the start of \<open>s\<close>: groups 1
  and 2. The hyphen is the only ASCII character of the class.\<close>

definition four_digits :: "string \<Rightarrow> bool" where
  "four_digits s = (length (take 4 s) = 4 \<and> list_all is_digit (take 4 s))"

definition date_at :: "string \<Rightarrow> (string \<times> string) option" where
  "date_at s =
     (if four_digits s
      then (case dropWhile is_space (drop 4 s) of
              [] \<Rightarrow> None
            | d # r \<Rightarrow>
                if d = CHR ''-''
                then (let r2 = dropWhile is_space r
                      in if four_digits r2 then Some (take 4 s, take 4 r2)
                         else if starts_with ''present'' r2 then Some (take 4 s, ''present'')
                         else if starts_with ''current'' r2 then Some (take 4 s, ''current'')
                         else None)
                else None)
      else None)"

text \<open>\<open>int(s)\<close> and \<open>float(s)\<close> on the text a group matched: digits, or digits with a
  fraction.\<close>

definition digits_value :: "string \<Rightarrow> nat" where
  "digits_value s = foldl (\<lambda>n c. 10 * n + ((of_char c :: nat) - 48)) 0 s"

definition float_of :: "string \<Rightarrow> rat" where
  "float_of s =
     (let whole = takeWhile is_digit s; frac = drop (length whole + 1) s
      in of_nat (digits_value whole) + of_nat (digits_value frac) / 10 ^ length frac)"

text \<open>The argument is the value of \<open>duration\<close>; no statement of the \<open>try\<close> raises on
  \<open>None\<close> or on a string.\<close>

definition parse_duration_to_years :: "clock \<Rightarrow> string option \<Rightarrow> rat" where
  "parse_duration_to_years clk duration =
     (case duration of
        None \<Rightarrow> 0
      | Some d0 \<Rightarrow>
          if d0 = [] then 0
          else
            (let d = lower d0
             in case search_from year_at d of
                  Some g \<Rightarrow> float_of g
                | None \<Rightarrow>
                    (case search_from month_at d of
                       Some g \<Rightarrow> float_of g / 12
                     | None \<Rightarrow>
                         (case search_from date_at d of
                            Some (g1, g2) \<Rightarrow>
                              (let start_year = int (digits_value g1);
                                   end_year = (if lower g2 \<in> set [''present'', ''current'']
                                               then now_year clk else int (digits_value g2))
                               in of_int (max 0 (end_year - start_year)))
                          | None \<Rightarrow> 1))))"

definition calculate_years_of_experience :: "clock \<Rightarrow> work_exp list \<Rightarrow> rat" where
  "calculate_years_of_experience clk experience =
     sum_list (map (\<lambda>e. parse_duration_to_years clk (get_or (exp_duration e) [])) experience)"

definition determine_experience_level :: "rat \<Rightarrow> string" where
  "determine_experience_level years =
     (if years < 1 then ''entry''
      else if years < 3 then ''junior''
      else if years < 6 then ''mid''
      else if years < 10 then ''senior''
      else if years < 15 then ''lead''
      else ''principal'')"

text \<open>\<open>required_level\<close> may be \<open>None\<close>, which is not a key of the table.\<close>

definition calculate_level_match :: "string \<Rightarrow> string option \<Rightarrow> rat" where
  "calculate_level_match cand_level req_level =
     (let candidate_score = (case map_of experience_levels cand_level of
                               Some n \<Rightarrow> n | None \<Rightarrow> 2);
          required_score = (case req_level of
                              None \<Rightarrow> 2
                            | Some l \<Rightarrow> (case map_of experience_levels l of
                                          Some n \<Rightarrow> n | None \<Rightarrow> 2))
      in if required_score \<le> candidate_score
         then (if candidate_score - required_score \<le> 1 then 1
               else max (7 / 10)
                      (1 - of_nat (candidate_score - required_score - 1) * (1 / 10)))
         else max 0 (1 - of_nat (required_score - candidate_score) * (2 / 10)))"

text \<open>The loop of \<open>_calculate_industry_experience_match\<close>: \<open>None + ' '\<close> raises.\<close>

fun industry_matches :: "string \<Rightarrow> work_exp list \<Rightarrow> exn + nat" where
  "industry_matches job_industry [] = Inr 0"
| "industry_matches job_industry (e # es) =
     (case (get_or (exp_description e) [], get_or (exp_company e) []) of
        (Some d, Some c) \<Rightarrow>
          (case industry_matches job_industry es of
             Inl x \<Rightarrow> Inl x
           | Inr n \<Rightarrow>
               Inr (if contains (lower (d @ '' '' @ c)) job_industry then Suc n else n))
      | _ \<Rightarrow> Inl TypeError)"

definition calculate_industry_experience_match :: "work_exp list \<Rightarrow> string option \<Rightarrow> rat" where
  "calculate_industry_experience_match experience job_industry =
     (if \<not> truthy job_industry \<or> experience = [] then 1 / 2
      else
        (case lower_of job_industry of
           Inl e \<Rightarrow> 1 / 2
         | Inr ji \<Rightarrow>
             (case industry_matches ji experience of
                Inl e \<Rightarrow> 1 / 2
              | Inr n \<Rightarrow>
                  if 0 < n then min 1 (of_nat n / of_nat (length experience) + 3 / 10)
                  else 3 / 10)))"

definition no_requirements :: exp_req where
  "no_requirements = \<lparr>min_years = Absent, max_years = Absent, level = Absent\<rparr>"

text \<open>The years score: comparing with \<open>None\<close> raises, and \<open>max_years\<close> is read only
  when the candidate has the required years.\<close>

definition years_match :: "rat \<Rightarrow> rat option \<Rightarrow> rat option \<Rightarrow> exn + rat" where
  "years_match cand_years req_years maximum =
     (case req_years of
        None \<Rightarrow> Inl TypeError
      | Some r \<Rightarrow>
          if r \<le> cand_years
          then (case maximum of
                  None \<Rightarrow> Inl TypeError
                | Some m \<Rightarrow>
                    if cand_years \<le> m then Inr 1
                    else Inr (max (7 / 10) (1 - (cand_years - m) * (5 / 100))))
          else Inr (max 0 (1 - (r - cand_years) * (15 / 100))))"

definition experience_match_body :: "clock \<Rightarrow> candidate \<Rightarrow> job \<Rightarrow> exn + component" where
  "experience_match_body clk c j =
     (let candidate_experience = work_experience c;
          job_requirements = (case experience_requirements j of
                                None \<Rightarrow> no_requirements | Some r \<Rightarrow> r);
          cand_years = calculate_years_of_experience clk candidate_experience;
          req_years = get_or (min_years job_requirements) 0;
          maximum = get_or (max_years job_requirements) 20;
          cand_level = determine_experience_level cand_years;
          req_level = get_or (level job_requirements) ''mid''
      in case years_match cand_years req_years maximum of
           Inl e \<Rightarrow> Inl e
         | Inr ys \<Rightarrow>
             (let ls = calculate_level_match cand_level req_level;
                  is = calculate_industry_experience_match candidate_experience
                         (get_or (industry j) []);
                  overall_score = ys * (4 / 10) + ls * (4 / 10) + is * (2 / 10)
              in Inr ((only_score (py_round overall_score 3))
                   \<lparr>candidate_years := Some cand_years,
                     required_years := req_years,
                     candidate_level := Some cand_level,
                     required_level := Some req_level,
                     years_score := Some (py_round ys 3),
                     level_score := Some (py_round ls 3),
                     industry_score := Some (py_round is 3),
                     details := Some (Years_experience cand_years cand_level)\<rparr>)))"

definition calculate_experience_match :: "clock \<Rightarrow> candidate \<Rightarrow> job \<Rightarrow> component" where
  "calculate_experience_match clk c j = on_error (experience_match_body clk c j)"

subsection \<open>Domain, location and semantic similarity\<close>

definition domain_match_body :: "candidate \<Rightarrow> job \<Rightarrow> exn + component" where
  "domain_match_body c j =
     (let candidate_domains = domain_expertise c
      in case lower_of (get_or (industry j) []) of
           Inl e \<Rightarrow> Inl e
         | Inr job_domain \<Rightarrow>
             if candidate_domains = [] \<or> job_domain = []
             then Inr ((only_score (1 / 2))\<lparr>details := Some Insufficient_domain_data\<rparr>)
             else if job_domain \<in> set (map lower candidate_domains)
             then Inr ((only_score 1)
                    \<lparr>match_type := Some ''direct'', matched_domain := Some job_domain,
                      details := Some (Direct_domain_match job_domain)\<rparr>)
             else
               (let compatible_domains = (case map_of domain_compatibility job_domain of
                                            Some ds \<Rightarrow> ds | None \<Rightarrow> [])
                in case find (\<lambda>d. lower d \<in> set compatible_domains) candidate_domains of
                     Some candidate_domain \<Rightarrow>
                       Inr ((only_score (7 / 10))
                         \<lparr>match_type := Some ''compatible'',
                           matched_domain := Some candidate_domain,
                           details := Some (Compatible_domain candidate_domain job_domain)\<rparr>)
                   | None \<Rightarrow>
                       Inr ((only_score (3 / 10))
                         \<lparr>match_type := Some ''none'',
                           details := Some No_domain_expertise_match\<rparr>)))"

definition calculate_domain_match :: "candidate \<Rightarrow> job \<Rightarrow> component" where
  "calculate_domain_match c j = on_error (domain_match_body c j)"

definition locations_compatible :: "string \<Rightarrow> string \<Rightarrow> bool" where
  "locations_compatible loc1 loc2 =
     (let loc1_parts = split_ws (replace_char CHR '','' CHR '' '' loc1);
          loc2_parts = split_ws (replace_char CHR '','' CHR '' '' loc2)
      in list_ex (\<lambda>w. w \<in> set loc2_parts) loc1_parts)"

definition location_match_body :: "candidate \<Rightarrow> job \<Rightarrow> exn + component" where
  "location_match_body c j =
     (case lower_of (get_or (contact_location (contact_info c)) []) of
        Inl e \<Rightarrow> Inl e
      | Inr candidate_location \<Rightarrow>
          (case lower_of (get_or (location j) []) of
             Inl e \<Rightarrow> Inl e
           | Inr job_location \<Rightarrow>
               if get_or (remote_ok j) False = Some True
               then Inr ((only_score 1)
                      \<lparr>match_type := Some ''remote'', details := Some Remote_work_available\<rparr>)
               else if candidate_location = [] \<or> job_location = []
               then Inr ((only_score (1 / 2))\<lparr>details := Some Insufficient_location_data\<rparr>)
               else if candidate_location = job_location
               then Inr ((only_score 1)
                      \<lparr>match_type := Some ''exact'',
                        details := Some (Exact_location_match job_location)\<rparr>)
               else if locations_compatible candidate_location job_location
               then Inr ((only_score (8 / 10))
                      \<lparr>match_type := Some ''compatible'',
                        details := Some (Compatible_locations candidate_location job_location)\<rparr>)
               else Inr ((only_score (2 / 10))
                      \<lparr>match_type := Some ''different'',
                        details := Some (Different_locations candidate_location job_location)\<rparr>)))"

definition calculate_location_match :: "candidate \<Rightarrow> job \<Rightarrow> component" where
  "calculate_location_match c j = on_error (location_match_body c j)"

text \<open>\<open>' '.join(text_parts)\<close> raises on a part that is \<open>None\<close>, and the text is then
  \<open>''\<close>.\<close>

definition join_parts :: "string option list \<Rightarrow> string" where
  "join_parts text_parts =
     (case those text_parts of None \<Rightarrow> [] | Some ps \<Rightarrow> join '' '' ps)"

definition part_if_truthy :: "string field \<Rightarrow> string option list" where
  "part_if_truthy f = (if truthy (get f) then [get f] else [])"

definition prepare_candidate_text :: "candidate \<Rightarrow> string" where
  "prepare_candidate_text c =
     join_parts
       (part_if_truthy (summary c) @
        concat (map (\<lambda>e. part_if_truthy (exp_description e) @ part_if_truthy (exp_job_title e))
                  (work_experience c)) @
        map (\<lambda>s. get_or (skill_name s) []) (skills c) @
        concat (map (\<lambda>e. part_if_truthy (edu_field_of_study e) @ part_if_truthy (edu_degree e))
                  (education c)))"

definition prepare_job_text :: "job \<Rightarrow> string" where
  "prepare_job_text j =
     join_parts
       (part_if_truthy (title j) @ part_if_truthy (description j) @
        part_if_truthy (requirements j) @
        map (\<lambda>s. get_or (skill_name s) []) (required_skills j) @
        part_if_truthy (industry j))"

definition stop_words :: "string list" where
  "stop_words =
     [''the'', ''and'', ''or'', ''but'', ''in'', ''on'', ''at'', ''to'', ''for'', ''of'',
      ''with'', ''by'']"

text \<open>A set of words is a list without repetition.\<close>

definition word_set :: "string \<Rightarrow> string list" where
  "word_set text = filter (\<lambda>w. w \<notin> set stop_words) (remdups (split_ws (lower text)))"

definition calculate_keyword_similarity :: "string \<Rightarrow> string \<Rightarrow> rat" where
  "calculate_keyword_similarity text1 text2 =
     (let words1 = word_set text1; words2 = word_set text2
      in if words1 = [] \<or> words2 = [] then 0
         else
           (let intersection = filter (\<lambda>w. w \<in> set words2) words1;
                union = remdups (words1 @ words2)
            in if union \<noteq> [] then of_nat (length intersection) / of_nat (length union)
               else 0))"

text \<open>The fallback of \<open>_calculate_semantic_match\<close>.\<close>

definition keyword_based :: "string \<Rightarrow> string \<Rightarrow> component" where
  "keyword_based candidate_text job_text =
     (let similarity = calculate_keyword_similarity candidate_text job_text
      in (only_score (py_round similarity 3))
           \<lparr>similarity_method := Some ''keyword_based'',
             details := Some (Keyword_based_similarity similarity)\<rparr>)"

text \<open>No statement of the outer \<open>try\<close> of \<open>_calculate_semantic_match\<close> raises: the text
  preparation and the keyword similarity catch their own exceptions, and an exception of
  the vectorizer is passed over.\<close>

definition calculate_semantic_match :: "engine \<Rightarrow> candidate \<Rightarrow> job \<Rightarrow> component" where
  "calculate_semantic_match eng c j =
     (let candidate_text = prepare_candidate_text c; job_text = prepare_job_text j
      in if candidate_text = [] \<or> job_text = []
         then (only_score 0)\<lparr>details := Some Insufficient_text_data\<rparr>
         else if models_fitted eng
         then (case tfidf_cosine eng candidate_text job_text of
                 Inr similarity \<Rightarrow>
                   (only_score (py_round similarity 3))
                     \<lparr>similarity_method := Some ''tfidf_cosine'',
                       details := Some (Tfidf_cosine_similarity similarity)\<rparr>
               | Inl e \<Rightarrow> keyword_based candidate_text job_text)
         else keyword_based candidate_text job_text)"

subsection \<open>The match score\<close>

definition candidate_completeness :: "candidate \<Rightarrow> rat" where
  "candidate_completeness c =
     (if truthy (get (full_name (personal_info c))) then 1 / 10 else 0) +
     (if truthy (get (contact_email (contact_info c))) then 1 / 10 else 0) +
     (if skills c \<noteq> [] then 3 / 10 else 0) +
     (if work_experience c \<noteq> [] then 3 / 10 else 0) +
     (if education c \<noteq> [] then 1 / 10 else 0) +
     (if truthy (get (summary c)) then 1 / 10 else 0)"

text \<open>The dictionary \<open>experience_requirements\<close> is true when it has a key.\<close>

definition job_completeness :: "job \<Rightarrow> rat" where
  "job_completeness j =
     (if truthy (get (title j)) then 2 / 10 else 0) +
     (if truthy (get (description j)) then 3 / 10 else 0) +
     (if required_skills j \<noteq> [] then 3 / 10 else 0) +
     (case experience_requirements j of
        None \<Rightarrow> 0
      | Some r \<Rightarrow> if r = no_requirements then 0 else 1 / 10) +
     (if truthy (get (location j)) then 1 / 10 else 0)"

definition calculate_confidence :: "candidate \<Rightarrow> job \<Rightarrow> rat" where
  "calculate_confidence c j = (candidate_completeness c + job_completeness j) / 2"

datatype reason =
    Strong_skill_match nat
  | Good_experience_match rat string
  | Direct_industry_experience_match
  | Compatible_industry_background
  | Partial_match

definition generate_match_reasons :: "component \<Rightarrow> component \<Rightarrow> component \<Rightarrow> reason list" where
  "generate_match_reasons skill_score exp_score domain_score =
     (let reasons =
            (if 7 / 10 < score skill_score
             then [Strong_skill_match
                     (length (case matched_skills skill_score of None \<Rightarrow> [] | Some m \<Rightarrow> m))]
             else []) @
            (if 7 / 10 < score exp_score
             then [Good_experience_match
                     (case candidate_years exp_score of None \<Rightarrow> 0 | Some y \<Rightarrow> y)
                     (case candidate_level exp_score of None \<Rightarrow> ''unknown'' | Some l \<Rightarrow> l)]
             else []) @
            (if 7 / 10 < score domain_score
             then (if match_type domain_score = Some ''direct''
                   then [Direct_industry_experience_match]
                   else if match_type domain_score = Some ''compatible''
                   then [Compatible_industry_background]
                   else [])
             else [])
      in if reasons = [] then [Partial_match] else reasons)"

record breakdown =
  b_skills :: component
  b_experience :: component
  b_domain :: component
  b_location :: component
  b_semantic :: component

record weights =
  w_skills :: rat
  w_experience :: rat
  w_domain :: rat
  w_location :: rat
  w_semantic :: rat

text \<open>The dictionary \<open>calculate_match_score\<close> returns; \<open>failure\<close> is its key
  \<open>error\<close>.\<close>

record match_result =
  overall_score :: rat
  confidence :: rat
  failure :: "exn option"
  match_breakdown :: "breakdown option"
  match_weights :: "weights option"
  match_reasons :: "reason list option"
  calculated_at :: string

definition score_weights :: weights where
  "score_weights =
     \<lparr>w_skills = 35 / 100, w_experience = 25 / 100, w_domain = 15 / 100,
      w_location = 10 / 100, w_semantic = 15 / 100\<rparr>"

text \<open>The body of the \<open>try\<close> of \<open>calculate_match_score\<close>. Every scorer it calls
  returns a dictionary with a score, so nothing in it raises.\<close>

definition match_score_body :: "engine \<Rightarrow> clock \<Rightarrow> candidate \<Rightarrow> job \<Rightarrow> exn + match_result" where
  "match_score_body eng clk c j =
     (let skill_score = calculate_skill_match c j;
          experience_score = calculate_experience_match clk c j;
          domain_score = calculate_domain_match c j;
          location_score = calculate_location_match c j;
          semantic_score = calculate_semantic_match eng c j;
          total =
            score skill_score * w_skills score_weights +
            score experience_score * w_experience score_weights +
            score domain_score * w_domain score_weights +
            score location_score * w_location score_weights +
            score semantic_score * w_semantic score_weights
      in Inr \<lparr>overall_score = py_round total 3,
               confidence = py_round (calculate_confidence c j) 3,
               failure = None,
               match_breakdown =
                 Some \<lparr>b_skills = skill_score, b_experience = experience_score,
                        b_domain = domain_score, b_location = location_score,
                        b_semantic = semantic_score\<rparr>,
               match_weights = Some score_weights,
               match_reasons =
                 Some (generate_match_reasons skill_score experience_score domain_score),
               calculated_at = now_iso clk\<rparr>)"

definition calculate_match_score :: "engine \<Rightarrow> clock \<Rightarrow> candidate \<Rightarrow> job \<Rightarrow> match_result" where
  "calculate_match_score eng clk c j =
     (case match_score_body eng clk c j of
        Inr r \<Rightarrow> r
      | Inl e \<Rightarrow>
          \<lparr>overall_score = 0, confidence = 0, failure = Some e, match_breakdown = None,
           match_weights = None, match_reasons = None, calculated_at = now_iso clk\<rparr>)"

subsection \<open>Ranking\<close>

text \<open>\<open>xs[:limit]\<close>: a negative limit counts from the end.\<close>

definition slice_to :: "int \<Rightarrow> 'a list \<Rightarrow> 'a list" where
  "slice_to limit xs =
     (if 0 \<le> limit then take (nat limit) xs else take (length xs - nat (- limit)) xs)"

record job_match =
  jm_job_id :: "int option"
  jm_job_title :: "string option"
  jm_company :: "string option"
  jm_location :: "string option"
  jm_match_score :: rat
  jm_confidence :: rat
  jm_match_breakdown :: "breakdown option"
  jm_match_reasons :: "reason list"
  jm_job_data :: job

definition job_entry :: "engine \<Rightarrow> clock \<Rightarrow> candidate \<Rightarrow> job \<Rightarrow> job_match" where
  "job_entry eng clk c j =
     (let match_result = calculate_match_score eng clk c j
      in \<lparr>jm_job_id = job_id j,
          jm_job_title = get_or (title j) ''Unknown Title'',
          jm_company = get_or (company j) ''Unknown Company'',
          jm_location = get_or (location j) ''Unknown Location'',
          jm_match_score = overall_score match_result,
          jm_confidence = confidence match_result,
          jm_match_breakdown = match_breakdown match_result,
          jm_match_reasons = (case match_reasons match_result of None \<Rightarrow> [] | Some rs \<Rightarrow> rs),
          jm_job_data = j\<rparr>)"

text \<open>\<open>list.sort(key=..., reverse=True)\<close> is a stable sort by descending key:
  \<open>sort_key\<close> on the negated key.\<close>

definition find_best_matches ::
  "engine \<Rightarrow> clock \<Rightarrow> candidate \<Rightarrow> job list \<Rightarrow> int \<Rightarrow> job_match list" where
  "find_best_matches eng clk c jobs limit =
     (let matches = filter (\<lambda>m. 0 < jm_match_score m) (map (job_entry eng clk c) jobs)
      in slice_to limit (sort_key (\<lambda>m. - jm_match_score m) matches))"

record candidate_match =
  cm_candidate_id :: "int option"
  cm_candidate_name :: "string option"
  cm_email :: "string option"
  cm_experience_years :: rat
  cm_top_skills :: "string option list"
  cm_match_score :: rat
  cm_confidence :: rat
  cm_match_breakdown :: "breakdown option"
  cm_match_reasons :: "reason list"
  cm_candidate_data :: candidate

definition candidate_entry :: "engine \<Rightarrow> clock \<Rightarrow> job \<Rightarrow> candidate \<Rightarrow> candidate_match" where
  "candidate_entry eng clk j c =
     (let match_result = calculate_match_score eng clk c j
      in \<lparr>cm_candidate_id = cand_id c,
          cm_candidate_name = get_or (full_name (personal_info c)) ''Unknown'',
          cm_email = get_or (contact_email (contact_info c)) [],
          cm_experience_years = calculate_years_of_experience clk (work_experience c),
          cm_top_skills = map (\<lambda>s. get (skill_name s)) (take 5 (skills c)),
          cm_match_score = overall_score match_result,
          cm_confidence = confidence match_result,
          cm_match_breakdown = match_breakdown match_result,
          cm_match_reasons = (case match_reasons match_result of None \<Rightarrow> [] | Some rs \<Rightarrow> rs),
          cm_candidate_data = c\<rparr>)"

definition find_best_candidates ::
  "engine \<Rightarrow> clock \<Rightarrow> job \<Rightarrow> candidate list \<Rightarrow> int \<Rightarrow> candidate_match list" where
  "find_best_candidates eng clk j candidates limit =
     (let matches = filter (\<lambda>m. 0 < cm_match_score m) (map (candidate_entry eng clk j) candidates)
      in slice_to limit (sort_key (\<lambda>m. - cm_match_score m) matches))"

section \<open>The parsing services\<close>

text \<open>An uploaded file: its attribute \<open>filename\<close> (absent, \<open>None\<close> or a string)
  and its bytes. Every provider rewinds the stream
  (\<open>file.seek(0)\<close>) before it reads, so a read gives the whole content.\<close>

record upload =
  filename :: "string field"
  content :: string

text \<open>An exception, by its message \<open>str(e)\<close>.\<close>

type_synonym message = string

text \<open>The answer of the OCR.space service: the status code and what \<open>response.json()\<close>
  gives (the truth of \<open>IsErroredOnProcessing\<close>, \<open>ErrorMessage\<close>, and the
  \<open>ParsedText\<close> entry of each dictionary of \<open>ParsedResults\<close>).\<close>

record ocr_result =
  is_errored_on_processing :: bool
  error_message :: "string field"
  parsed_results :: "string field list"

record response =
  status_code :: int
  json :: "message + ocr_result"

text \<open>What the parsers read from a spaCy document: the entities (text and label),
  the matches of the matcher (pattern name and text of the span), and the number of
  sentences.\<close>

record doc =
  ents :: "(string \<times> string) list"
  matcher :: "(string \<times> string) list"
  sents :: nat

text \<open>The regular expressions the parsers hand to the \<open>re\<close> module:
  \<^item> \<open>Email\<close>: \<open>\b[A-Za-z0-9._%+-]+@[A-Za-z0-9.-]+\.[A-Z|a-z]{2,}\b\<close>
  \<^item> \<open>Phone\<close>: \<open>\b(?:\+?1[-.\s]?)?\(?[0-9]{3}\)?[-.\s]?[0-9]{3}[-.\s]?[0-9]{4}\b\<close>
  \<^item> \<open>Linkedin\<close>: \<open>linkedin\.com/in/[\w-]+\<close>, ignoring case
  \<^item> \<open>Degree_in\<close>: \<open>\b(bachelor|master|phd|doctorate|bs|ba|ms|ma|mba)\b.*?(?:in|of)\s+([^.\n]+)\<close>,
    ignoring case
  \<^item> \<open>Degree_possessive\<close>: \<open>\b(bachelor\'s|master\'s)\s+(?:degree\s+)?(?:in|of)\s+([^.\n]+)\<close>,
    ignoring case
  \<^item> \<open>Job_title\<close>: \<open>\b(software engineer|developer|manager|analyst|consultant|director)\b\<close>,
    ignoring case
  \<^item> \<open>Job_rank\<close>: \<open>\b(senior|junior|lead)\s+(engineer|developer|manager|analyst)\b\<close>,
    ignoring case
  \<^item> \<open>Year\<close>: \<open>\b(19|20)\d{2}\b\<close>
  \<^item> \<open>Legacy_phone\<close>: \<open>(\+?\d{1,3}[-.\s]?)?\(?\d{3}\)?[-.\s]?\d{3}[-.\s]?\d{4}\<close>
\<close>

datatype pattern =
    Email | Phone | Linkedin | Degree_in | Degree_possessive | Job_title | Job_rank | Year
  | Legacy_phone

text \<open>The libraries and the process environment, outside the repository:
  \<^item> \<open>getenv_api_key\<close>: \<open>os.getenv('OCR_SPACE_API_KEY')\<close>;
  \<^item> \<open>requests_post\<close>: the request to OCR.space with a key and a file;
  \<^item> \<open>pdf_pages\<close>: \<open>PyPDF2.PdfReader\<close> and \<open>extract_text\<close> of each page;
  \<^item> \<open>docx_paragraphs\<close>: \<open>docx.Document\<close> and the text of each paragraph;
  \<^item> \<open>ocr_file_psm6\<close>: \<open>Image.open\<close>, \<open>convert('RGB')\<close> and
    \<open>image_to_string\<close> with \<open>--psm 6\<close>; \<open>ocr_file\<close>: \<open>Image.open\<close> and
    \<open>image_to_string\<close>;
  \<^item> \<open>pdf_to_images\<close>: \<open>pdf2image.convert_from_bytes\<close> (with its import);
    \<open>ocr_page_psm6\<close>: \<open>image_to_string\<close> with \<open>--psm 6\<close> on one of its images;
  \<^item> \<open>decode_ignore\<close>, \<open>decode_strict\<close>: \<open>bytes.decode('utf-8', errors='ignore')\<close>
    and \<open>bytes.decode('utf-8')\<close>;
  \<^item> \<open>nlp\<close>: the spaCy pipeline with the matcher's patterns;
  \<^item> \<open>re_search\<close>: the text of the first match; \<open>re_finditer\<close>: for each match
    its text, its group 1 and its group 2 (empty when the pattern has one group);
    \<open>re_findall\<close>: for each match the text of its one group, or its own text when
    the pattern has no group;
  \<^item> \<open>secure_filename\<close>: werkzeug's function;
  \<^item> \<open>legacy_requests_post\<close>: the request of the first parsing service to OCR.space,
    with a key, the file (name and bytes) and its extension;
  \<^item> \<open>extensions_order\<close>: the order in which this process iterates over the set
    \<open>ALLOWED_EXTENSIONS\<close>.
  \<open>Inl\<close> is an exception.\<close>

record env =
  getenv_api_key :: "string option"
  requests_post :: "string \<Rightarrow> upload \<Rightarrow> message + response"
  pdf_pages :: "string \<Rightarrow> message + string list"
  docx_paragraphs :: "string \<Rightarrow> message + string list"
  ocr_file_psm6 :: "string \<Rightarrow> message + string"
  ocr_file :: "string \<Rightarrow> message + string"
  pdf_to_images :: "string \<Rightarrow> message + string list"
  ocr_page_psm6 :: "string \<Rightarrow> message + string"
  decode_ignore :: "string \<Rightarrow> string"
  decode_strict :: "string \<Rightarrow> message + string"
  nlp :: "string \<Rightarrow> message + doc"
  re_search :: "pattern \<Rightarrow> string \<Rightarrow> string option"
  re_finditer :: "pattern \<Rightarrow> string \<Rightarrow> (string \<times> string \<times> string) list"
  re_findall :: "pattern \<Rightarrow> string \<Rightarrow> string list"
  secure_filename :: "string \<Rightarrow> string"
  legacy_requests_post :: "string \<Rightarrow> string option \<times> string \<Rightarrow> string \<Rightarrow> message + response"
  extensions_order :: "string list"

text \<open>The parsed resume. A key of \<open>personal_info\<close> or \<open>contact_info\<close> that the
  parser did not set is \<open>None\<close>.\<close>

record personal_out =
  pi_full_name :: "string option"
  pi_first_name :: "string option"
  pi_last_name :: "string option"
  pi_location :: "string option"

record contact_out =
  co_email :: "string option"
  co_phone :: "string option"
  co_linkedin :: "string option"
  co_github :: "string option"
  co_website :: "string option"

record skill_out =
  so_name :: string
  so_category :: string
  so_proficiency_level :: string
  so_mentioned_count :: nat

record education_out =
  eo_degree :: string
  eo_field_of_study :: string
  eo_institution :: string
  eo_year :: string

record experience_out =
  xo_job_title :: string
  xo_company :: string
  xo_duration :: string
  xo_description :: string
  xo_start_date :: string
  xo_end_date :: string

record metadata =
  md_provider :: string
  md_confidence_score :: rat
  md_completeness_score :: rat
  md_parsed_at :: string
  md_text_length :: nat
  md_entities_found :: "nat option"
  md_sentences_count :: "nat option"

record parsed_resume =
  pr_personal_info :: personal_out
  pr_contact_info :: contact_out
  pr_summary :: string
  pr_skills :: "skill_out list"
  pr_education :: "education_out list"
  pr_work_experience :: "experience_out list"
  pr_domain_expertise :: "string list"
  pr_parsing_metadata :: metadata

text \<open>The dictionary a provider returns: \<open>success\<close> with \<open>data\<close>, \<open>raw_text\<close> and
  \<open>provider\<close>, or a failure with its \<open>error\<close>.\<close>

datatype parse_result = Success parsed_resume string string | Failure string

definition no_personal :: personal_out where
  "no_personal =
     \<lparr>pi_full_name = None, pi_first_name = None, pi_last_name = None, pi_location = None\<rparr>"

definition no_contact :: contact_out where
  "no_contact =
     \<lparr>co_email = None, co_phone = None, co_linkedin = None, co_github = None,
      co_website = None\<rparr>"

subsection \<open>Rule-based extraction (services/enhanced\_resume\_parser.py)\<close>

definition allowed_extensions :: "string list" where
  "allowed_extensions =
     [''pdf'', ''doc'', ''docx'', ''txt'', ''rtf'', ''png'', ''jpg'', ''jpeg'', ''gif'']"

definition max_file_size :: nat where
  "max_file_size = 10 * 1024 * 1024"

definition domain_keywords :: "(string \<times> string list) list" where
  "domain_keywords =
     [(''automobile'',
       [''automotive'', ''car'', ''vehicle'', ''ford'', ''toyota'', ''bmw'', ''honda'',
        ''nissan'', ''mercedes'', ''audi'']),
      (''e-commerce'',
       [''ecommerce'', ''amazon'', ''ebay'', ''shopify'', ''online retail'',
        ''marketplace'', ''digital commerce'']),
      (''government'',
       [''government'', ''public sector'', ''federal'', ''state'', ''municipal'',
        ''civil service'', ''policy'']),
      (''defense'',
       [''defense'', ''military'', ''army'', ''navy'', ''air force'', ''security'',
        ''homeland security'']),
      (''healthcare'',
       [''healthcare'', ''medical'', ''hospital'', ''pharmaceutical'', ''clinical'',
        ''patient care'', ''nursing'']),
      (''banking'',
       [''bank'', ''banking'', ''financial services'', ''credit'', ''loan'',
        ''mortgage'', ''investment banking'']),
      (''finance'',
       [''finance'', ''investment'', ''trading'', ''portfolio'', ''hedge fund'',
        ''private equity'', ''fintech'']),
      (''technology'',
       [''tech'', ''software'', ''IT'', ''programming'', ''development'',
        ''artificial intelligence'', ''machine learning'']),
      (''education'',
       [''education'', ''teaching'', ''academic'', ''university'', ''school'',
        ''training'', ''curriculum'']),
      (''retail'',
       [''retail'', ''sales'', ''customer service'', ''merchandising'',
        ''store operations'', ''fashion'']),
      (''manufacturing'',
       [''manufacturing'', ''production'', ''operations'', ''supply chain'',
        ''quality control'', ''lean'']),
      (''consulting'',
       [''consulting'', ''advisory'', ''strategy'', ''management consulting'',
        ''business consulting''])]"

text \<open>\<open>filename.lower().split('.')[-1]\<close>.\<close>

definition file_ext :: "string \<Rightarrow> string" where
  "file_ext name = last (split_on CHR ''.'' (lower name))"

text \<open>\<open>getattr(file, 'filename', '')\<close>, and the extension or \<open>txt\<close> when the name is
  empty or \<open>None\<close>.\<close>

definition filename_of :: "upload \<Rightarrow> string option" where
  "filename_of file = get_or (filename file) []"

definition ext_or_txt :: "upload \<Rightarrow> string" where
  "ext_or_txt file =
     (case filename_of file of
        None \<Rightarrow> ''txt''
      | Some name \<Rightarrow> if name \<noteq> [] then file_ext name else ''txt'')"

text \<open>\<open>_validate_file\<close>: the size is where the stream ends.\<close>

definition validate_file :: "upload \<Rightarrow> bool" where
  "validate_file file =
     (let file_size = length (content file)
      in if max_file_size < file_size then False
         else (case filename_of file of
                 None \<Rightarrow> True
               | Some name \<Rightarrow>
                   if name \<noteq> [] then file_ext name \<in> set allowed_extensions else True))"

definition pages_text :: "string list \<Rightarrow> string" where
  "pages_text pages = concat (map (\<lambda>p. p @ [newline]) pages)"

definition extract_text_from_pdf :: "env \<Rightarrow> upload \<Rightarrow> message + string" where
  "extract_text_from_pdf ev file =
     (case pdf_pages ev (content file) of
        Inl e \<Rightarrow> Inl (''PDF text extraction failed: '' @ e)
      | Inr pages \<Rightarrow> Inr (strip (pages_text pages)))"

definition extract_text_from_docx :: "env \<Rightarrow> upload \<Rightarrow> message + string" where
  "extract_text_from_docx ev file =
     (case docx_paragraphs ev (content file) of
        Inl e \<Rightarrow> Inl (''DOCX text extraction failed: '' @ e)
      | Inr paragraphs \<Rightarrow> Inr (strip (pages_text paragraphs)))"

definition extract_text_from_image :: "env \<Rightarrow> upload \<Rightarrow> message + string" where
  "extract_text_from_image ev file =
     (case ocr_file_psm6 ev (content file) of
        Inl e \<Rightarrow> Inl (''Image OCR failed: '' @ e)
      | Inr t \<Rightarrow> Inr (strip t))"

fun ocr_pages :: "env \<Rightarrow> string list \<Rightarrow> message + string" where
  "ocr_pages ev [] = Inr []"
| "ocr_pages ev (img # images) =
     (case ocr_page_psm6 ev img of
        Inl e \<Rightarrow> Inl e
      | Inr page_text \<Rightarrow>
          (case ocr_pages ev images of
             Inl e \<Rightarrow> Inl e
           | Inr rest \<Rightarrow> Inr (page_text @ [newline] @ rest)))"

definition extract_text_from_pdf_ocr :: "env \<Rightarrow> upload \<Rightarrow> message + string" where
  "extract_text_from_pdf_ocr ev file =
     (case pdf_to_images ev (content file) of
        Inl e \<Rightarrow> Inl (''PDF OCR failed: '' @ e)
      | Inr images \<Rightarrow>
          (case ocr_pages ev images of
             Inl e \<Rightarrow> Inl (''PDF OCR failed: '' @ e)
           | Inr t \<Rightarrow> Inr (strip t)))"

text \<open>\<open>word.replace('.', '').isalpha()\<close>.\<close>

definition isalpha_without_dots :: "string \<Rightarrow> bool" where
  "isalpha_without_dots word =
     (let w = filter (\<lambda>c. c \<noteq> CHR ''.'') word in w \<noteq> [] \<and> list_all is_alpha w)"

definition looks_like_name :: "string \<Rightarrow> bool" where
  "looks_like_name line =
     (line \<noteq> [] \<and> length (split_ws line) \<le> 4 \<and> list_all isalpha_without_dots (split_ws line))"

definition extract_basic_personal_info :: "string \<Rightarrow> personal_out" where
  "extract_basic_personal_info text =
     (case find looks_like_name (map strip (take 5 (split_on newline text))) of
        None \<Rightarrow> no_personal
      | Some line \<Rightarrow>
          (let name_parts = split_ws line
           in no_personal
                \<lparr>pi_full_name := Some line,
                 pi_first_name := Some (if name_parts \<noteq> [] then hd name_parts else []),
                 pi_last_name := Some (if 1 < length name_parts then last name_parts else [])\<rparr>))"

definition extract_basic_contact_info :: "env \<Rightarrow> string \<Rightarrow> contact_out" where
  "extract_basic_contact_info ev text =
     no_contact
       \<lparr>co_email := re_search ev Email text,
        co_phone := re_search ev Phone text,
        co_linkedin := re_search ev Linkedin text\<rparr>"

definition basic_skills :: "string list" where
  "basic_skills =
     [''python'', ''java'', ''javascript'', ''react'', ''angular'', ''node.js'',
      ''sql'', ''mysql'', ''postgresql'', ''mongodb'', ''aws'', ''azure'', ''docker'',
      ''kubernetes'', ''git'', ''html'', ''css'', ''machine learning'',
      ''data analysis'', ''project management'']"

definition extract_basic_skills :: "string \<Rightarrow> skill_out list" where
  "extract_basic_skills text =
     (let text_lower = lower text
      in take 20
           (map (\<lambda>skill.
                   \<lparr>so_name = str_title skill, so_category = ''Technical'',
                    so_proficiency_level = ''intermediate'',
                    so_mentioned_count = count_str text_lower skill\<rparr>)
              (filter (\<lambda>skill. contains text_lower skill) basic_skills)))"

text \<open>A match of a degree pattern: group 1 and group 2.\<close>

definition degree_entry :: "string \<times> string \<times> string \<Rightarrow> education_out" where
  "degree_entry m =
     (case m of (whole, group1, group2) \<Rightarrow>
        \<lparr>eo_degree = str_title group1, eo_field_of_study = strip group2,
         eo_institution = [], eo_year = []\<rparr>)"

definition extract_basic_education :: "env \<Rightarrow> string \<Rightarrow> education_out list" where
  "extract_basic_education ev text =
     map degree_entry (re_finditer ev Degree_in text) @
     map degree_entry (re_finditer ev Degree_possessive text)"

definition job_title_entry :: "string \<times> string \<times> string \<Rightarrow> experience_out" where
  "job_title_entry m =
     (case m of (whole, group1, group2) \<Rightarrow>
        \<lparr>xo_job_title = str_title whole, xo_company = [], xo_duration = [],
         xo_description = [], xo_start_date = [], xo_end_date = []\<rparr>)"

definition extract_basic_experience :: "env \<Rightarrow> string \<Rightarrow> experience_out list" where
  "extract_basic_experience ev text =
     take 5
       (map job_title_entry (re_finditer ev Job_title text) @
        map job_title_entry (re_finditer ev Job_rank text))"

definition extract_basic_summary :: "string \<Rightarrow> string" where
  "extract_basic_summary text =
     (case find (\<lambda>paragraph. 50 < length (strip paragraph)) (split_paragraphs text) of
        Some paragraph \<Rightarrow> take 500 (strip paragraph)
      | None \<Rightarrow> [])"

definition keyword_hits :: "string \<Rightarrow> string list \<Rightarrow> nat" where
  "keyword_hits text_lower keywords = length (filter (\<lambda>keyword. contains text_lower keyword) keywords)"

definition identify_domain_expertise_basic :: "string \<Rightarrow> string list" where
  "identify_domain_expertise_basic text =
     (let text_lower = lower text
      in take 3
           (map fst (filter (\<lambda>(domain, keywords). 1 \<le> keyword_hits text_lower keywords)
                       domain_keywords)))"

definition calculate_basic_completeness ::
  "personal_out \<Rightarrow> contact_out \<Rightarrow> skill_out list \<Rightarrow> education_out list \<Rightarrow>
   experience_out list \<Rightarrow> string \<Rightarrow> rat" where
  "calculate_basic_completeness personal contact_data skill_list education_list
     experience_list summary_text =
     (let completed_fields =
            (if truthy (pi_full_name personal) then 1 else 0) +
            (if truthy (co_email contact_data) \<or> truthy (co_phone contact_data) then 1 else 0) +
            (if skill_list \<noteq> [] then 1 else 0) +
            (if education_list \<noteq> [] then 1 else 0) +
            (if experience_list \<noteq> [] then 1 else 0) +
            (if summary_text \<noteq> [] then (1 :: nat) else 0)
      in py_round (of_nat completed_fields / 6) 2)"

text \<open>\<open>_parse_text_content\<close>; nothing in its \<open>try\<close> raises on a string. The second
  argument is \<open>datetime.now().isoformat()\<close>.\<close>

definition parse_text_content :: "env \<Rightarrow> string \<Rightarrow> string \<Rightarrow> parsed_resume" where
  "parse_text_content ev now text =
     (let personal = extract_basic_personal_info text;
          contact_data = extract_basic_contact_info ev text;
          skill_list = extract_basic_skills text;
          education_list = extract_basic_education ev text;
          experience_list = extract_basic_experience ev text;
          summary_text = extract_basic_summary text;
          domains = identify_domain_expertise_basic text
      in \<lparr>pr_personal_info = personal, pr_contact_info = contact_data,
          pr_summary = summary_text, pr_skills = skill_list, pr_education = education_list,
          pr_work_experience = experience_list, pr_domain_expertise = domains,
          pr_parsing_metadata =
            \<lparr>md_provider = ''basic_extraction'', md_confidence_score = 6 / 10,
             md_completeness_score =
               calculate_basic_completeness personal contact_data skill_list education_list
                 experience_list summary_text,
             md_parsed_at = now, md_text_length = length text,
             md_entities_found = None, md_sentences_count = None\<rparr>\<rparr>)"

text \<open>\<open>parsed_data['parsing_metadata']['provider'] = name\<close>.\<close>

definition with_provider :: "string \<Rightarrow> parsed_resume \<Rightarrow> parsed_resume" where
  "with_provider name parsed =
     parsed\<lparr>pr_parsing_metadata := (pr_parsing_metadata parsed)\<lparr>md_provider := name\<rparr>\<rparr>"

subsection \<open>The NLP parser (services/spacy\_resume\_parser.py)\<close>

definition skills_db :: "(string \<times> string list) list" where
  "skills_db =
     [(''programming_languages'',
       [''python'', ''java'', ''javascript'', ''c++'', ''c#'', ''php'', ''ruby'',
        ''go'', ''rust'', ''swift'', ''kotlin'', ''scala'', ''r'', ''matlab'', ''perl'',
        ''shell'', ''bash'', ''powershell'', ''typescript'', ''dart'', ''objective-c'',
        ''assembly'', ''cobol'', ''fortran'', ''haskell'', ''lua'', ''groovy'']),
      (''web_development'',
       [''html'', ''css'', ''react'', ''angular'', ''vue'', ''node.js'', ''express'',
        ''django'', ''flask'', ''spring'', ''laravel'', ''codeigniter'', ''symfony'',
        ''rails'', ''asp.net'', ''jquery'', ''bootstrap'', ''sass'', ''less'',
        ''webpack'', ''gulp'', ''grunt'', ''npm'', ''yarn'', ''next.js'', ''nuxt.js'',
        ''svelte'', ''ember.js'', ''backbone.js'', ''meteor'', ''gatsby'', ''strapi'']),
      (''data_science'',
       [''machine learning'', ''deep learning'', ''artificial intelligence'',
        ''data analysis'', ''statistics'', ''pandas'', ''numpy'', ''scipy'',
        ''scikit-learn'', ''tensorflow'', ''pytorch'', ''keras'', ''matplotlib'',
        ''seaborn'', ''plotly'', ''jupyter'', ''anaconda'', ''data mining'',
        ''big data'', ''hadoop'', ''spark'', ''kafka'', ''airflow'', ''mlflow'',
        ''kubeflow'', ''dask'']),
      (''databases'',
       [''sql'', ''mysql'', ''postgresql'', ''mongodb'', ''redis'', ''elasticsearch'',
        ''oracle'', ''sql server'', ''sqlite'', ''cassandra'', ''dynamodb'', ''neo4j'',
        ''couchdb'', ''influxdb'', ''mariadb'', ''firestore'', ''realm'', ''hbase'',
        ''clickhouse'', ''snowflake'', ''bigquery'']),
      (''cloud_technologies'',
       [''aws'', ''azure'', ''gcp'', ''google cloud'', ''docker'', ''kubernetes'',
        ''terraform'', ''jenkins'', ''gitlab ci'', ''github actions'', ''circleci'',
        ''travis ci'', ''ansible'', ''puppet'', ''chef'', ''vagrant'', ''helm'',
        ''istio'', ''prometheus'', ''grafana'', ''elk stack'']),
      (''mobile_development'',
       [''ios'', ''android'', ''react native'', ''flutter'', ''swift'', ''kotlin'',
        ''xamarin'', ''ionic'', ''cordova'', ''phonegap'', ''unity'', ''unreal engine'',
        ''cocos2d'', ''titanium'']),
      (''design'',
       [''ui/ux'', ''photoshop'', ''illustrator'', ''figma'', ''sketch'', ''adobe xd'',
        ''indesign'', ''after effects'', ''premiere pro'', ''blender'', ''maya'',
        ''3ds max'', ''cinema 4d'', ''zbrush'', ''substance painter'', ''canva'',
        ''invision'', ''principle'', ''framer'']),
      (''project_management'',
       [''agile'', ''scrum'', ''kanban'', ''jira'', ''confluence'', ''trello'',
        ''asana'', ''monday.com'', ''project management'', ''pmp'', ''prince2'',
        ''lean'', ''six sigma'', ''waterfall'', ''risk management'',
        ''stakeholder management'', ''budget management'']),
      (''soft_skills'',
       [''leadership'', ''communication'', ''teamwork'', ''problem solving'',
        ''analytical thinking'', ''critical thinking'', ''creativity'',
        ''adaptability'', ''time management'', ''negotiation'', ''presentation'',
        ''public speaking'', ''mentoring'', ''coaching'', ''conflict resolution'']),
      (''cybersecurity'',
       [''cybersecurity'', ''information security'', ''penetration testing'',
        ''ethical hacking'', ''vulnerability assessment'', ''incident response'',
        ''forensics'', ''compliance'', ''risk assessment'', ''security audit'',
        ''firewall'', ''ids'', ''ips'', ''siem'', ''soc'']),
      (''devops'',
       [''devops'', ''ci/cd'', ''continuous integration'', ''continuous deployment'',
        ''automation'', ''infrastructure as code'', ''monitoring'', ''logging'',
        ''containerization'', ''orchestration'', ''microservices'', ''serverless'',
        ''lambda'', ''api gateway'', ''load balancing''])]"

definition expert_indicators :: "string list" where
  "expert_indicators =
     [''expert'', ''advanced'', ''senior'', ''lead'', ''architect'', ''specialist'',
      ''years'']"

definition intermediate_indicators :: "string list" where
  "intermediate_indicators =
     [''experienced'', ''proficient'', ''skilled'', ''familiar'', ''working knowledge'']"

definition beginner_indicators :: "string list" where
  "beginner_indicators =
     [''basic'', ''beginner'', ''learning'', ''exposure'', ''introduction'']"

definition fields :: "string list" where
  "fields =
     [''computer science'', ''engineering'', ''business'', ''mathematics'', ''physics'',
      ''chemistry'', ''biology'', ''economics'', ''finance'', ''marketing'',
      ''psychology'', ''sociology'', ''history'', ''literature'', ''art'', ''design'',
      ''medicine'', ''law'']"

definition experience_headers :: "string list" where
  "experience_headers =
     [''experience'', ''work experience'', ''professional experience'', ''employment'',
      ''career'', ''work history'', ''professional background'']"

definition job_keywords :: "string list" where
  "job_keywords =
     [''engineer'', ''developer'', ''manager'', ''analyst'', ''specialist'',
      ''consultant'', ''director'', ''coordinator'', ''assistant'', ''associate'',
      ''lead'', ''senior'', ''junior'']"

definition company_indicators :: "string list" where
  "company_indicators =
     [''inc'', ''corp'', ''ltd'', ''llc'', ''company'', ''technologies'', ''solutions'']"

definition summary_headers :: "string list" where
  "summary_headers =
     [''summary'', ''professional summary'', ''objective'', ''profile'', ''about'',
      ''overview'', ''introduction'', ''career objective'']"

definition spacy_domains :: "(string \<times> string list) list" where
  "spacy_domains =
     [(''technology'',
       [''software'', ''tech'', ''it'', ''programming'', ''development'',
        ''engineering'']),
      (''finance'',
       [''finance'', ''banking'', ''investment'', ''trading'', ''financial'']),
      (''healthcare'',
       [''healthcare'', ''medical'', ''hospital'', ''pharmaceutical'', ''clinical'']),
      (''education'',
       [''education'', ''teaching'', ''academic'', ''university'', ''school'']),
      (''retail'',
       [''retail'', ''sales'', ''customer'', ''commerce'', ''marketing'']),
      (''manufacturing'',
       [''manufacturing'', ''production'', ''operations'', ''supply chain'']),
      (''consulting'',
       [''consulting'', ''advisory'', ''strategy'', ''management'']),
      (''government'',
       [''government'', ''public'', ''policy'', ''administration'']),
      (''nonprofit'',
       [''nonprofit'', ''ngo'', ''charity'', ''social'', ''community''])]"

definition spacy_extract_text_from_image :: "env \<Rightarrow> upload \<Rightarrow> message + string" where
  "spacy_extract_text_from_image ev file =
     (case ocr_file ev (content file) of
        Inl e \<Rightarrow> Inl (''Image OCR failed: '' @ e)
      | Inr t \<Rightarrow> Inr (strip t))"

text \<open>\<open>_extract_text_from_file\<close>; the parser's \<open>_extract_text_from_pdf\<close> and
  \<open>_extract_text_from_docx\<close> have the text of the ones above.\<close>

definition spacy_extract_text_from_file :: "env \<Rightarrow> upload \<Rightarrow> message + string" where
  "spacy_extract_text_from_file ev file =
     (let ext = ext_or_txt file
      in case (if ext = ''pdf'' then extract_text_from_pdf ev file
               else if ext \<in> set [''doc'', ''docx''] then extract_text_from_docx ev file
               else if ext \<in> set [''png'', ''jpg'', ''jpeg'', ''gif'', ''bmp'', ''tiff'']
               then spacy_extract_text_from_image ev file
               else Inr (decode_ignore ev (content file))) of
           Inl e \<Rightarrow> Inl (''Text extraction failed: '' @ e)
         | Inr t \<Rightarrow> Inr t)"

definition labelled :: "string list \<Rightarrow> (string \<times> string) list \<Rightarrow> string list" where
  "labelled labels es = map fst (filter (\<lambda>(t, label). label \<in> set labels) es)"

definition spacy_extract_personal_info :: "doc \<Rightarrow> personal_out" where
  "spacy_extract_personal_info d =
     (let with_name =
            (case labelled [''PERSON''] (ents d) of
               [] \<Rightarrow> no_personal
             | full # others \<Rightarrow>
                 (let name_parts = split_ws full
                  in no_personal
                       \<lparr>pi_full_name := Some full,
                        pi_first_name := Some (if name_parts \<noteq> [] then hd name_parts else []),
                        pi_last_name :=
                          Some (if 1 < length name_parts then last name_parts else [])\<rparr>))
      in case labelled [''GPE'', ''LOC''] (ents d) of
           [] \<Rightarrow> with_name
         | place # others \<Rightarrow> with_name\<lparr>pi_location := Some place\<rparr>)"

text \<open>The first match the matcher reports under a pattern name.\<close>

definition first_match :: "doc \<Rightarrow> string \<Rightarrow> string option" where
  "first_match d name = map_of (matcher d) name"

definition spacy_extract_contact_info :: "env \<Rightarrow> doc \<Rightarrow> string \<Rightarrow> contact_out" where
  "spacy_extract_contact_info ev d text =
     \<lparr>co_email = (case first_match d ''EMAIL'' of
                    Some t \<Rightarrow> Some t | None \<Rightarrow> re_search ev Email text),
      co_phone = (case first_match d ''PHONE'' of
                    Some t \<Rightarrow> Some t | None \<Rightarrow> re_search ev Phone text),
      co_linkedin = first_match d ''LINKEDIN'',
      co_github = first_match d ''GITHUB'',
      co_website = first_match d ''WEBSITE''\<rparr>"

definition any_in :: "string list \<Rightarrow> string \<Rightarrow> bool" where
  "any_in keywords s = list_ex (\<lambda>keyword. contains s keyword) keywords"

definition assess_skill_proficiency :: "string \<Rightarrow> string \<Rightarrow> string" where
  "assess_skill_proficiency skill text =
     (let skill_context = map lower (filter (\<lambda>sentence. contains (lower sentence) skill)
                                     (split_on CHR ''.'' text));
          context_text = join '' '' skill_context
      in if 0 < keyword_hits context_text expert_indicators then ''expert''
         else if 0 < keyword_hits context_text intermediate_indicators then ''intermediate''
         else if 0 < keyword_hits context_text beginner_indicators then ''beginner''
         else ''intermediate'')"

text \<open>The two nested loops of \<open>_extract_skills\<close> over the pairs of a category and one
  of its skills; the last argument is \<open>found_skill_names\<close>.\<close>

fun collect_skills :: "string \<Rightarrow> (string \<times> string) list \<Rightarrow> string list \<Rightarrow> skill_out list" where
  "collect_skills text_lower [] found = []"
| "collect_skills text_lower ((category, skill) # rest) found =
     (let skill_lower = lower skill
      in if contains text_lower skill_lower \<and> skill_lower \<notin> set found
         then \<lparr>so_name = str_title skill,
               so_category = str_title (replace_char CHR ''_'' CHR '' '' category),
               so_proficiency_level = assess_skill_proficiency skill_lower text_lower,
               so_mentioned_count = count_str text_lower skill_lower\<rparr> #
              collect_skills text_lower rest (skill_lower # found)
         else collect_skills text_lower rest found)"

text \<open>The order of strings, and of the sort key (mention count, proficiency level).\<close>

fun str_less :: "string \<Rightarrow> string \<Rightarrow> bool" where
  "str_less [] [] = False"
| "str_less [] (y # ys) = True"
| "str_less (x # xs) [] = False"
| "str_less (x # xs) (y # ys) =
     ((of_char x :: nat) < of_char y \<or> (x = y \<and> str_less xs ys))"

definition skill_key_less :: "skill_out \<Rightarrow> skill_out \<Rightarrow> bool" where
  "skill_key_less x y =
     (so_mentioned_count x < so_mentioned_count y \<or>
      (so_mentioned_count x = so_mentioned_count y \<and>
       str_less (so_proficiency_level x) (so_proficiency_level y)))"

text \<open>\<open>list.sort(key=..., reverse=True)\<close>: descending, and elements with equal keys
  stay in their order.\<close>

fun insert_desc :: "('a \<Rightarrow> 'a \<Rightarrow> bool) \<Rightarrow> 'a \<Rightarrow> 'a list \<Rightarrow> 'a list" where
  "insert_desc lt x [] = [x]"
| "insert_desc lt x (y # ys) =
     (if lt x y then y # insert_desc lt x ys else x # y # ys)"

definition sort_desc :: "('a \<Rightarrow> 'a \<Rightarrow> bool) \<Rightarrow> 'a list \<Rightarrow> 'a list" where
  "sort_desc lt xs = foldr (insert_desc lt) xs []"

definition spacy_extract_skills :: "string \<Rightarrow> skill_out list" where
  "spacy_extract_skills text =
     (let text_lower = lower text;
          skills_found =
            collect_skills text_lower
              (concat (map (\<lambda>(category, skills_list). map (\<lambda>skill. (category, skill)) skills_list)
                         skills_db))
              []
      in take 50 (sort_desc skill_key_less skills_found))"

definition spacy_extract_field_of_study :: "string \<Rightarrow> string \<Rightarrow> string" where
  "spacy_extract_field_of_study degree text =
     (let degree_lower = lower degree; text_lower = lower text
      in case find (\<lambda>field. contains degree_lower field \<or> contains text_lower field) fields of
           Some field \<Rightarrow> str_title field
         | None \<Rightarrow> [])"

definition spacy_extract_education :: "env \<Rightarrow> doc \<Rightarrow> string \<Rightarrow> education_out list" where
  "spacy_extract_education ev d text =
     (let degrees = map snd (filter (\<lambda>(label, t). label = ''DEGREE'') (matcher d));
          universities = map snd (filter (\<lambda>(label, t). label = ''UNIVERSITY'') (matcher d));
          years = re_findall ev Year text
      in map (\<lambda>(i, degree).
                \<lparr>eo_degree = degree,
                 eo_field_of_study = spacy_extract_field_of_study degree text,
                 eo_institution = (if i < length universities then universities ! i else []),
                 eo_year = (if i < length years then years ! i else [])\<rparr>)
           (zip [0 ..< length degrees] degrees))"

text \<open>The dictionary \<open>current_section\<close>; it is empty when no key is set.\<close>

record section_dict =
  sec_title :: "string option"
  sec_company :: "string option"
  sec_duration :: "string option"
  sec_description :: "string option"

definition empty_section :: section_dict where
  "empty_section =
     \<lparr>sec_title = None, sec_company = None, sec_duration = None, sec_description = None\<rparr>"

definition looks_like_job_title :: "string \<Rightarrow> bool" where
  "looks_like_job_title line = any_in job_keywords (lower line)"

definition looks_like_company :: "string \<Rightarrow> bool" where
  "looks_like_company line = any_in company_indicators (lower line)"

definition looks_like_duration :: "env \<Rightarrow> string \<Rightarrow> bool" where
  "looks_like_duration ev line = (re_search ev Year line \<noteq> None)"

text \<open>The loop of \<open>_extract_experience_sections\<close> over the lines, with
  \<open>in_experience_section\<close>, \<open>current_section\<close> and \<open>sections\<close>, and the last section
  added after it.\<close>

fun section_loop ::
  "env \<Rightarrow> string list \<Rightarrow> bool \<Rightarrow> section_dict \<Rightarrow> section_dict list \<Rightarrow> section_dict list" where
  "section_loop ev [] in_section current sections =
     (if current \<noteq> empty_section then sections @ [current] else sections)"
| "section_loop ev (line # rest) in_section current sections =
     (let line_lower = strip (lower line)
      in if any_in experience_headers line_lower
         then section_loop ev rest True current sections
         else if in_section \<and> any_in [''education'', ''skills'', ''projects''] line_lower
         then (if current \<noteq> empty_section
               then section_loop ev rest False empty_section (sections @ [current])
               else section_loop ev rest False current sections)
         else if in_section \<and> strip line \<noteq> []
         then (if looks_like_job_title line
               then section_loop ev rest in_section
                      (empty_section\<lparr>sec_title := Some (strip line)\<rparr>)
                      (if current \<noteq> empty_section then sections @ [current] else sections)
               else if looks_like_company line
               then section_loop ev rest in_section
                      (current\<lparr>sec_company := Some (strip line)\<rparr>) sections
               else if looks_like_duration ev line
               then section_loop ev rest in_section
                      (current\<lparr>sec_duration := Some (strip line)\<rparr>) sections
               else section_loop ev rest in_section
                      (current\<lparr>sec_description :=
                                 Some (case sec_description current of
                                         None \<Rightarrow> strip line
                                       | Some described \<Rightarrow> described @ '' '' @ strip line)\<rparr>)
                      sections)
         else section_loop ev rest in_section current sections)"

definition extract_experience_sections :: "env \<Rightarrow> string \<Rightarrow> section_dict list" where
  "extract_experience_sections ev text =
     section_loop ev (split_on newline text) False empty_section []"

definition or_empty :: "string option \<Rightarrow> string" where
  "or_empty v = (case v of None \<Rightarrow> [] | Some s \<Rightarrow> s)"

definition spacy_extract_experience :: "env \<Rightarrow> string \<Rightarrow> experience_out list" where
  "spacy_extract_experience ev text =
     map (\<lambda>section.
            \<lparr>xo_job_title = or_empty (sec_title section),
             xo_company = or_empty (sec_company section),
             xo_duration = or_empty (sec_duration section),
             xo_description = or_empty (sec_description section),
             xo_start_date = [], xo_end_date = []\<rparr>)
       (extract_experience_sections ev text)"

text \<open>The loop of \<open>_extract_summary\<close> over the lines, with \<open>in_summary\<close> and
  \<open>summary_lines\<close>; it stops at the header of another section.\<close>

fun summary_loop :: "string list \<Rightarrow> bool \<Rightarrow> string list \<Rightarrow> string list" where
  "summary_loop [] in_summary summary_lines = summary_lines"
| "summary_loop (line # rest) in_summary summary_lines =
     (let line_lower = strip (lower line)
      in if any_in summary_headers line_lower then summary_loop rest True summary_lines
         else if in_summary \<and> any_in [''experience'', ''education'', ''skills''] line_lower
         then summary_lines
         else if in_summary \<and> strip line \<noteq> []
         then summary_loop rest in_summary (summary_lines @ [strip line])
         else summary_loop rest in_summary summary_lines)"

definition spacy_extract_summary :: "string \<Rightarrow> string" where
  "spacy_extract_summary text = join '' '' (summary_loop (split_on newline text) False [])"

definition spacy_identify_domain_expertise :: "string \<Rightarrow> string list" where
  "spacy_identify_domain_expertise text =
     (let text_lower = lower text
      in map fst (filter (\<lambda>(domain, keywords). 2 \<le> keyword_hits text_lower keywords)
                    spacy_domains))"

definition spacy_calculate_confidence_score ::
  "personal_out \<Rightarrow> contact_out \<Rightarrow> skill_out list \<Rightarrow> education_out list \<Rightarrow>
   experience_out list \<Rightarrow> rat" where
  "spacy_calculate_confidence_score personal contact_data skill_list education_list
     experience_list =
     (let total =
            (if truthy (pi_full_name personal) then 1 else 0) +
            ((if truthy (co_email contact_data) then 1 / 2 else 0) +
             (if truthy (co_phone contact_data) then 1 / 2 else 0)) +
            (if 5 \<le> length skill_list then 1 else if 2 \<le> length skill_list then 1 / 2 else 0) +
            (if education_list \<noteq> [] then 1 else 0) +
            (if experience_list \<noteq> [] then 1 else 0)
      in py_round (total / 5) 2)"

text \<open>The body of the \<open>try\<close> of the parser's \<open>parse_resume\<close>; its
  \<open>_calculate_completeness_score\<close> has the text of \<open>_calculate_basic_completeness\<close>.\<close>

definition spacy_parse_body :: "env \<Rightarrow> string \<Rightarrow> upload \<Rightarrow> message + parse_result" where
  "spacy_parse_body ev now file =
     (case spacy_extract_text_from_file ev file of
        Inl e \<Rightarrow> Inl e
      | Inr text_content \<Rightarrow>
          if text_content = [] \<or> length (strip text_content) < 50
          then Inr (Failure ''Insufficient text content extracted from file'')
          else
            (case nlp ev text_content of
               Inl e \<Rightarrow> Inl e
             | Inr d \<Rightarrow>
                 (let personal = spacy_extract_personal_info d;
                      contact_data = spacy_extract_contact_info ev d text_content;
                      skill_list = spacy_extract_skills text_content;
                      education_list = spacy_extract_education ev d text_content;
                      experience_list = spacy_extract_experience ev text_content;
                      summary_text = spacy_extract_summary text_content;
                      domains = spacy_identify_domain_expertise text_content
                  in Inr (Success
                       \<lparr>pr_personal_info = personal, pr_contact_info = contact_data,
                        pr_summary = summary_text, pr_skills = skill_list,
                        pr_education = education_list, pr_work_experience = experience_list,
                        pr_domain_expertise = domains,
                        pr_parsing_metadata =
                          \<lparr>md_provider = ''spacy_nlp'',
                           md_confidence_score =
                             spacy_calculate_confidence_score personal contact_data skill_list
                               education_list experience_list,
                           md_completeness_score =
                             calculate_basic_completeness personal contact_data skill_list
                               education_list experience_list summary_text,
                           md_parsed_at = now, md_text_length = length text_content,
                           md_entities_found = Some (length (ents d)),
                           md_sentences_count = Some (sents d)\<rparr>\<rparr>
                       text_content ''spacy_nlp''))))"

definition spacy_parse_resume :: "env \<Rightarrow> string \<Rightarrow> upload \<Rightarrow> parse_result" where
  "spacy_parse_resume ev now file =
     (case spacy_parse_body ev now file of
        Inl e \<Rightarrow> Failure (''spaCy parsing failed: '' @ e)
      | Inr r \<Rightarrow> r)"

subsection \<open>The providers of the enhanced service (services/enhanced\_resume\_parser.py)\<close>

text \<open>A text that is falsy or has fewer than 10 characters after stripping.\<close>

definition too_short :: "string \<Rightarrow> bool" where
  "too_short text_content = (text_content = [] \<or> length (strip text_content) < 10)"

definition text_extraction_body :: "env \<Rightarrow> string \<Rightarrow> upload \<Rightarrow> message + parse_result" where
  "text_extraction_body ev now file =
     (let ext = ext_or_txt file
      in case (if ext = ''pdf'' then extract_text_from_pdf ev file
               else if ext \<in> set [''doc'', ''docx''] then extract_text_from_docx ev file
               else Inr (decode_ignore ev (content file))) of
           Inl e \<Rightarrow> Inl e
         | Inr text_content \<Rightarrow>
             if too_short text_content then Inl ''No text content extracted''
             else Inr (Success (with_provider ''text_extraction''
                                  (parse_text_content ev now text_content))
                         text_content ''text_extraction''))"

definition parse_with_text_extraction :: "env \<Rightarrow> string \<Rightarrow> upload \<Rightarrow> parse_result" where
  "parse_with_text_extraction ev now file =
     (case text_extraction_body ev now file of
        Inl e \<Rightarrow> Failure (''Text extraction failed: '' @ e)
      | Inr r \<Rightarrow> r)"

text \<open>The body of the \<open>try\<close> of \<open>_parse_with_local_ocr\<close>; for a file that is neither an
  image nor a PDF it returns what text extraction returns.\<close>

definition local_ocr_body :: "env \<Rightarrow> string \<Rightarrow> upload \<Rightarrow> message + parse_result" where
  "local_ocr_body ev now file =
     (let ext = ext_or_txt file
      in if ext \<in> set [''png'', ''jpg'', ''jpeg'', ''gif'', ''bmp'', ''tiff''] \<or> ext = ''pdf''
         then (case (if ext = ''pdf'' then extract_text_from_pdf_ocr ev file
                     else extract_text_from_image ev file) of
                 Inl e \<Rightarrow> Inl e
               | Inr text_content \<Rightarrow>
                   if too_short text_content then Inl ''Insufficient text extracted from OCR''
                   else Inr (Success (with_provider ''local_ocr''
                                        (parse_text_content ev now text_content))
                               text_content ''local_ocr''))
         else Inr (parse_with_text_extraction ev now file))"

definition parse_with_local_ocr :: "env \<Rightarrow> string \<Rightarrow> upload \<Rightarrow> parse_result" where
  "parse_with_local_ocr ev now file =
     (case local_ocr_body ev now file of
        Inl e \<Rightarrow> parse_with_text_extraction ev now file
      | Inr r \<Rightarrow> r)"

text \<open>The body of the \<open>try\<close> of \<open>_parse_with_ocr_space\<close>; without an API key it
  returns what local OCR returns.\<close>

definition ocr_space_body :: "env \<Rightarrow> string \<Rightarrow> upload \<Rightarrow> message + parse_result" where
  "ocr_space_body ev now file =
     (case getenv_api_key ev of
        None \<Rightarrow> Inr (parse_with_local_ocr ev now file)
      | Some api_key \<Rightarrow>
          if api_key = [] then Inr (parse_with_local_ocr ev now file)
          else
            (case requests_post ev api_key file of
               Inl e \<Rightarrow> Inl e
             | Inr resp \<Rightarrow>
                 if status_code resp = 200
                 then (case json resp of
                         Inl e \<Rightarrow> Inl e
                       | Inr result \<Rightarrow>
                           if is_errored_on_processing result
                           then Inl (case get_or (error_message result) ''OCR processing failed'' of
                                       None \<Rightarrow> ''None'' | Some m \<Rightarrow> m)
                           else
                             (case (case parsed_results result of
                                      [] \<Rightarrow> Some []
                                    | first # others \<Rightarrow> get_or first []) of
                                None \<Rightarrow> Inl ''No text extracted from OCR''
                              | Some text_content \<Rightarrow>
                                  if text_content = [] then Inl ''No text extracted from OCR''
                                  else Inr (Success (with_provider ''ocr_space''
                                                       (parse_text_content ev now text_content))
                                              text_content ''ocr_space'')))
                 else Inl (''OCR API request failed: '' @ str_int (status_code resp))))"

definition parse_with_ocr_space :: "env \<Rightarrow> string \<Rightarrow> upload \<Rightarrow> parse_result" where
  "parse_with_ocr_space ev now file =
     (case ocr_space_body ev now file of
        Inl e \<Rightarrow> parse_with_local_ocr ev now file
      | Inr r \<Rightarrow> r)"

text \<open>\<open>_parse_with_spacy\<close>: the NLP parser catches every exception of its own, so the
  handler that would go on to text extraction is never entered.\<close>

definition parse_with_spacy :: "env \<Rightarrow> string \<Rightarrow> upload \<Rightarrow> parse_result" where
  "parse_with_spacy ev now file = spacy_parse_resume ev now file"

definition providers :: "(string \<times> (env \<Rightarrow> string \<Rightarrow> upload \<Rightarrow> parse_result)) list" where
  "providers =
     [(''spacy_nlp'', parse_with_spacy), (''ocr_space'', parse_with_ocr_space),
      (''local_ocr'', parse_with_local_ocr), (''text_extraction'', parse_with_text_extraction)]"

text \<open>\<open>parse_resume\<close> of the enhanced service. No provider raises, so the handler of
  its \<open>try\<close> is never entered.\<close>

definition parse_resume :: "env \<Rightarrow> string \<Rightarrow> upload \<Rightarrow> string \<Rightarrow> parse_result" where
  "parse_resume ev now file provider =
     (if \<not> validate_file file then Failure ''Invalid file format or size''
      else
        (case map_of providers provider of
           Some run \<Rightarrow> run ev now file
         | None \<Rightarrow> parse_with_spacy ev now file))"

subsection \<open>The first parsing service (services/resume\_parser.py)\<close>

text \<open>Its file is werkzeug's \<open>FileStorage\<close>: a name that is \<open>None\<close> or a string, and
  the bytes; \<open>bool(file)\<close> is \<open>bool(file.filename)\<close>.\<close>

type_synonym file_storage = "string option \<times> string"

definition legacy_domain_keywords :: "(string \<times> string list) list" where
  "legacy_domain_keywords =
     [(''automobile'',
       [''automotive'', ''car'', ''vehicle'', ''ford'', ''toyota'', ''bmw'',
        ''mercedes'', ''honda'', ''nissan'', ''auto'']),
      (''e-commerce'',
       [''ecommerce'', ''e-commerce'', ''amazon'', ''ebay'', ''shopify'',
        ''online retail'', ''marketplace'']),
      (''government'',
       [''government'', ''public sector'', ''federal'', ''state'', ''municipal'',
        ''civil service'']),
      (''defense'',
       [''defense'', ''military'', ''army'', ''navy'', ''air force'', ''security'',
        ''homeland'']),
      (''healthcare'',
       [''healthcare'', ''medical'', ''hospital'', ''clinic'', ''pharmaceutical'',
        ''biotech'', ''health'']),
      (''banking'',
       [''bank'', ''banking'', ''financial services'', ''credit'', ''loan'',
        ''mortgage'', ''investment'']),
      (''finance'',
       [''finance'', ''fintech'', ''trading'', ''investment'', ''hedge fund'',
        ''private equity'', ''insurance'']),
      (''technology'',
       [''tech'', ''software'', ''IT'', ''computer'', ''programming'', ''development'',
        ''engineering'']),
      (''education'',
       [''education'', ''school'', ''university'', ''college'', ''academic'',
        ''teaching'', ''learning'']),
      (''retail'',
       [''retail'', ''store'', ''shopping'', ''consumer'', ''merchandise'', ''sales'']),
      (''manufacturing'',
       [''manufacturing'', ''production'', ''factory'', ''industrial'', ''assembly'',
        ''operations'']),
      (''consulting'',
       [''consulting'', ''advisory'', ''strategy'', ''management consulting'',
        ''business consulting''])]"

definition skill_categories :: "(string \<times> string list) list" where
  "skill_categories =
     [(''programming'',
       [''python'', ''java'', ''javascript'', ''c++'', ''c#'', ''php'', ''ruby'',
        ''go'', ''rust'', ''swift'']),
      (''web_development'',
       [''html'', ''css'', ''react'', ''angular'', ''vue'', ''node.js'', ''express'',
        ''django'', ''flask'']),
      (''data_science'',
       [''machine learning'', ''data analysis'', ''statistics'', ''pandas'', ''numpy'',
        ''tensorflow'', ''pytorch'']),
      (''databases'',
       [''sql'', ''mysql'', ''postgresql'', ''mongodb'', ''redis'', ''elasticsearch'',
        ''oracle'']),
      (''cloud'',
       [''aws'', ''azure'', ''gcp'', ''docker'', ''kubernetes'', ''terraform'',
        ''jenkins'']),
      (''mobile'',
       [''ios'', ''android'', ''react native'', ''flutter'', ''swift'', ''kotlin'']),
      (''design'',
       [''ui/ux'', ''photoshop'', ''illustrator'', ''figma'', ''sketch'',
        ''adobe creative'']),
      (''project_management'',
       [''agile'', ''scrum'', ''kanban'', ''jira'', ''project management'', ''pmp'']),
      (''soft_skills'',
       [''leadership'', ''communication'', ''teamwork'', ''problem solving'',
        ''analytical thinking''])]"

record legacy_personal =
  lp_full_name :: string
  lp_first_name :: string
  lp_last_name :: string

record legacy_contact =
  lc_email :: string
  lc_phone :: string
  lc_linkedin :: string
  lc_location :: string

record legacy_experience =
  le_dates :: string
  le_description :: string

record legacy_education =
  led_institution :: string
  led_degree :: string
  led_year :: string

record legacy_skill =
  ls_name :: string
  ls_category :: string
  ls_proficiency_level :: string

record legacy_metadata =
  lm_parsed_at :: string
  lm_confidence_score :: rat
  lm_completeness_score :: rat

text \<open>The parsed data; the last four keys are \<open>None\<close> until \<open>_enhance_parsed_data\<close>
  sets them.\<close>

record legacy_data =
  ld_personal_info :: legacy_personal
  ld_contact_info :: legacy_contact
  ld_work_experience :: "legacy_experience list"
  ld_education :: "legacy_education list"
  ld_skills :: "legacy_skill list"
  ld_summary :: string
  ld_certifications :: "string list"
  ld_languages :: "string list"
  ld_domain_expertise :: "string list option"
  ld_skills_by_category :: "(string \<times> legacy_skill list) list option"
  ld_experience_level :: "string option"
  ld_parsing_metadata :: "legacy_metadata option"

text \<open>The result: \<open>data\<close>, \<open>raw_text\<close> and \<open>provider\<close> of a success, or the
  \<open>error\<close> of a failure, which is \<open>None\<close> or a string.\<close>

datatype legacy_result =
  Legacy_success legacy_data string string | Legacy_failure "string option"

definition legacy_extract_personal_info :: "string \<Rightarrow> legacy_personal" where
  "legacy_extract_personal_info text =
     (let name =
            (case find (\<lambda>line. line \<noteq> [] \<and> 2 \<le> length (split_ws line) \<and>
                              \<not> list_ex is_digit line \<and>
                              \<not> any_in [''email'', ''phone'', ''address'', ''linkedin'']
                                   (lower line))
                    (map strip (take 5 (split_on newline text))) of
               Some line \<Rightarrow> line
             | None \<Rightarrow> []);
          name_parts = (if name \<noteq> [] then split_ws name else [])
      in \<lparr>lp_full_name = name,
          lp_first_name = (if name_parts \<noteq> [] then hd name_parts else []),
          lp_last_name = (if 1 < length name_parts then join '' '' (tl name_parts) else [])\<rparr>)"

definition first_or_empty :: "string list \<Rightarrow> string" where
  "first_or_empty xs = (case xs of [] \<Rightarrow> [] | x # others \<Rightarrow> x)"

definition legacy_extract_contact_info :: "env \<Rightarrow> string \<Rightarrow> legacy_contact" where
  "legacy_extract_contact_info ev text =
     \<lparr>lc_email = first_or_empty (re_findall ev Email text),
      lc_phone = first_or_empty (re_findall ev Legacy_phone text),
      lc_linkedin = first_or_empty (re_findall ev Linkedin text),
      lc_location =
        (case find (\<lambda>line. any_in [''address'', ''location'', ''city'', ''state''] (lower line))
                (split_on newline text) of
           Some line \<Rightarrow> strip line
         | None \<Rightarrow> [])\<rparr>"

text \<open>The first loop of \<open>_extract_work_experience\<close>, with \<open>in_experience_section\<close>
  and \<open>experience_section\<close>.\<close>

fun experience_lines :: "string list \<Rightarrow> bool \<Rightarrow> string list \<Rightarrow> string list" where
  "experience_lines [] in_section collected = collected"
| "experience_lines (line # rest) in_section collected =
     (let line_lower = strip (lower line)
      in if any_in [''experience'', ''employment'', ''work history'', ''professional experience'']
              line_lower
         then experience_lines rest True collected
         else if in_section \<and>
                 any_in [''education'', ''academic'', ''degree'', ''university'', ''college'']
                   line_lower
         then collected
         else if in_section \<and> strip line \<noteq> []
         then experience_lines rest in_section (collected @ [strip line])
         else experience_lines rest in_section collected)"

text \<open>Its second loop, with \<open>current_experience\<close> (\<open>None\<close> for the empty dictionary)
  and \<open>experiences\<close>, and the last entry added after it.\<close>

fun experience_entries ::
  "env \<Rightarrow> string list \<Rightarrow> legacy_experience option \<Rightarrow> legacy_experience list \<Rightarrow>
   legacy_experience list" where
  "experience_entries ev [] current experiences =
     (case current of None \<Rightarrow> experiences | Some c \<Rightarrow> experiences @ [c])"
| "experience_entries ev (line # rest) current experiences =
     (if re_search ev Year line \<noteq> None
      then experience_entries ev rest (Some \<lparr>le_dates = line, le_description = []\<rparr>)
             (case current of None \<Rightarrow> experiences | Some c \<Rightarrow> experiences @ [c])
      else (case current of
              None \<Rightarrow> experience_entries ev rest None experiences
            | Some c \<Rightarrow>
                experience_entries ev rest
                  (Some (c\<lparr>le_description := le_description c @ line @ '' ''\<rparr>)) experiences))"

definition legacy_extract_work_experience :: "env \<Rightarrow> string \<Rightarrow> legacy_experience list" where
  "legacy_extract_work_experience ev text =
     experience_entries ev (experience_lines (split_on newline text) False []) None []"

fun education_lines :: "string list \<Rightarrow> bool \<Rightarrow> string list" where
  "education_lines [] in_section = []"
| "education_lines (line # rest) in_section =
     (if any_in [''education'', ''academic'', ''degree'', ''university'', ''college'', ''school'']
           (strip (lower line))
      then education_lines rest True
      else if in_section \<and> strip line \<noteq> [] then strip line # education_lines rest in_section
      else education_lines rest in_section)"

definition legacy_extract_education :: "string \<Rightarrow> legacy_education list" where
  "legacy_extract_education text =
     map (\<lambda>line. \<lparr>led_institution = line, led_degree = [], led_year = []\<rparr>)
       (filter (\<lambda>line. line \<noteq> []) (take 5 (education_lines (split_on newline text) False)))"

text \<open>The removal of duplicates in \<open>_extract_skills\<close>, with \<open>seen_skills\<close>.\<close>

fun unique_skills :: "legacy_skill list \<Rightarrow> string list \<Rightarrow> legacy_skill list" where
  "unique_skills [] seen = []"
| "unique_skills (skill # rest) seen =
     (if lower (ls_name skill) \<notin> set seen
      then skill # unique_skills rest (lower (ls_name skill) # seen)
      else unique_skills rest seen)"

definition legacy_extract_skills :: "string \<Rightarrow> legacy_skill list" where
  "legacy_extract_skills text =
     (let text_lower = lower text;
          found_skills =
            concat (map (\<lambda>(category, skills_list).
                           map (\<lambda>skill. \<lparr>ls_name = skill, ls_category = category,
                                         ls_proficiency_level = ''intermediate''\<rparr>)
                             (filter (\<lambda>skill. contains text_lower (lower skill)) skills_list))
                      skill_categories)
      in unique_skills found_skills [])"

fun summary_after :: "string list \<Rightarrow> string" where
  "summary_after [] = []"
| "summary_after (line # rest) =
     (if any_in [''summary'', ''objective'', ''profile'', ''about''] (lower line)
      then join '' '' (filter (\<lambda>l. l \<noteq> []) (map strip (take 4 rest)))
      else summary_after rest)"

definition legacy_extract_summary :: "string \<Rightarrow> string" where
  "legacy_extract_summary text = summary_after (split_on newline text)"

definition lines_with :: "string list \<Rightarrow> string \<Rightarrow> string list" where
  "lines_with keywords text =
     map strip (filter (\<lambda>line. any_in keywords (lower line)) (split_on newline text))"

definition legacy_parse_text_content :: "env \<Rightarrow> string \<Rightarrow> legacy_data" where
  "legacy_parse_text_content ev text =
     \<lparr>ld_personal_info = legacy_extract_personal_info text,
      ld_contact_info = legacy_extract_contact_info ev text,
      ld_work_experience = legacy_extract_work_experience ev text,
      ld_education = legacy_extract_education text,
      ld_skills = legacy_extract_skills text,
      ld_summary = legacy_extract_summary text,
      ld_certifications =
        lines_with [''certification'', ''certificate'', ''certified'', ''license''] text,
      ld_languages = lines_with [''languages'', ''language skills''] text,
      ld_domain_expertise = None, ld_skills_by_category = None, ld_experience_level = None,
      ld_parsing_metadata = None\<rparr>"

definition legacy_identify_domain_expertise :: "legacy_data \<Rightarrow> string list" where
  "legacy_identify_domain_expertise data =
     (let text_lower = lower (concat (map (\<lambda>e. le_description e @ '' '')
                                        (ld_work_experience data)))
      in map fst (filter (\<lambda>(domain, keywords). any_in keywords text_lower)
                    legacy_domain_keywords))"

text \<open>\<open>_categorize_skills\<close>: a dictionary from a category to its skills.\<close>

fun categorize_skills ::
  "legacy_skill list \<Rightarrow> (string \<times> legacy_skill list) list \<Rightarrow> (string \<times> legacy_skill list) list" where
  "categorize_skills [] categorized = categorized"
| "categorize_skills (skill # rest) categorized =
     categorize_skills rest
       (dict_set (ls_category skill)
          ((case map_of categorized (ls_category skill) of None \<Rightarrow> [] | Some ss \<Rightarrow> ss) @ [skill])
          categorized)"

definition legacy_calculate_experience_level :: "legacy_data \<Rightarrow> string" where
  "legacy_calculate_experience_level data =
     (let experience_count = length (ld_work_experience data)
      in if experience_count = 0 then ''entry''
         else if experience_count \<le> 2 then ''junior''
         else if experience_count \<le> 4 then ''mid''
         else ''senior'')"

definition legacy_calculate_confidence_score :: "legacy_data \<Rightarrow> rat" where
  "legacy_calculate_confidence_score data =
     min ((if lp_full_name (ld_personal_info data) \<noteq> [] then 2 / 10 else 0) +
          (if lc_email (ld_contact_info data) \<noteq> [] then 2 / 10 else 0) +
          (if ld_work_experience data \<noteq> [] then 3 / 10 else 0) +
          (if ld_skills data \<noteq> [] then 2 / 10 else 0) +
          (if ld_education data \<noteq> [] then 1 / 10 else 0)) 1"

text \<open>It runs after \<open>domain_expertise\<close> is set.\<close>

definition legacy_calculate_completeness_score :: "legacy_data \<Rightarrow> rat" where
  "legacy_calculate_completeness_score data =
     (let filled_fields =
            (if lp_full_name (ld_personal_info data) \<noteq> [] then 1 else 0) +
            (if lc_email (ld_contact_info data) \<noteq> [] then 1 else 0) +
            (if lc_phone (ld_contact_info data) \<noteq> [] then 1 else 0) +
            (if ld_work_experience data \<noteq> [] then 1 else 0) +
            (if ld_education data \<noteq> [] then 1 else 0) +
            (if ld_skills data \<noteq> [] then 1 else 0) +
            (if ld_summary data \<noteq> [] then 1 else 0) +
            (case ld_domain_expertise data of
               None \<Rightarrow> 0 | Some ds \<Rightarrow> if ds \<noteq> [] then (1 :: nat) else 0)
      in of_nat filled_fields / 8)"

text \<open>\<open>_enhance_parsed_data\<close>; the first argument is
  \<open>datetime.utcnow().isoformat()\<close>.\<close>

definition enhance_parsed_data :: "string \<Rightarrow> legacy_data \<Rightarrow> legacy_data" where
  "enhance_parsed_data now data =
     (let d1 = data\<lparr>ld_domain_expertise := Some (legacy_identify_domain_expertise data)\<rparr>;
          d2 = d1\<lparr>ld_skills_by_category := Some (categorize_skills (ld_skills d1) [])\<rparr>;
          d3 = d2\<lparr>ld_experience_level := Some (legacy_calculate_experience_level d2)\<rparr>
      in d3\<lparr>ld_parsing_metadata :=
              Some \<lparr>lm_parsed_at = now,
                     lm_confidence_score = legacy_calculate_confidence_score d3,
                     lm_completeness_score = legacy_calculate_completeness_score d3\<rparr>\<rparr>)"

text \<open>The extraction functions of this service log an exception and return \<open>''\<close>;
  the text of the pages is not stripped.\<close>

definition or_no_text :: "message + string \<Rightarrow> string" where
  "or_no_text r = (case r of Inl e \<Rightarrow> [] | Inr t \<Rightarrow> t)"

definition legacy_extract_text_from_pdf :: "env \<Rightarrow> file_storage \<Rightarrow> string" where
  "legacy_extract_text_from_pdf ev file =
     (case pdf_pages ev (snd file) of Inl e \<Rightarrow> [] | Inr pages \<Rightarrow> pages_text pages)"

definition legacy_extract_text_from_docx :: "env \<Rightarrow> file_storage \<Rightarrow> string" where
  "legacy_extract_text_from_docx ev file =
     (case docx_paragraphs ev (snd file) of Inl e \<Rightarrow> [] | Inr ps \<Rightarrow> pages_text ps)"

definition legacy_extract_text_from_image :: "env \<Rightarrow> file_storage \<Rightarrow> string" where
  "legacy_extract_text_from_image ev file = or_no_text (ocr_file ev (snd file))"

text \<open>A result that is a failure, or the text to parse.\<close>

definition legacy_finish ::
  "env \<Rightarrow> string \<Rightarrow> string \<Rightarrow> string \<Rightarrow> legacy_result" where
  "legacy_finish ev empty_error provider text_content =
     (if strip text_content = [] then Legacy_failure (Some empty_error)
      else Legacy_success (legacy_parse_text_content ev text_content) text_content provider)"

definition legacy_parse_with_text_extraction ::
  "env \<Rightarrow> file_storage \<Rightarrow> string \<Rightarrow> legacy_result" where
  "legacy_parse_with_text_extraction ev file ext =
     (if ext = ''pdf''
      then legacy_finish ev ''No text content found in file'' ''text_extraction''
             (legacy_extract_text_from_pdf ev file)
      else if ext \<in> set [''doc'', ''docx'']
      then legacy_finish ev ''No text content found in file'' ''text_extraction''
             (legacy_extract_text_from_docx ev file)
      else if ext = ''txt''
      then (case decode_strict ev (snd file) of
              Inl e \<Rightarrow> Legacy_failure (Some (''Text extraction failed: '' @ e))
            | Inr t \<Rightarrow> legacy_finish ev ''No text content found in file'' ''text_extraction'' t)
      else if ext \<in> set [''png'', ''jpg'', ''jpeg'', ''gif'']
      then legacy_finish ev ''No text content found in file'' ''text_extraction''
             (legacy_extract_text_from_image ev file)
      else Legacy_failure (Some (''Unsupported file type: '' @ ext)))"

text \<open>The texts of \<open>ParsedResults\<close> put together; adding \<open>None\<close> to a string raises.\<close>

fun parsed_texts :: "string field list \<Rightarrow> message + string" where
  "parsed_texts [] = Inr []"
| "parsed_texts (p # ps) =
     (case get_or p [] of
        None \<Rightarrow> Inl (''can only concatenate str (not '' @ [CHR 0x22] @ ''NoneType'' @
                      [CHR 0x22] @ '') to str'')
      | Some t \<Rightarrow> (case parsed_texts ps of Inl e \<Rightarrow> Inl e | Inr ts \<Rightarrow> Inr (t @ ts)))"

definition legacy_parse_with_ocr_space ::
  "env \<Rightarrow> file_storage \<Rightarrow> string \<Rightarrow> legacy_result" where
  "legacy_parse_with_ocr_space ev file ext =
     (let api_key = (case getenv_api_key ev of None \<Rightarrow> ''helloworld'' | Some k \<Rightarrow> k)
      in case legacy_requests_post ev api_key file ext of
           Inl e \<Rightarrow> Legacy_failure (Some (''OCR processing failed: '' @ e))
         | Inr resp \<Rightarrow>
             if status_code resp = 200
             then (case json resp of
                     Inl e \<Rightarrow> Legacy_failure (Some (''OCR processing failed: '' @ e))
                   | Inr result \<Rightarrow>
                       if is_errored_on_processing result
                       then Legacy_failure
                              (get_or (error_message result) ''OCR processing failed'')
                       else (case parsed_texts (parsed_results result) of
                               Inl e \<Rightarrow> Legacy_failure (Some (''OCR processing failed: '' @ e))
                             | Inr t \<Rightarrow>
                                 legacy_finish ev ''No text extracted from document''
                                   ''ocr_space'' t))
             else Legacy_failure (Some (''OCR API error: '' @ str_int (status_code resp))))"

definition legacy_parse_with_local_ocr ::
  "env \<Rightarrow> file_storage \<Rightarrow> string \<Rightarrow> legacy_result" where
  "legacy_parse_with_local_ocr ev file ext =
     (if ext \<in> set [''png'', ''jpg'', ''jpeg'', ''gif'']
      then legacy_finish ev ''No text extracted from document'' ''local_ocr''
             (legacy_extract_text_from_image ev file)
      else if ext = ''pdf''
      then legacy_finish ev ''No text extracted from document'' ''local_ocr''
             (legacy_extract_text_from_pdf ev file)
      else Legacy_failure (Some (''Local OCR not supported for '' @ ext)))"

definition legacy_providers ::
  "(string \<times> (env \<Rightarrow> file_storage \<Rightarrow> string \<Rightarrow> legacy_result)) list" where
  "legacy_providers =
     [(''ocr_space'', legacy_parse_with_ocr_space), (''local_ocr'', legacy_parse_with_local_ocr),
      (''text_extraction'', legacy_parse_with_text_extraction)]"

text \<open>\<open>_allowed_file\<close> and \<open>validate_file\<close>; \<open>filename.rsplit('.', 1)[1]\<close> is what
  follows the last dot. A file whose name is \<open>None\<close> or empty is false, so the first
  test answers for it and the test \<open>file.filename == ''\<close> is never true.\<close>

definition allowed_file :: "string \<Rightarrow> bool" where
  "allowed_file name =
     (CHR ''.'' \<in> set name \<and> lower (last (split_on CHR ''.'' name)) \<in> set allowed_extensions)"

definition legacy_validate_file :: "env \<Rightarrow> file_storage \<Rightarrow> bool \<times> string" where
  "legacy_validate_file ev file =
     (case fst file of
        None \<Rightarrow> (False, ''No file provided'')
      | Some name \<Rightarrow>
          if name = [] then (False, ''No file provided'')
          else if \<not> allowed_file name
          then (False, ''File type not allowed. Supported types: '' @
                       join '', '' (extensions_order ev))
          else if max_file_size < length (snd file)
          then (False, ''File too large. Maximum size: '' @
                       str_int (int (max_file_size div (1024 * 1024))) @ ''MB'')
          else (True, ''File is valid''))"

text \<open>\<open>parse_resume\<close> of this service. The handler of its \<open>try\<close> is entered when the
  secured file name has no dot.\<close>

definition apply_enhance :: "string \<Rightarrow> legacy_result \<Rightarrow> legacy_result" where
  "apply_enhance now result =
     (case result of
        Legacy_success data raw_text provider \<Rightarrow>
          Legacy_success (enhance_parsed_data now data) raw_text provider
      | Legacy_failure e \<Rightarrow> Legacy_failure e)"

definition legacy_parse_resume ::
  "env \<Rightarrow> string \<Rightarrow> file_storage \<Rightarrow> string \<Rightarrow> legacy_result" where
  "legacy_parse_resume ev now file provider =
     (case legacy_validate_file ev file of
        (is_valid, msg) \<Rightarrow>
          if \<not> is_valid then Legacy_failure (Some msg)
          else
            (let name = secure_filename ev (case fst file of None \<Rightarrow> [] | Some n \<Rightarrow> n)
             in if CHR ''.'' \<notin> set name
                then Legacy_failure (Some (''Parsing failed: list index out of range''))
                else
                  (let ext = lower (last (split_on CHR ''.'' name))
                   in apply_enhance now
                        (case map_of legacy_providers provider of
                           Some run \<Rightarrow> run ev file ext
                         | None \<Rightarrow> legacy_parse_with_text_extraction ev file ext))))"

section \<open>The vocabulary of the specification, and example inputs\<close>

text \<open>The four proficiency levels of the specification's data model, with the names
  the records carry and their order. A skill without a \<open>proficiency_level\<close> key
  counts as intermediate.\<close>

datatype proficiency = Beginner | Intermediate | Advanced | Expert

fun level_name :: "proficiency \<Rightarrow> string" where
  "level_name Beginner = ''beginner''"
| "level_name Intermediate = ''intermediate''"
| "level_name Advanced = ''advanced''"
| "level_name Expert = ''expert''"

fun level_rank :: "proficiency option \<Rightarrow> nat" where
  "level_rank None = 2"
| "level_rank (Some Beginner) = 1"
| "level_rank (Some Intermediate) = 2"
| "level_rank (Some Advanced) = 3"
| "level_rank (Some Expert) = 4"

definition skill_at :: "string field \<Rightarrow> string field \<Rightarrow> proficiency option \<Rightarrow> skill" where
  "skill_at n cat p =
     \<lparr>skill_name = n, skill_category = cat,
      proficiency_level = (case p of None \<Rightarrow> Absent | Some l \<Rightarrow> Val (level_name l))\<rparr>"

definition empty_candidate :: candidate where
  "empty_candidate =
     \<lparr>cand_id = None, personal_info = \<lparr>full_name = Absent\<rparr>,
      contact_info = \<lparr>contact_email = Absent, contact_location = Absent\<rparr>,
      summary = Absent, skills = [], education = [], work_experience = [],
      domain_expertise = []\<rparr>"

definition empty_job :: job where
  "empty_job =
     \<lparr>job_id = None, title = Absent, company = Absent, location = Absent, industry = Absent,
      description = Absent, requirements = Absent, remote_ok = Absent,
      experience_requirements = None, required_skills = []\<rparr>"

text \<open>The years score in the words of the specification: 1 within the required range,
  0.15 less per year missing below the minimum (not below 0), 0.05 less per year in excess
  of the maximum (not below 0.7).\<close>

definition spec_years_score :: "rat \<Rightarrow> rat \<Rightarrow> rat \<Rightarrow> rat" where
  "spec_years_score years required_min required_max =
     (if required_min \<le> years \<and> years \<le> required_max then 1
      else if years < required_min then max 0 (1 - (required_min - years) * (15 / 100))
      else max (7 / 10) (1 - (years - required_max) * (5 / 100)))"

definition clock0 :: clock where
  "clock0 = \<lparr>now_iso = ''2024-01-01T00:00:00'', now_year = 2024\<rparr>"

text \<open>An entry as the rule-based extractor of the parsing service writes it: a job
  title and nothing else.\<close>

definition untimed_entry :: work_exp where
  "untimed_entry =
     \<lparr>exp_job_title = Val ''Developer'', exp_company = Val [], exp_duration = Val [],
      exp_description = Val []\<rparr>"

text \<open>Scores between 0 and 1.\<close>

definition unit_scores :: "rat list \<Rightarrow> bool" where
  "unit_scores xs = list_all (\<lambda>s. 0 \<le> s \<and> s \<le> 1) xs"

text \<open>An engine whose fitted models find every two texts half similar.\<close>

definition half_engine :: engine where
  "half_engine = \<lparr>models_fitted = True, tfidf_cosine = (\<lambda>a b. Inr (1 / 2))\<rparr>"

definition python_candidate :: candidate where
  "python_candidate =
     empty_candidate
       \<lparr>summary := Val ''Python developer'',
        skills := [skill_at (Val ''Python'') Absent (Some Expert)]\<rparr>"

definition python_job :: job where
  "python_job =
     empty_job
       \<lparr>title := Val ''Developer'',
        required_skills :=
          [skill_at (Val ''Python'') (Val ''programming_languages'') (Some Beginner)]\<rparr>"

text \<open>A candidate whose skill record has no \<open>name\<close> key, and a job whose location,
  industry and experience requirements are \<open>None\<close> (empty database columns).\<close>

definition nameless_candidate :: candidate where
  "nameless_candidate = python_candidate\<lparr>skills := [skill_at Absent Absent (Some Expert)]\<rparr>"

definition null_job :: job where
  "null_job =
     python_job
       \<lparr>location := PyNone, industry := PyNone,
        experience_requirements :=
          Some \<lparr>min_years = PyNone, max_years = PyNone, level = PyNone\<rparr>\<rparr>"

definition three_jobs :: "job list" where
  "three_jobs =
     [python_job\<lparr>job_id := Some 1\<rparr>,
      empty_job\<lparr>job_id := Some 2, title := Val ''Developer''\<rparr>,
      python_job\<lparr>job_id := Some 3\<rparr>]"

definition three_candidates :: "candidate list" where
  "three_candidates =
     [python_candidate\<lparr>cand_id := Some 1\<rparr>,
      empty_candidate\<lparr>cand_id := Some 2, summary := Val ''Developer''\<rparr>,
      python_candidate\<lparr>cand_id := Some 3\<rparr>]"

text \<open>An environment without network, API key or usable document libraries, whose
  decoder leaves ASCII bytes as they are, whose NLP pipeline finds nothing and whose
  regular expressions match nothing.\<close>

definition env0 :: env where
  "env0 =
     \<lparr>getenv_api_key = None,
      requests_post = (\<lambda>api_key file. Inl ''connection refused''),
      pdf_pages = (\<lambda>bytes. Inl ''not a PDF file''),
      docx_paragraphs = (\<lambda>bytes. Inl ''not a DOCX file''),
      ocr_file_psm6 = (\<lambda>bytes. Inl ''cannot identify image file''),
      ocr_file = (\<lambda>bytes. Inl ''cannot identify image file''),
      pdf_to_images = (\<lambda>bytes. Inl ''not a PDF file''),
      ocr_page_psm6 = (\<lambda>img. Inl ''cannot identify image file''),
      decode_ignore = (\<lambda>bytes. bytes),
      decode_strict = (\<lambda>bytes. Inr bytes),
      nlp = (\<lambda>text. Inr \<lparr>ents = [], matcher = [], sents = 1\<rparr>),
      re_search = (\<lambda>p text. None),
      re_finditer = (\<lambda>p text. []),
      re_findall = (\<lambda>p text. []),
      secure_filename = (\<lambda>name. name),
      legacy_requests_post = (\<lambda>api_key file ext. Inl ''connection refused''),
      extensions_order = allowed_extensions\<rparr>"

definition now0 :: string where
  "now0 = ''2024-01-01T00:00:00''"

text \<open>A result without its timestamp.\<close>

definition erase_parsed_at :: "parse_result \<Rightarrow> parse_result" where
  "erase_parsed_at r =
     (case r of
        Success parsed raw_text provider \<Rightarrow>
          Success (parsed\<lparr>pr_parsing_metadata := (pr_parsing_metadata parsed)\<lparr>md_parsed_at := []\<rparr>\<rparr>)
            raw_text provider
      | Failure e \<Rightarrow> Failure e)"

text \<open>Files: bytes without a file name, a plain text of 64 characters, a text of 20
  characters, bytes named as an image, an empty text file.\<close>

definition nameless_file :: upload where
  "nameless_file = \<lparr>filename = Absent, content = ''MZ binary, not a resume''\<rparr>"

definition plain_file :: upload where
  "plain_file =
     \<lparr>filename = Val ''cv.txt'',
      content = ''Jane Roe is a nurse in Ohio and she likes to walk her dog daily.''\<rparr>"

definition short_file :: upload where
  "short_file = \<lparr>filename = Val ''cv.txt'', content = ''xxxxxxxxxxxxxxxxxxxx''\<rparr>"

definition scan_file :: upload where
  "scan_file = \<lparr>filename = Val ''scan.png'', content = ''xxxxxxxxxxxxxxxxxxxx''\<rparr>"

definition empty_file :: upload where
  "empty_file = \<lparr>filename = Val ''empty.txt'', content = []\<rparr>"

text \<open>The environment with an API key (and still no network), and the environment
  whose NLP pipeline raises.\<close>

definition key_env :: env where
  "key_env = env0\<lparr>getenv_api_key := Some ''K81''\<rparr>"

definition nlp_down :: env where
  "nlp_down = env0\<lparr>nlp := (\<lambda>text. Inl ''model not loaded'')\<rparr>"

text \<open>The environment with an API key in which OCR.space answers the request with a
  text of 15 characters.\<close>

definition answering_env :: env where
  "answering_env =
     key_env\<lparr>requests_post :=
       (\<lambda>api_key file.
          Inr \<lparr>status_code = 200,
               json = Inr \<lparr>is_errored_on_processing = False, error_message = Absent,
                           parsed_results = [Val ''Jane Roe, nurse'']\<rparr>\<rparr>)\<rparr>"

definition succeeded :: "parse_result \<Rightarrow> bool" where
  "succeeded r = (case r of Success parsed raw_text provider \<Rightarrow> True | Failure e \<Rightarrow> False)"

text \<open>A text file whose summary section is one line of 501 characters, the length of
  the summary of a result (0 for a failure), and a file of the first parsing service.\<close>

definition long_summary_file :: upload where
  "long_summary_file =
     \<lparr>filename = Val ''cv.txt'',
      content = ''Summary'' @ [newline] @ replicate 501 CHR ''x''\<rparr>"

definition summary_length :: "parse_result \<Rightarrow> nat" where
  "summary_length r =
     (case r of Success parsed raw_text provider \<Rightarrow> length (pr_summary parsed) | Failure e \<Rightarrow> 0)"

definition legacy_file :: file_storage where
  "legacy_file = (Some ''cv.txt'', ''xxxxxxxxxxxxxxxxxxxx'')"

section \<open>Properties\<close>

subsection \<open>Skill levels\<close>

lemmas char_simps = lower_def lower_char_def upper_char_def is_upper_def is_lower_def
  is_alpha_def is_space_def is_digit_def

text \<open>
  C5. For skills that carry any of the four proficiency levels (or none, which counts as
  intermediate), the level-match score is 1 when the candidate's level is at or above the
  required one, and otherwise 1 minus 0.25 for each level of the gap, never below 0. A
  candidate whose only skill is Python at level expert, against a job whose only required
  skill is Python at level beginner in category programming\_languages, has the skill
  component score 1.
\<close>

theorem skill_level_match_by_gap:
  "calculate_skill_level_match (skill_at n c p) (skill_at m d q) =
     (if level_rank q \<le> level_rank p then 1
      else max 0 (1 - of_nat (level_rank q - level_rank p) * (25 / 100)))
   \<and> score (calculate_skill_match
         (cand\<lparr>skills := [skill_at (Val ''Python'') x (Some Expert)]\<rparr>)
         (jb\<lparr>required_skills :=
               [skill_at (Val ''Python'') (Val ''programming_languages'') (Some Beginner)]\<rparr>)) = 1"
proof
  show "calculate_skill_level_match (skill_at n c p) (skill_at m d q) =
     (if level_rank q \<le> level_rank p then 1
      else max 0 (1 - of_nat (level_rank q - level_rank p) * (25 / 100)))"
    by (cases p rule: level_rank.cases; cases q rule: level_rank.cases)
       (simp_all add: calculate_skill_level_match_def skill_at_def get_or_def lower_of_def
          char_simps level_scores_def)
next
  show "score (calculate_skill_match
         (cand\<lparr>skills := [skill_at (Val ''Python'') x (Some Expert)]\<rparr>)
         (jb\<lparr>required_skills :=
               [skill_at (Val ''Python'') (Val ''programming_languages'') (Some Beginner)]\<rparr>)) = 1"
    by (simp add: calculate_skill_match_def skill_match_body_def skill_dict_def skill_key_def
          skill_at_def calculate_skill_level_match_def get_or_def lower_of_def char_simps
          level_scores_def replace_char_def skill_weights_def on_error_def only_score_def
          py_round_def round_half_even_def)
qed

subsection \<open>Experience years\<close>

text \<open>
  C6, as the code has it. The years score a job with numeric \<open>min_years\<close> and
  \<open>max_years\<close> gives is the specification's (1 within the range, 0.15 less per missing
  year and not below 0, 0.05 less per excess year and not below 0.7), rounded to three
  decimals. A duration that is not empty and matches none of the three patterns (years,
  months, year range) counts as 1 year, an empty duration counts as 0, and each entry adds
  its count to the total. A candidate whose total is 0 years, against \<open>min_years = 5\<close>,
  has the years score 0.25.
\<close>

theorem experience_years_score:
  "years_score (calculate_experience_match clk c
       (j\<lparr>experience_requirements :=
            Some \<lparr>min_years = Val mn, max_years = Val mx, level = lv\<rparr>\<rparr>)) =
     Some (py_round
             (spec_years_score (calculate_years_of_experience clk (work_experience c)) mn mx) 3)
   \<and> (d \<noteq> [] \<and> search_from year_at (lower d) = None \<and>
        search_from month_at (lower d) = None \<and> search_from date_at (lower d) = None \<longrightarrow>
        parse_duration_to_years clk (Some d) = 1)
   \<and> parse_duration_to_years clk (Some []) = 0
   \<and> calculate_years_of_experience clk (e # es) =
        parse_duration_to_years clk (get_or (exp_duration e) []) +
        calculate_years_of_experience clk es
   \<and> (calculate_years_of_experience clk (work_experience c) = 0 \<longrightarrow>
        years_score (calculate_experience_match clk c
          (j\<lparr>experience_requirements :=
               Some \<lparr>min_years = Val 5, max_years = mxf, level = lv\<rparr>\<rparr>)) = Some (1 / 4))"
proof -
  have formula:
    "years_score (calculate_experience_match clk c
       (j\<lparr>experience_requirements :=
            Some \<lparr>min_years = Val mn, max_years = Val mx, level = lv\<rparr>\<rparr>)) =
     Some (py_round
             (spec_years_score (calculate_years_of_experience clk (work_experience c)) mn mx) 3)"
    by (simp add: calculate_experience_match_def experience_match_body_def years_match_def
          on_error_def only_score_def get_or_def spec_years_score_def Let_def)
  have unparsed:
    "d \<noteq> [] \<and> search_from year_at (lower d) = None \<and>
     search_from month_at (lower d) = None \<and> search_from date_at (lower d) = None \<longrightarrow>
     parse_duration_to_years clk (Some d) = 1"
    by (simp add: parse_duration_to_years_def Let_def)
  have empty: "parse_duration_to_years clk (Some []) = 0"
    by (simp add: parse_duration_to_years_def)
  have total:
    "calculate_years_of_experience clk (e # es) =
       parse_duration_to_years clk (get_or (exp_duration e) []) +
       calculate_years_of_experience clk es"
    by (simp add: calculate_years_of_experience_def)
  have scenario:
    "calculate_years_of_experience clk (work_experience c) = 0 \<longrightarrow>
     years_score (calculate_experience_match clk c
       (j\<lparr>experience_requirements :=
            Some \<lparr>min_years = Val 5, max_years = mxf, level = lv\<rparr>\<rparr>)) = Some (1 / 4)"
    by (simp add: calculate_experience_match_def experience_match_body_def years_match_def
          on_error_def only_score_def get_or_def Let_def py_round_def round_half_even_def)
  from formula unparsed empty total scenario show ?thesis
    by blast
qed

theorem experience_years_score_witness:
  "parse_duration_to_years clock0 (Some ''Full Time'') = 1
   \<and> years_score (calculate_experience_match clock0 empty_candidate
         (empty_job\<lparr>experience_requirements :=
              Some \<lparr>min_years = Val 5, max_years = Absent, level = Absent\<rparr>\<rparr>)) = Some (1 / 4)"
proof -
  have unmatched:
    "''Full Time'' \<noteq> [] \<and> search_from year_at (lower ''Full Time'') = None \<and>
     search_from month_at (lower ''Full Time'') = None \<and>
     search_from date_at (lower ''Full Time'') = None"
    by (simp add: year_at_def month_at_def date_at_def four_digits_def char_simps)
  have no_years: "calculate_years_of_experience clock0 (work_experience empty_candidate) = 0"
    by (simp add: calculate_years_of_experience_def empty_candidate_def)
  from unmatched no_years
    experience_years_score [where clk = clock0 and c = empty_candidate and j = empty_job
      and d = "''Full Time''" and mxf = Absent and lv = Absent]
  show ?thesis
    by blast
qed

text \<open>The claim as stated fails at the empty duration: it matches none of the three
  patterns, and an entry that carries it adds nothing to the total.\<close>

theorem empty_duration_counts_zero:
  "search_from year_at (lower []) = None
   \<and> search_from month_at (lower []) = None
   \<and> search_from date_at (lower []) = None
   \<and> parse_duration_to_years clock0 (Some []) \<noteq> 1
   \<and> calculate_years_of_experience clock0 [untimed_entry] = 0"
  by (simp add: year_at_def month_at_def date_at_def four_digits_def lower_def
        parse_duration_to_years_def calculate_years_of_experience_def untimed_entry_def
        get_or_def)

subsection \<open>Bounds of the component scores\<close>

lemma round_half_even_ge:
  assumes "of_int k \<le> y" shows "k \<le> round_half_even y"
proof -
  have "k \<le> \<lfloor>y\<rfloor>" using assms by (simp add: le_floor_iff)
  then show ?thesis by (simp add: round_half_even_def Let_def)
qed

lemma round_half_even_le: 
  assumes "y \<le> of_int k" shows "round_half_even y \<le> k"
proof -
  have f: "\<lfloor>y\<rfloor> \<le> k" using assms by (simp add: floor_le_iff) 
  show ?thesis
  proof (cases "y = of_int \<lfloor>y\<rfloor>")
    case True
    then have "y - of_int \<lfloor>y\<rfloor> = 0" by simp
    then show ?thesis using f by (simp add: round_half_even_def Let_def)
  next
    case False
    have "of_int \<lfloor>y\<rfloor> \<le> y" by (rule of_int_floor_le)
    with False have "of_int \<lfloor>y\<rfloor> < y" by (metis order_le_less)
    then have "of_int \<lfloor>y\<rfloor> < (of_int k :: rat)" using assms by simp
    then have "\<lfloor>y\<rfloor> + 1 \<le> k" by simp
    then show ?thesis using f by (simp add: round_half_even_def Let_def)
  qed
qed

lemma py_round_unit: assumes "0 \<le> x" "x \<le> 1" shows "0 \<le> py_round x n \<and> py_round x n \<le> 1"
proof -
  define r where "r = round_half_even (x * 10 ^ n)"
  have a: "(of_int 0 :: rat) \<le> x * 10 ^ n" using assms by simp
  have b: "x * 10 ^ n \<le> of_int (10 ^ n)" using assms by (simp add: mult_left_le_one_le)
  have "0 \<le> r" unfolding r_def using round_half_even_ge [OF a] .
  then have lo: "(0 :: rat) \<le> of_int r" by simp
  have "r \<le> 10 ^ n" unfolding r_def using round_half_even_le [OF b] .
  then have "(of_int r :: rat) \<le> of_int (10 ^ n)" by (simp only: of_int_le_iff)
  then have hi: "(of_int r :: rat) \<le> 10 ^ n" by simp
  have p: "(0 :: rat) < 10 ^ n" by simp
  have "py_round x n = of_int r / 10 ^ n" by (simp add: py_round_def r_def)
  moreover have "0 \<le> (of_int r :: rat) / 10 ^ n" using lo p by (rule divide_nonneg_pos)
  moreover have "(of_int r :: rat) / 10 ^ n \<le> 1" using hi p by (simp add: divide_le_eq_1_pos)
  ultimately show ?thesis by simp
qed

lemma level_match_unit: "0 \<le> calculate_skill_level_match a b \<and> calculate_skill_level_match a b \<le> 1"
  by (simp add: calculate_skill_level_match_def Let_def split: sum.splits)

lemma weight_unit: "map_of skill_weights k = Some w \<Longrightarrow> 0 \<le> w \<and> w \<le> 1"
  by (auto simp: skill_weights_def split: if_splits)

lemma dict_set_length: "length (dict_set k v d) \<le> Suc (length d)"
  by (induction d) auto

lemma skill_dict_from_length: "skill_dict_from d ss = Inr d' \<Longrightarrow> length d' \<le> length d + length ss"
proof (induction ss arbitrary: d)
  case Nil then show ?case by simp
next
  case (Cons s ss)
  from Cons.prems obtain k where rec: "skill_dict_from (dict_set k s d) ss = Inr d'"
    by (auto split: sum.splits)
  have "length d' \<le> length (dict_set k s d) + length ss" using Cons.IH [OF rec] .
  also have "\<dots> \<le> Suc (length d) + length ss" using dict_set_length [of k s d] by simp
  finally show ?case by simp
qed

lemma skill_loop_inv:
  "skill_loop cd jd (m, mi, sc) = Inr (m', mi', sc') \<Longrightarrow> length m = length sc \<Longrightarrow> unit_scores sc \<Longrightarrow>
     length m' = length sc' \<and> unit_scores sc' \<and> length m' \<le> length m + length jd"
proof (induction jd arbitrary: m mi sc)
  case Nil
  then show ?case by simp
next
  case (Cons p jd)
  obtain k js where p: "p = (k, js)" by (cases p)
  show ?case
  proof (cases "map_of cd k")
    case None
    with Cons.prems p have "skill_loop cd jd (m, mi @ [\<lparr>mis_name = str_title k,
                 mis_required_level = get_or (proficiency_level js) ''intermediate'',
                 mis_category = get_or (skill_category js) ''technical''\<rparr>], sc) = Inr (m', mi', sc')" by simp
    from Cons.IH [OF this Cons.prems(2,3)] show ?thesis by simp
  next
    case (Some cs)
    from Cons.prems(1) p Some obtain c where c: "lower_of (get_or (skill_category js) ''technical'') = Inr c"
      by (auto simp: Let_def split: sum.splits)
    define w where "w = (case map_of skill_weights (replace_char CHR '' '' CHR ''_'' c) of Some w \<Rightarrow> w | None \<Rightarrow> 7 / 10)"
    have w: "0 \<le> w \<and> w \<le> 1" using weight_unit by (auto simp: w_def split: option.splits)
    define ws where "ws = calculate_skill_level_match cs js * w"
    have ws: "0 \<le> ws \<and> ws \<le> 1" using w level_match_unit [of cs js] by (simp add: ws_def mult_le_one)
    from Cons.prems(1) p Some c obtain e where
      rec: "skill_loop cd jd (m @ [e], mi, sc @ [ws]) = Inr (m', mi', sc')"
      by (auto simp: Let_def ws_def w_def)
    have "length (m @ [e]) = length (sc @ [ws])" using Cons.prems(2) by simp
    moreover have "unit_scores (sc @ [ws])" using Cons.prems(3) ws by (simp add: unit_scores_def)
    ultimately show ?thesis using Cons.IH [OF rec] by simp
  qed
qed

lemma sum_list_unit: "unit_scores xs \<Longrightarrow> 0 \<le> sum_list xs \<and> sum_list xs \<le> of_nat (length xs)"
  by (induction xs) (auto simp: unit_scores_def)

lemma only_score_score [simp]: "score (only_score s) = s"
  by (simp add: only_score_def)

lemma on_error_unit: "(\<And>r. b = Inr r \<Longrightarrow> 0 \<le> score r \<and> score r \<le> 1) \<Longrightarrow> 0 \<le> score (on_error b) \<and> score (on_error b) \<le> 1"
  by (cases b) (auto simp: on_error_def)

lemma skill_unit: "0 \<le> score (calculate_skill_match c j) \<and> score (calculate_skill_match c j) \<le> 1"
  unfolding calculate_skill_match_def
proof (rule on_error_unit)
  fix r assume b: "skill_match_body c j = Inr r"
  show "0 \<le> score r \<and> score r \<le> 1"
  proof (cases "skills c = [] \<or> required_skills j = []")
    case True
    with b show ?thesis by (auto simp: skill_match_body_def)
  next
    case False
    with b obtain cd jd m mi sc where cd: "skill_dict (skills c) = Inr cd" and jd: "skill_dict (required_skills j) = Inr jd"
      and loop: "skill_loop cd jd ([], [], []) = Inr (m, mi, sc)"
      and r: "score r = py_round (if sc \<noteq> [] then (sum_list sc / of_nat (length sc)) * (of_nat (length m) / of_nat (length (required_skills j))) else 0) 3"
      by (auto simp: skill_match_body_def Let_def split: sum.splits prod.splits)
    have inv: "length m = length sc \<and> unit_scores sc \<and> length m \<le> length jd"
      using skill_loop_inv [OF loop] by (simp add: unit_scores_def)
    have jl: "length jd \<le> length (required_skills j)" using skill_dict_from_length [of "[]"] jd by (simp add: skill_dict_def)
    have n: "0 < length (required_skills j)" using False by simp
    have cov: "0 \<le> (of_nat (length m) / of_nat (length (required_skills j)) :: rat) \<and> (of_nat (length m) / of_nat (length (required_skills j)) :: rat) \<le> 1"
      using inv jl n by (simp add: divide_le_eq_1)
    have mean: "sc \<noteq> [] \<Longrightarrow> 0 \<le> sum_list sc / of_nat (length sc) \<and> sum_list sc / of_nat (length sc) \<le> 1"
      using sum_list_unit [of sc] inv by (simp add: divide_le_eq_1)
    define a where "a = sum_list sc / of_nat (length sc)"
    define b where "b = (of_nat (length m) / of_nat (length (required_skills j)) :: rat)"
    have "0 \<le> (if sc \<noteq> [] then a * b else 0) \<and> (if sc \<noteq> [] then a * b else 0) \<le> 1"
    proof (cases "sc = []")
      case True then show ?thesis by simp
    next
      case False
      then have "0 \<le> a \<and> a \<le> 1" using mean by (simp add: a_def)
      moreover have "0 \<le> b \<and> b \<le> 1" using cov by (simp add: b_def)
      ultimately have "0 \<le> a * b \<and> a * b \<le> 1" by (simp add: mult_le_one)
      then show ?thesis using False by simp
    qed
    then have "0 \<le> (if sc \<noteq> [] then (sum_list sc / of_nat (length sc)) * (of_nat (length m) / of_nat (length (required_skills j))) else 0)
       \<and> (if sc \<noteq> [] then (sum_list sc / of_nat (length sc)) * (of_nat (length m) / of_nat (length (required_skills j))) else 0) \<le> 1"
      unfolding a_def b_def .
    then show ?thesis using py_round_unit r by simp
  qed
qed

lemma years_match_unit: "years_match cy ry mx = Inr v \<Longrightarrow> 0 \<le> v \<and> v \<le> 1"
  by (auto simp: years_match_def split: option.splits if_splits)

lemma max_penalty_unit:
  fixes x :: rat
  assumes "0 \<le> fl" "fl \<le> 1" "0 \<le> x" "0 \<le> p"
  shows "0 \<le> max fl (1 - x * p) \<and> max fl (1 - x * p) \<le> 1"
proof -
  have "0 \<le> x * p" using assms by simp
  then have "1 - x * p \<le> 1" by simp
  then show ?thesis using assms by (simp add: max_def)
qed

lemma level_unit: "0 \<le> calculate_level_match a b \<and> calculate_level_match a b \<le> 1"
  unfolding calculate_level_match_def Let_def
  using max_penalty_unit [of "7 / 10" _ "1 / 10"] max_penalty_unit [of 0 _ "2 / 10"]
  by (simp del: of_nat_diff)

lemma industry_unit: "0 \<le> calculate_industry_experience_match es ji \<and> calculate_industry_experience_match es ji \<le> 1"
proof -
  have "0 \<le> min 1 (of_nat n / of_nat (length es) + 3 / 10 :: rat)" for n
    by simp
  then show ?thesis
    by (simp add: calculate_industry_experience_match_def split: sum.splits)
qed

lemma experience_unit: "0 \<le> score (calculate_experience_match clk c j) \<and> score (calculate_experience_match clk c j) \<le> 1"
  unfolding calculate_experience_match_def
proof (rule on_error_unit)
  fix r assume b: "experience_match_body clk c j = Inr r"
  define ls where "ls = calculate_level_match (determine_experience_level (calculate_years_of_experience clk (work_experience c)))
      (get_or (level (case experience_requirements j of None \<Rightarrow> no_requirements | Some r \<Rightarrow> r)) ''mid'')"
  define is' where "is' = calculate_industry_experience_match (work_experience c) (get_or (industry j) [])"
  from b obtain ys where y: "years_match (calculate_years_of_experience clk (work_experience c))
       (get_or (min_years (case experience_requirements j of None \<Rightarrow> no_requirements | Some r \<Rightarrow> r)) 0)
       (get_or (max_years (case experience_requirements j of None \<Rightarrow> no_requirements | Some r \<Rightarrow> r)) 20) = Inr ys"
    and r: "score r = py_round (ys * (4 / 10) + ls * (4 / 10) + is' * (2 / 10)) 3"
    by (auto simp: experience_match_body_def Let_def ls_def is'_def split: sum.splits)
  have ys: "0 \<le> ys \<and> ys \<le> 1" using years_match_unit [OF y] .
  have ls: "0 \<le> ls \<and> ls \<le> 1" unfolding ls_def by (rule level_unit)
  have "is": "0 \<le> is' \<and> is' \<le> 1" unfolding is'_def by (rule industry_unit)
  have "0 \<le> ys * (4 / 10) + ls * (4 / 10) + is' * (2 / 10) \<and> ys * (4 / 10) + ls * (4 / 10) + is' * (2 / 10) \<le> 1"
    using ys ls "is" by simp
  then show "0 \<le> score r \<and> score r \<le> 1" using py_round_unit r by simp
qed


lemma on_error_cases:
  assumes "\<And>r. b = Inr r \<Longrightarrow> score r \<in> S" "0 \<in> S"
  shows "score (on_error b) \<in> S"
  using assms by (cases b) (auto simp: on_error_def)

lemma domain_values: "score (calculate_domain_match c j) \<in> {0, 3 / 10, 1 / 2, 7 / 10, 1}"
  unfolding calculate_domain_match_def
proof (rule on_error_cases)
  fix r assume "domain_match_body c j = Inr r"
  then show "score r \<in> {0, 3 / 10, 1 / 2, 7 / 10, 1}"
    by (simp add: domain_match_body_def Let_def split: sum.splits option.splits if_splits) auto
qed simp

lemma domain_unit: "0 \<le> score (calculate_domain_match c j) \<and> score (calculate_domain_match c j) \<le> 1"
  using domain_values [of c j] by auto

lemma location_values: "score (calculate_location_match c j) \<in> {0, 2 / 10, 1 / 2, 8 / 10, 1}"
  unfolding calculate_location_match_def
proof (rule on_error_cases)
  fix r assume "location_match_body c j = Inr r"
  then show "score r \<in> {0, 2 / 10, 1 / 2, 8 / 10, 1}"
    by (simp add: location_match_body_def Let_def split: sum.splits option.splits if_splits) auto
qed simp

lemma location_unit: "0 \<le> score (calculate_location_match c j) \<and> score (calculate_location_match c j) \<le> 1"
  using location_values [of c j] by auto


lemma distinct_word_set: "distinct (word_set t)"
  by (simp add: word_set_def)

lemma jaccard_le:
  assumes "distinct w1"
  shows "length (filter (\<lambda>w. w \<in> set w2) w1) \<le> length (remdups (w1 @ w2))"
proof -
  have "length (filter (\<lambda>w. w \<in> set w2) w1) \<le> length w1" by simp
  also have "\<dots> = card (set w1)" using assms by (simp add: distinct_card)
  also have "\<dots> \<le> card (set (w1 @ w2))" by (rule card_mono) auto
  also have "\<dots> = length (remdups (w1 @ w2))" by (simp only: length_remdups_card_conv)
  finally show ?thesis .
qed

lemma keyword_unit: "0 \<le> calculate_keyword_similarity a b \<and> calculate_keyword_similarity a b \<le> 1"
proof -
  define w1 where "w1 = word_set a"
  define w2 where "w2 = word_set b"
  define i where "i = length (filter (\<lambda>w. w \<in> set w2) w1)"
  define u where "u = length (remdups (w1 @ w2))"
  have le: "i \<le> u" unfolding i_def u_def w1_def by (rule jaccard_le [OF distinct_word_set])
  have q: "0 \<le> (of_nat i / of_nat u :: rat) \<and> (of_nat i / of_nat u :: rat) \<le> 1"
    using le by (cases "u = 0") (simp_all add: divide_le_eq_1)
  have "calculate_keyword_similarity a b = (if w1 = [] \<or> w2 = [] then 0 else if remdups (w1 @ w2) \<noteq> [] then of_nat i / of_nat u else 0)"
    unfolding calculate_keyword_similarity_def Let_def w1_def w2_def i_def u_def by (rule refl)
  then show ?thesis using q by simp
qed

lemma keyword_based_unit: "0 \<le> score (keyword_based a b) \<and> score (keyword_based a b) \<le> 1"
  using keyword_unit [of a b] py_round_unit by (simp add: keyword_based_def Let_def)

lemma semantic_unit:
  assumes "\<And>a b r. tfidf_cosine eng a b = Inr r \<Longrightarrow> 0 \<le> r \<and> r \<le> 1"
  shows "0 \<le> score (calculate_semantic_match eng c j) \<and> score (calculate_semantic_match eng c j) \<le> 1"
proof -
  have "0 \<le> py_round r 3 \<and> py_round r 3 \<le> 1" if "tfidf_cosine eng a b = Inr r" for a b r
    using assms [OF that] py_round_unit by simp
  then show ?thesis using keyword_based_unit
    by (simp add: calculate_semantic_match_def Let_def split: sum.splits)
qed

lemma candidate_completeness_unit: "0 \<le> candidate_completeness c \<and> candidate_completeness c \<le> 1"
  by (simp add: candidate_completeness_def)

lemma job_completeness_unit: "0 \<le> job_completeness j \<and> job_completeness j \<le> 1"
  by (simp add: job_completeness_def split: option.splits)

lemma confidence_unit: "0 \<le> calculate_confidence c j \<and> calculate_confidence c j \<le> 1"
  using candidate_completeness_unit [of c] job_completeness_unit [of j]
  by (simp add: calculate_confidence_def)

text \<open>
  C1. When what the fitted vectorizer returns as cosine similarity lies between 0 and 1,
  \<open>calculate_match_score\<close> returns, for every candidate and job, an overall score and a
  confidence between 0 and 1; each of the five component scores lies between 0 and 1,
  the five weights add up to 1, and the completeness of each side is at most 1.
\<close>

theorem match_score_bounded:
  assumes cosine: "\<And>a b r. tfidf_cosine eng a b = Inr r \<Longrightarrow> 0 \<le> r \<and> r \<le> 1"
  shows "0 \<le> overall_score (calculate_match_score eng clk c j)
       \<and> overall_score (calculate_match_score eng clk c j) \<le> 1
       \<and> 0 \<le> confidence (calculate_match_score eng clk c j)
       \<and> confidence (calculate_match_score eng clk c j) \<le> 1
       \<and> (0 \<le> score (calculate_skill_match c j) \<and> score (calculate_skill_match c j) \<le> 1)
       \<and> (0 \<le> score (calculate_experience_match clk c j) \<and>
          score (calculate_experience_match clk c j) \<le> 1)
       \<and> (0 \<le> score (calculate_domain_match c j) \<and> score (calculate_domain_match c j) \<le> 1)
       \<and> (0 \<le> score (calculate_location_match c j) \<and>
          score (calculate_location_match c j) \<le> 1)
       \<and> (0 \<le> score (calculate_semantic_match eng c j) \<and>
          score (calculate_semantic_match eng c j) \<le> 1)
       \<and> w_skills score_weights + w_experience score_weights + w_domain score_weights +
          w_location score_weights + w_semantic score_weights = 1
       \<and> candidate_completeness c \<le> 1 \<and> job_completeness j \<le> 1"
proof -
  define s1 where "s1 = score (calculate_skill_match c j)"
  define s2 where "s2 = score (calculate_experience_match clk c j)"
  define s3 where "s3 = score (calculate_domain_match c j)"
  define s4 where "s4 = score (calculate_location_match c j)"
  define s5 where "s5 = score (calculate_semantic_match eng c j)"
  have b1: "0 \<le> s1 \<and> s1 \<le> 1" unfolding s1_def by (rule skill_unit)
  have b2: "0 \<le> s2 \<and> s2 \<le> 1" unfolding s2_def by (rule experience_unit)
  have b3: "0 \<le> s3 \<and> s3 \<le> 1" unfolding s3_def by (rule domain_unit)
  have b4: "0 \<le> s4 \<and> s4 \<le> 1" unfolding s4_def by (rule location_unit)
  have b5: "0 \<le> s5 \<and> s5 \<le> 1" unfolding s5_def using cosine by (rule semantic_unit)
  define total where
    "total = s1 * (35 / 100) + s2 * (25 / 100) + s3 * (15 / 100) + s4 * (10 / 100) +
             s5 * (15 / 100)"
  have total: "0 \<le> total \<and> total \<le> 1"
    unfolding total_def using b1 b2 b3 b4 b5 by simp
  have overall: "overall_score (calculate_match_score eng clk c j) = py_round total 3"
    by (simp add: calculate_match_score_def match_score_body_def Let_def score_weights_def
          total_def s1_def s2_def s3_def s4_def s5_def)
  have conf:
    "confidence (calculate_match_score eng clk c j) = py_round (calculate_confidence c j) 3"
    by (simp add: calculate_match_score_def match_score_body_def Let_def)
  have o: "0 \<le> py_round total 3 \<and> py_round total 3 \<le> 1"
    using total py_round_unit by simp
  have cf: "0 \<le> py_round (calculate_confidence c j) 3 \<and>
            py_round (calculate_confidence c j) 3 \<le> 1"
    using confidence_unit [of c j] py_round_unit by simp
  have w: "w_skills score_weights + w_experience score_weights + w_domain score_weights +
           w_location score_weights + w_semantic score_weights = 1"
    by (simp add: score_weights_def)
  show ?thesis
    using o cf b1 b2 b3 b4 b5 w candidate_completeness_unit [of c] job_completeness_unit [of j]
    unfolding overall conf s1_def s2_def s3_def s4_def s5_def
    by blast
qed

theorem match_score_bounded_witness:
  "0 \<le> overall_score (calculate_match_score half_engine clock0 python_candidate python_job)
   \<and> overall_score (calculate_match_score half_engine clock0 python_candidate python_job) \<le> 1
   \<and> 0 \<le> confidence (calculate_match_score half_engine clock0 python_candidate python_job)
   \<and> confidence (calculate_match_score half_engine clock0 python_candidate python_job) \<le> 1"
proof -
  have "tfidf_cosine half_engine a b = Inr r \<longrightarrow> 0 \<le> r \<and> r \<le> 1" for a b r
    by (simp add: half_engine_def)
  then show ?thesis
    using match_score_bounded [where eng = half_engine and clk = clock0
        and c = python_candidate and j = python_job]
    by blast
qed

subsection \<open>A failing component scorer\<close>

text \<open>
  C7. For every candidate and job the match computation completes (its result is never
  the failure dictionary), its breakdown holds what each of the five scorers returns on
  its own, and the overall score is the rounded weighted sum of their scores. When the
  body of the skill, experience, domain or location scorer raises an exception, that
  scorer returns score 0 with the exception as its \<open>error\<close> and nothing else. (The
  semantic scorer has no statement that raises.)
\<close>

theorem component_failure_is_local:
  "failure (calculate_match_score eng clk c j) = None
   \<and> match_breakdown (calculate_match_score eng clk c j) =
       Some \<lparr>b_skills = calculate_skill_match c j,
              b_experience = calculate_experience_match clk c j,
              b_domain = calculate_domain_match c j,
              b_location = calculate_location_match c j,
              b_semantic = calculate_semantic_match eng c j\<rparr>
   \<and> overall_score (calculate_match_score eng clk c j) =
       py_round (score (calculate_skill_match c j) * (35 / 100) +
                 score (calculate_experience_match clk c j) * (25 / 100) +
                 score (calculate_domain_match c j) * (15 / 100) +
                 score (calculate_location_match c j) * (10 / 100) +
                 score (calculate_semantic_match eng c j) * (15 / 100)) 3
   \<and> (skill_match_body c j = Inl e \<longrightarrow>
        calculate_skill_match c j = (only_score 0)\<lparr>error := Some e\<rparr>)
   \<and> (experience_match_body clk c j = Inl e \<longrightarrow>
        calculate_experience_match clk c j = (only_score 0)\<lparr>error := Some e\<rparr>)
   \<and> (domain_match_body c j = Inl e \<longrightarrow>
        calculate_domain_match c j = (only_score 0)\<lparr>error := Some e\<rparr>)
   \<and> (location_match_body c j = Inl e \<longrightarrow>
        calculate_location_match c j = (only_score 0)\<lparr>error := Some e\<rparr>)"
  by (simp add: calculate_match_score_def match_score_body_def Let_def score_weights_def
        calculate_skill_match_def calculate_experience_match_def calculate_domain_match_def
        calculate_location_match_def on_error_def)

lemmas example_records = nameless_candidate_def null_job_def python_candidate_def
  python_job_def empty_candidate_def empty_job_def skill_at_def

theorem component_failure_is_local_witness:
  "skill_match_body nameless_candidate python_job = Inl (KeyError ''name'')
   \<and> calculate_skill_match nameless_candidate python_job =
       (only_score 0)\<lparr>error := Some (KeyError ''name'')\<rparr>
   \<and> score (calculate_experience_match clock0 nameless_candidate python_job) = 37 / 50
   \<and> failure (calculate_match_score half_engine clock0 nameless_candidate python_job) = None
   \<and> overall_score (calculate_match_score half_engine clock0 nameless_candidate python_job) =
       77 / 200
   \<and> experience_match_body clock0 python_candidate null_job = Inl TypeError
   \<and> calculate_experience_match clock0 python_candidate null_job =
       (only_score 0)\<lparr>error := Some TypeError\<rparr>
   \<and> domain_match_body python_candidate null_job = Inl AttributeError
   \<and> calculate_domain_match python_candidate null_job =
       (only_score 0)\<lparr>error := Some AttributeError\<rparr>
   \<and> location_match_body python_candidate null_job = Inl AttributeError
   \<and> calculate_location_match python_candidate null_job =
       (only_score 0)\<lparr>error := Some AttributeError\<rparr>
   \<and> score (calculate_skill_match python_candidate null_job) = 1
   \<and> failure (calculate_match_score half_engine clock0 python_candidate null_job) = None
   \<and> overall_score (calculate_match_score half_engine clock0 python_candidate null_job) =
       17 / 40"
proof -
  have w1: "skill_match_body nameless_candidate python_job = Inl (KeyError ''name'')"
    by (simp add: skill_match_body_def example_records skill_dict_def skill_key_def)
  have w2: "experience_match_body clock0 python_candidate null_job = Inl TypeError"
    by (simp add: experience_match_body_def example_records years_match_def get_or_def Let_def)
  have w3: "domain_match_body python_candidate null_job = Inl AttributeError"
    by (simp add: domain_match_body_def example_records get_or_def lower_of_def Let_def)
  have w4: "location_match_body python_candidate null_job = Inl AttributeError"
    by (simp add: location_match_body_def example_records get_or_def lower_of_def Let_def)
  have e1: "score (calculate_experience_match clock0 nameless_candidate python_job) = 37 / 50"
    by code_simp
  have e2: "overall_score (calculate_match_score half_engine clock0 nameless_candidate
              python_job) = 77 / 200"
    by code_simp
  have e3: "score (calculate_skill_match python_candidate null_job) = 1"
    by code_simp
  have e4: "overall_score (calculate_match_score half_engine clock0 python_candidate null_job) =
              17 / 40"
    by code_simp
  show ?thesis
    using w1 w2 w3 w4 e1 e2 e3 e4
      component_failure_is_local [where eng = half_engine and clk = clock0
        and c = nameless_candidate and j = python_job and e = "KeyError ''name''"]
      component_failure_is_local [where eng = half_engine and clk = clock0
        and c = python_candidate and j = null_job and e = TypeError]
      component_failure_is_local [where eng = half_engine and clk = clock0
        and c = python_candidate and j = null_job and e = AttributeError]
    by blast
qed

subsection \<open>Ranking\<close>

lemma ranked_by_descending_score:
  fixes f :: "'a \<Rightarrow> rat" and xs :: "'a list"
  defines "kept \<equiv> filter (\<lambda>m. 0 < f m) xs"
  defines "ranked \<equiv> sort_key (\<lambda>m. - f m) kept"
  shows "0 \<le> limit \<Longrightarrow> slice_to limit ranked = take (nat limit) ranked"
    and "0 \<le> limit \<Longrightarrow> length (slice_to limit ranked) \<le> nat limit"
    and "sorted_wrt (\<lambda>a b. f b \<le> f a) ranked"
    and "filter (\<lambda>m. f m = v) ranked = filter (\<lambda>m. f m = v) kept"
proof -
  show "0 \<le> limit \<Longrightarrow> slice_to limit ranked = take (nat limit) ranked"
    by (simp add: slice_to_def)
  then show "0 \<le> limit \<Longrightarrow> length (slice_to limit ranked) \<le> nat limit"
    by simp
  have "sorted (map (\<lambda>m. - f m) ranked)"
    unfolding ranked_def by (rule sorted_sort_key)
  then show "sorted_wrt (\<lambda>a b. f b \<le> f a) ranked"
    by (simp add: sorted_map)
  have "filter (\<lambda>m. - f m = - v) ranked = filter (\<lambda>m. - f m = - v) kept"
    unfolding ranked_def by (rule sort_key_stable)
  then show "filter (\<lambda>m. f m = v) ranked = filter (\<lambda>m. f m = v) kept"
    by simp
qed

text \<open>
  C4. For a limit that is not negative (at most \<open>limit\<close> entries can be returned for
  no other), \<open>find_best_matches\<close> and \<open>find_best_candidates\<close> return the first
  \<open>limit\<close> entries of a list that holds the entries with a positive overall score, in
  descending order of score, entries of equal score in the order of the input; so they
  return at most \<open>limit\<close> entries. Every entry carries the overall score of its own
  pair.
\<close>

theorem ranking_for_nonnegative_limit:
  assumes "0 \<le> limit"
  shows "(\<exists>ranked.
            find_best_matches eng clk c jobs limit = take (nat limit) ranked
          \<and> sorted_wrt (\<lambda>a b. jm_match_score b \<le> jm_match_score a) ranked
          \<and> (\<forall>v. filter (\<lambda>m. jm_match_score m = v) ranked =
                  filter (\<lambda>m. jm_match_score m = v)
                    (filter (\<lambda>m. 0 < jm_match_score m) (map (job_entry eng clk c) jobs))))
       \<and> length (find_best_matches eng clk c jobs limit) \<le> nat limit
       \<and> jm_match_score (job_entry eng clk c j) = overall_score (calculate_match_score eng clk c j)
       \<and> (\<exists>ranked.
            find_best_candidates eng clk j candidates limit = take (nat limit) ranked
          \<and> sorted_wrt (\<lambda>a b. cm_match_score b \<le> cm_match_score a) ranked
          \<and> (\<forall>v. filter (\<lambda>m. cm_match_score m = v) ranked =
                  filter (\<lambda>m. cm_match_score m = v)
                    (filter (\<lambda>m. 0 < cm_match_score m)
                       (map (candidate_entry eng clk j) candidates))))
       \<and> length (find_best_candidates eng clk j candidates limit) \<le> nat limit
       \<and> cm_match_score (candidate_entry eng clk j c) =
           overall_score (calculate_match_score eng clk c j)"
proof -
  let ?jr = "sort_key (\<lambda>m. - jm_match_score m)
               (filter (\<lambda>m. 0 < jm_match_score m) (map (job_entry eng clk c) jobs))"
  let ?cr = "sort_key (\<lambda>m. - cm_match_score m)
               (filter (\<lambda>m. 0 < cm_match_score m) (map (candidate_entry eng clk j) candidates))"
  have j1: "find_best_matches eng clk c jobs limit = take (nat limit) ?jr"
    using ranked_by_descending_score(1) [OF assms] by (simp add: find_best_matches_def)
  have j2: "sorted_wrt (\<lambda>a b. jm_match_score b \<le> jm_match_score a) ?jr"
    by (rule ranked_by_descending_score(3))
  have j3: "\<forall>v. filter (\<lambda>m. jm_match_score m = v) ?jr =
                filter (\<lambda>m. jm_match_score m = v)
                  (filter (\<lambda>m. 0 < jm_match_score m) (map (job_entry eng clk c) jobs))"
    using ranked_by_descending_score(4) by blast
  have j4: "length (find_best_matches eng clk c jobs limit) \<le> nat limit"
    unfolding j1 by simp
  have j5: "jm_match_score (job_entry eng clk c j) =
              overall_score (calculate_match_score eng clk c j)"
    by (simp add: job_entry_def Let_def)
  have c1: "find_best_candidates eng clk j candidates limit = take (nat limit) ?cr"
    using ranked_by_descending_score(1) [OF assms] by (simp add: find_best_candidates_def)
  have c2: "sorted_wrt (\<lambda>a b. cm_match_score b \<le> cm_match_score a) ?cr"
    by (rule ranked_by_descending_score(3))
  have c3: "\<forall>v. filter (\<lambda>m. cm_match_score m = v) ?cr =
                filter (\<lambda>m. cm_match_score m = v)
                  (filter (\<lambda>m. 0 < cm_match_score m)
                     (map (candidate_entry eng clk j) candidates))"
    using ranked_by_descending_score(4) by blast
  have c4: "length (find_best_candidates eng clk j candidates limit) \<le> nat limit"
    unfolding c1 by simp
  have c5: "cm_match_score (candidate_entry eng clk j c) =
              overall_score (calculate_match_score eng clk c j)"
    by (simp add: candidate_entry_def Let_def)
  from j1 j2 j3 j4 j5 c1 c2 c3 c4 c5 show ?thesis
    by blast
qed

theorem ranking_for_nonnegative_limit_witness:
  "length (find_best_matches half_engine clock0 python_candidate three_jobs 2) \<le> nat 2
   \<and> length (find_best_candidates half_engine clock0 python_job three_candidates 2) \<le> nat 2
   \<and> map jm_job_id (find_best_matches half_engine clock0 python_candidate three_jobs 3) =
       [Some 1, Some 3, Some 2]
   \<and> map jm_job_id (find_best_matches half_engine clock0 python_candidate three_jobs 2) =
       [Some 1, Some 3]
   \<and> map cm_candidate_id
       (find_best_candidates half_engine clock0 python_job three_candidates 3) =
       [Some 1, Some 3, Some 2]
   \<and> map cm_candidate_id
       (find_best_candidates half_engine clock0 python_job three_candidates 2) =
       [Some 1, Some 3]"
proof -
  have "(0 :: int) \<le> 2"
    by simp
  from ranking_for_nonnegative_limit [OF this, where eng = half_engine and clk = clock0
      and c = python_candidate and jobs = three_jobs and j = python_job
      and candidates = three_candidates]
  have bounded:
    "length (find_best_matches half_engine clock0 python_candidate three_jobs 2) \<le> nat 2
     \<and> length (find_best_candidates half_engine clock0 python_job three_candidates 2) \<le> nat 2"
    by blast
  have ranked:
    "map jm_job_id (find_best_matches half_engine clock0 python_candidate three_jobs 3) =
       [Some 1, Some 3, Some 2]
     \<and> map jm_job_id (find_best_matches half_engine clock0 python_candidate three_jobs 2) =
       [Some 1, Some 3]
     \<and> map cm_candidate_id
         (find_best_candidates half_engine clock0 python_job three_candidates 3) =
       [Some 1, Some 3, Some 2]
     \<and> map cm_candidate_id
         (find_best_candidates half_engine clock0 python_job three_candidates 2) =
       [Some 1, Some 3]"
    by code_simp
  from bounded ranked show ?thesis
    by blast
qed

subsection \<open>Determinism of parsing\<close>

lemma text_extraction_plain:
  assumes "ext_or_txt file \<notin> set [''pdf'', ''doc'', ''docx'']"
  shows "parse_with_text_extraction ev now file =
     (let text_content = decode_ignore ev (content file)
      in if too_short text_content then Failure ''Text extraction failed: No text content extracted''
         else Success (with_provider ''text_extraction'' (parse_text_content ev now text_content)) text_content ''text_extraction'')"
  using assms by (simp add: parse_with_text_extraction_def text_extraction_body_def Let_def)

lemma erase_text_extraction:
  "erase_parsed_at (parse_with_text_extraction ev now1 file) = erase_parsed_at (parse_with_text_extraction ev now2 file)"
  by (simp add: parse_with_text_extraction_def text_extraction_body_def erase_parsed_at_def
        with_provider_def parse_text_content_def Let_def split: sum.splits)

lemma erase_local_ocr:
  "erase_parsed_at (parse_with_local_ocr ev now1 file) = erase_parsed_at (parse_with_local_ocr ev now2 file)"
  using erase_text_extraction
  by (simp add: parse_with_local_ocr_def local_ocr_body_def erase_parsed_at_def
        with_provider_def parse_text_content_def Let_def split: sum.splits)

lemma erase_ocr_space:
  "erase_parsed_at (parse_with_ocr_space ev now1 file) = erase_parsed_at (parse_with_ocr_space ev now2 file)"
  using erase_local_ocr
  by (simp add: parse_with_ocr_space_def ocr_space_body_def erase_parsed_at_def
        with_provider_def parse_text_content_def Let_def split: sum.splits option.splits list.splits)

lemma erase_spacy:
  "erase_parsed_at (parse_with_spacy ev now1 file) = erase_parsed_at (parse_with_spacy ev now2 file)"
  by (simp add: parse_with_spacy_def spacy_parse_resume_def spacy_parse_body_def erase_parsed_at_def
        Let_def split: sum.splits)

lemma provider_cases:
  "map_of providers p = Some run \<Longrightarrow> run = parse_with_spacy \<or> run = parse_with_ocr_space \<or> run = parse_with_local_ocr \<or> run = parse_with_text_extraction"
  by (auto simp: providers_def split: if_splits)

text \<open>
  C9, as the code has it. With the file, the provider name and what the libraries and
  services outside the repository answer (the OCR.space request, the API key of the
  process environment, the document and OCR libraries, the NLP pipeline) held fixed, two
  calls of \<open>parse_resume\<close> at any two times return the same result (success or
  failure, every field of the parsed data, raw text and provider) but for the timestamp
  \<open>parsed_at\<close>.
\<close>

theorem parse_is_deterministic:
  "erase_parsed_at (parse_resume ev now1 file provider) = erase_parsed_at (parse_resume ev now2 file provider)"
proof (cases "map_of providers provider")
  case None
  then show ?thesis using erase_spacy by (simp add: parse_resume_def)
next
  case (Some run)
  from provider_cases [OF Some] show ?thesis
    using erase_spacy erase_ocr_space
      erase_local_ocr erase_text_extraction Some
    by (auto simp: parse_resume_def)
qed

text \<open>
  The claim as stated, with only the file and the provider name fixed, fails. The same
  file \<open>scan.png\<close> is parsed twice with the provider \<open>ocr_space\<close>, at the same
  time. When the request to OCR.space is refused the result comes from text extraction
  of the 20 bytes; when OCR.space answers, the result holds the 15 characters of its
  answer. The parsed data differ in \<open>provider\<close> and \<open>text_length\<close>, among others.
\<close>

theorem ocr_answer_changes_result:
  "(\<exists>p. parse_resume key_env now0 scan_file ''ocr_space'' =
          Success p ''xxxxxxxxxxxxxxxxxxxx'' ''text_extraction''
        \<and> md_provider (pr_parsing_metadata p) = ''text_extraction''
        \<and> md_text_length (pr_parsing_metadata p) = 20)
   \<and> (\<exists>q. parse_resume answering_env now0 scan_file ''ocr_space'' =
          Success q ''Jane Roe, nurse'' ''ocr_space''
        \<and> md_provider (pr_parsing_metadata q) = ''ocr_space''
        \<and> md_text_length (pr_parsing_metadata q) = 15)
   \<and> erase_parsed_at (parse_resume key_env now0 scan_file ''ocr_space'') \<noteq>
       erase_parsed_at (parse_resume answering_env now0 scan_file ''ocr_space'')"
proof -
  have ext: "ext_or_txt scan_file = ''png''"
    by (simp add: ext_or_txt_def filename_of_def get_or_def file_ext_def split_on_def char_simps
          scan_file_def)
  have valid: "validate_file scan_file"
    by (simp add: validate_file_def filename_of_def get_or_def file_ext_def split_on_def
          char_simps scan_file_def max_file_size_def allowed_extensions_def)
  have run: "parse_resume ev now0 scan_file ''ocr_space'' = parse_with_ocr_space ev now0 scan_file"
    for ev
    by (simp add: parse_resume_def valid providers_def)
  have cloud: "ocr_space_body key_env now0 scan_file = Inl ''connection refused''"
    by (simp add: ocr_space_body_def key_env_def env0_def)
  have loc: "local_ocr_body key_env now0 scan_file =
               Inl ''Image OCR failed: cannot identify image file''"
    by (simp add: local_ocr_body_def ext extract_text_from_image_def)
       (simp add: key_env_def env0_def)
  have "ext_or_txt scan_file \<notin> set [''pdf'', ''doc'', ''docx'']"
    by (simp add: ext)
  from text_extraction_plain [OF this, of key_env now0]
  have "parse_with_text_extraction key_env now0 scan_file =
          Success (with_provider ''text_extraction''
                     (parse_text_content key_env now0 ''xxxxxxxxxxxxxxxxxxxx''))
            ''xxxxxxxxxxxxxxxxxxxx'' ''text_extraction''"
    by (simp add: Let_def too_short_def strip_def is_space_def key_env_def env0_def
          scan_file_def)
  then have first: "parse_resume key_env now0 scan_file ''ocr_space'' =
          Success (with_provider ''text_extraction''
                     (parse_text_content key_env now0 ''xxxxxxxxxxxxxxxxxxxx''))
            ''xxxxxxxxxxxxxxxxxxxx'' ''text_extraction''"
    by (simp add: run parse_with_ocr_space_def cloud parse_with_local_ocr_def loc)
  have answered: "ocr_space_body answering_env now0 scan_file =
          Inr (Success (with_provider ''ocr_space''
                          (parse_text_content answering_env now0 ''Jane Roe, nurse''))
                 ''Jane Roe, nurse'' ''ocr_space'')"
    by (simp add: ocr_space_body_def answering_env_def key_env_def env0_def get_or_def)
  then have second: "parse_resume answering_env now0 scan_file ''ocr_space'' =
          Success (with_provider ''ocr_space''
                     (parse_text_content answering_env now0 ''Jane Roe, nurse''))
            ''Jane Roe, nurse'' ''ocr_space''"
    by (simp add: run parse_with_ocr_space_def)
  have meta: "md_provider (pr_parsing_metadata (with_provider n (parse_text_content ev now t))) = n"
    "md_text_length (pr_parsing_metadata (with_provider n (parse_text_content ev now t))) = length t"
    for n ev now t
    by (simp_all add: with_provider_def parse_text_content_def Let_def)
  show ?thesis
    unfolding first second by (simp add: meta erase_parsed_at_def)
qed

subsection \<open>File validation\<close>

text \<open>
  C10. A file of at most 10 MB whose \<open>filename\<close> attribute is absent or empty passes
  \<open>_validate_file\<close>; \<open>parse_resume\<close> hands it to the provider, its extension counts
  as \<open>txt\<close>, and text extraction decodes its bytes whatever they are.
\<close>

theorem nameless_file_is_accepted:
  assumes "length (content f) \<le> max_file_size"
    and "filename f = Absent \<or> filename f = Val []"
  shows "validate_file f
       \<and> parse_resume ev now f provider =
          (case map_of providers provider of
             Some run \<Rightarrow> run ev now f
           | None \<Rightarrow> parse_with_spacy ev now f)
       \<and> ext_or_txt f = ''txt''
       \<and> parse_resume ev now f ''text_extraction'' =
          (let text_content = decode_ignore ev (content f)
           in if too_short text_content
              then Failure ''Text extraction failed: No text content extracted''
              else Success (with_provider ''text_extraction''
                              (parse_text_content ev now text_content))
                     text_content ''text_extraction'')"
proof -
  have v: "validate_file f" using assms by (auto simp: validate_file_def filename_of_def get_or_def Let_def)
  have e: "ext_or_txt f = ''txt''" using assms(2) by (auto simp: ext_or_txt_def filename_of_def get_or_def)
  have p: "parse_resume ev now f provider =
          (case map_of providers provider of Some run \<Rightarrow> run ev now f | None \<Rightarrow> parse_with_spacy ev now f)"
    using v by (simp add: parse_resume_def)
  have t: "parse_resume ev now f ''text_extraction'' = parse_with_text_extraction ev now f"
    using v by (simp add: parse_resume_def providers_def)
  have "ext_or_txt f \<notin> set [''pdf'', ''doc'', ''docx'']" using e by simp
  from text_extraction_plain [OF this] v e p t show ?thesis by simp
qed

lemmas example_files = nameless_file_def plain_file_def short_file_def scan_file_def
  empty_file_def

theorem nameless_file_is_accepted_witness:
  "validate_file nameless_file
   \<and> (\<exists>parsed. parse_resume env0 now0 nameless_file ''text_extraction'' =
          Success parsed ''MZ binary, not a resume'' ''text_extraction'')"
proof -
  have size: "length (content nameless_file) \<le> max_file_size"
    by (simp add: nameless_file_def max_file_size_def)
  have name: "filename nameless_file = Absent \<or> filename nameless_file = Val []"
    by (simp add: nameless_file_def)
  have long: "\<not> too_short ''MZ binary, not a resume''"
    by (simp add: too_short_def strip_def is_space_def)
  have decoded: "decode_ignore env0 (content nameless_file) = ''MZ binary, not a resume''"
    by (simp add: env0_def nameless_file_def)
  note accepted = nameless_file_is_accepted [OF size name, where ev = env0 and now = now0
      and provider = "''text_extraction''"]
  from accepted have valid: "validate_file nameless_file"
    by (rule conjunct1)
  from accepted have
    "parse_resume env0 now0 nameless_file ''text_extraction'' =
       (let text_content = decode_ignore env0 (content nameless_file)
        in if too_short text_content
           then Failure ''Text extraction failed: No text content extracted''
           else Success (with_provider ''text_extraction''
                           (parse_text_content env0 now0 text_content))
                  text_content ''text_extraction'')"
    by blast
  then have "parse_resume env0 now0 nameless_file ''text_extraction'' =
       Success (with_provider ''text_extraction''
                  (parse_text_content env0 now0 ''MZ binary, not a resume''))
         ''MZ binary, not a resume'' ''text_extraction''"
    unfolding decoded Let_def using long by simp
  with valid show ?thesis
    by blast
qed

subsection \<open>Fallback between providers\<close>

lemma text_body_success: "text_extraction_body ev now f = Inr r \<Longrightarrow> \<exists>p t. r = Success p t ''text_extraction''"
  by (auto simp: text_extraction_body_def Let_def split: sum.splits if_splits)

lemma local_failure: "parse_with_local_ocr ev now f = Failure m \<Longrightarrow> parse_with_text_extraction ev now f = Failure m"
  by (auto simp: parse_with_local_ocr_def local_ocr_body_def Let_def split: sum.splits if_splits)

lemma ocr_space_failure: "parse_with_ocr_space ev now f = Failure m \<Longrightarrow> parse_with_text_extraction ev now f = Failure m"
  using local_failure
  by (auto simp: parse_with_ocr_space_def ocr_space_body_def Let_def split: sum.splits if_splits option.splits list.splits)

text \<open>
  The chain of the OCR providers. An exception in the cloud-OCR step (or a missing API
  key) gives the request to local OCR, an exception in the local-OCR step gives it to
  text extraction, and an exception in text extraction is the failure that is returned.
  A request that entered at cloud OCR or at local OCR fails only with the failure of
  text extraction, the last of the chain.
\<close>

theorem ocr_fallback_chain:
  "(ocr_space_body ev now f = Inl e \<longrightarrow> parse_with_ocr_space ev now f = parse_with_local_ocr ev now f)
   \<and> (getenv_api_key ev = None \<or> getenv_api_key ev = Some [] \<longrightarrow> parse_with_ocr_space ev now f = parse_with_local_ocr ev now f)
   \<and> (local_ocr_body ev now f = Inl e \<longrightarrow> parse_with_local_ocr ev now f = parse_with_text_extraction ev now f)
   \<and> (text_extraction_body ev now f = Inl e \<longrightarrow> parse_with_text_extraction ev now f = Failure (''Text extraction failed: '' @ e))
   \<and> (parse_with_ocr_space ev now f = Failure m \<longrightarrow> parse_with_local_ocr ev now f = Failure m \<and> parse_with_text_extraction ev now f = Failure m)
   \<and> (parse_with_local_ocr ev now f = Failure m \<longrightarrow> parse_with_text_extraction ev now f = Failure m)
   \<and> (parse_with_text_extraction ev now f = Failure m \<longrightarrow> (\<exists>x. text_extraction_body ev now f = Inl x \<and> m = ''Text extraction failed: '' @ x))"
proof -
  have a: "ocr_space_body ev now f = Inl e \<longrightarrow> parse_with_ocr_space ev now f = parse_with_local_ocr ev now f"
    by (simp add: parse_with_ocr_space_def)
  have b: "getenv_api_key ev = None \<or> getenv_api_key ev = Some [] \<longrightarrow> parse_with_ocr_space ev now f = parse_with_local_ocr ev now f"
    by (auto simp: parse_with_ocr_space_def ocr_space_body_def)
  have c: "local_ocr_body ev now f = Inl e \<longrightarrow> parse_with_local_ocr ev now f = parse_with_text_extraction ev now f"
    by (simp add: parse_with_local_ocr_def)
  have d: "text_extraction_body ev now f = Inl e \<longrightarrow> parse_with_text_extraction ev now f = Failure (''Text extraction failed: '' @ e)"
    by (simp add: parse_with_text_extraction_def)
  have g: "parse_with_local_ocr ev now f = Failure m \<longrightarrow> parse_with_text_extraction ev now f = Failure m"
    using local_failure by blast
  have h: "parse_with_ocr_space ev now f = Failure m \<longrightarrow> parse_with_local_ocr ev now f = Failure m \<and> parse_with_text_extraction ev now f = Failure m"
    using local_failure ocr_space_failure
    by (auto simp: parse_with_ocr_space_def ocr_space_body_def Let_def split: sum.splits if_splits option.splits list.splits)
  have i: "parse_with_text_extraction ev now f = Failure m \<longrightarrow> (\<exists>x. text_extraction_body ev now f = Inl x \<and> m = ''Text extraction failed: '' @ x)"
    using text_body_success [of ev now f]
    by (auto simp: parse_with_text_extraction_def split: sum.splits)
  from a b c d g h i show ?thesis by blast
qed

theorem ocr_fallback_chain_witness:
  "ocr_space_body key_env now0 scan_file = Inl ''connection refused''
   \<and> local_ocr_body key_env now0 scan_file = Inl ''Image OCR failed: cannot identify image file''
   \<and> parse_with_ocr_space key_env now0 scan_file = parse_with_text_extraction key_env now0 scan_file
   \<and> succeeded (parse_with_text_extraction key_env now0 scan_file)
   \<and> text_extraction_body env0 now0 empty_file = Inl ''No text content extracted''
   \<and> parse_with_ocr_space env0 now0 empty_file =
       Failure ''Text extraction failed: No text content extracted''
   \<and> parse_with_text_extraction env0 now0 empty_file =
       Failure ''Text extraction failed: No text content extracted''"
proof -
  have ext: "ext_or_txt scan_file = ''png''"
    by (simp add: ext_or_txt_def filename_of_def get_or_def file_ext_def split_on_def char_simps
          scan_file_def)
  have cloud: "ocr_space_body key_env now0 scan_file = Inl ''connection refused''"
    by (simp add: ocr_space_body_def key_env_def env0_def)
  have loc: "local_ocr_body key_env now0 scan_file =
               Inl ''Image OCR failed: cannot identify image file''"
    by (simp add: local_ocr_body_def ext extract_text_from_image_def)
       (simp add: key_env_def env0_def)
  have "ext_or_txt scan_file \<notin> set [''pdf'', ''doc'', ''docx'']"
    by (simp add: ext)
  from text_extraction_plain [OF this, of key_env now0]
  have "parse_with_text_extraction key_env now0 scan_file =
          Success (with_provider ''text_extraction''
                     (parse_text_content key_env now0 (content scan_file)))
            (content scan_file) ''text_extraction''"
    by (simp add: Let_def too_short_def strip_def is_space_def key_env_def env0_def
          scan_file_def)
  then have ok: "succeeded (parse_with_text_extraction key_env now0 scan_file)"
    by (simp add: succeeded_def)
  have ext': "ext_or_txt empty_file = ''txt''"
    by (simp add: ext_or_txt_def filename_of_def get_or_def file_ext_def split_on_def char_simps
          empty_file_def)
  have last: "text_extraction_body env0 now0 empty_file = Inl ''No text content extracted''"
    by (simp add: text_extraction_body_def ext' too_short_def)
       (simp add: env0_def empty_file_def)
  have nokey: "getenv_api_key env0 = None \<or> getenv_api_key env0 = Some []"
    by (simp add: env0_def)
  have local_other: "local_ocr_body env0 now0 empty_file =
                       Inr (parse_with_text_extraction env0 now0 empty_file)"
    by (simp add: local_ocr_body_def ext')
  have local_eq: "parse_with_local_ocr env0 now0 empty_file =
                    parse_with_text_extraction env0 now0 empty_file"
    by (simp add: parse_with_local_ocr_def local_other)
  from cloud
    ocr_fallback_chain [where ev = key_env and now = now0 and f = scan_file
      and e = "''connection refused''"]
  have s1: "parse_with_ocr_space key_env now0 scan_file =
              parse_with_local_ocr key_env now0 scan_file"
    by blast
  from loc
    ocr_fallback_chain [where ev = key_env and now = now0 and f = scan_file
      and e = "''Image OCR failed: cannot identify image file''"]
  have s2: "parse_with_local_ocr key_env now0 scan_file =
              parse_with_text_extraction key_env now0 scan_file"
    by blast
  from last
    ocr_fallback_chain [where ev = env0 and now = now0 and f = empty_file
      and e = "''No text content extracted''"]
  have s3: "parse_with_text_extraction env0 now0 empty_file =
              Failure (''Text extraction failed: '' @ ''No text content extracted'')"
    by blast
  from nokey
    ocr_fallback_chain [where ev = env0 and now = now0 and f = empty_file]
  have s4: "parse_with_ocr_space env0 now0 empty_file = parse_with_local_ocr env0 now0 empty_file"
    by blast
  from cloud loc ok last show ?thesis
    unfolding s1 s2 s4 local_eq s3 by simp
qed

text \<open>
  C2 at the NLP step. The NLP pipeline raises on a plain text file of 64 characters; the
  request that entered at the NLP provider ends in the failure of that step, with no
  fallback, although each of the three other providers parses the same file.
  \<open>_parse_with_spacy\<close> has a handler that goes on to text extraction
  (\<open># Fallback to text extraction if spaCy fails\<close>), but the NLP parser catches the
  exception itself and returns a failure, so the handler is never entered.
\<close>

theorem nlp_failure_is_terminal:
  "parse_resume nlp_down now0 plain_file ''spacy_nlp'' =
     Failure ''spaCy parsing failed: model not loaded''
   \<and> succeeded (parse_with_ocr_space nlp_down now0 plain_file)
   \<and> succeeded (parse_with_local_ocr nlp_down now0 plain_file)
   \<and> succeeded (parse_with_text_extraction nlp_down now0 plain_file)"
proof -
  have ext: "ext_or_txt plain_file = ''txt''"
    by (simp add: ext_or_txt_def filename_of_def get_or_def file_ext_def split_on_def char_simps
          plain_file_def)
  have valid: "validate_file plain_file"
    by (simp add: validate_file_def filename_of_def get_or_def file_ext_def split_on_def
          char_simps plain_file_def max_file_size_def allowed_extensions_def)
  have extracted: "spacy_extract_text_from_file nlp_down plain_file = Inr (content plain_file)"
    by (simp add: spacy_extract_text_from_file_def ext nlp_down_def env0_def)
  have long: "\<not> length (strip (content plain_file)) < 50"
    by (simp add: strip_def is_space_def plain_file_def)
  have nlp: "parse_resume nlp_down now0 plain_file ''spacy_nlp'' =
               Failure ''spaCy parsing failed: model not loaded''"
    using long
    by (simp add: parse_resume_def valid providers_def parse_with_spacy_def
          spacy_parse_resume_def spacy_parse_body_def extracted)
       (simp add: nlp_down_def env0_def plain_file_def)
  have "ext_or_txt plain_file \<notin> set [''pdf'', ''doc'', ''docx'']"
    by (simp add: ext)
  from text_extraction_plain [OF this, of nlp_down now0]
  have "parse_with_text_extraction nlp_down now0 plain_file =
          Success (with_provider ''text_extraction''
                     (parse_text_content nlp_down now0 (content plain_file)))
            (content plain_file) ''text_extraction''"
    by (simp add: Let_def too_short_def strip_def is_space_def nlp_down_def env0_def
          plain_file_def)
  then have te: "succeeded (parse_with_text_extraction nlp_down now0 plain_file)"
    by (simp add: succeeded_def)
  have local_other: "local_ocr_body nlp_down now0 plain_file =
                       Inr (parse_with_text_extraction nlp_down now0 plain_file)"
    by (simp add: local_ocr_body_def ext)
  have lo: "parse_with_local_ocr nlp_down now0 plain_file =
              parse_with_text_extraction nlp_down now0 plain_file"
    by (simp add: parse_with_local_ocr_def local_other)
  have co: "parse_with_ocr_space nlp_down now0 plain_file =
              parse_with_local_ocr nlp_down now0 plain_file"
    by (simp add: parse_with_ocr_space_def ocr_space_body_def nlp_down_def env0_def)
  from nlp te lo co show ?thesis
    by simp
qed

subsection \<open>Length of the summary\<close>

lemma split_from_no_sep: "sep \<notin> set s \<Longrightarrow> split_from sep w s = [w @ s]"
  by (induction s arbitrary: w) auto

lemma contains_other_head:
  assumes "h \<noteq> []" "hd h \<noteq> x"
  shows "\<not> contains (replicate n x) h"
  using assms by (induction n) (auto simp: starts_with_def take_Cons' neq_Nil_conv split: if_splits)

lemma any_in_other_head:
  "list_all (\<lambda>h. h \<noteq> [] \<and> hd h \<noteq> x) hs \<Longrightarrow> \<not> any_in hs (replicate n x)"
  by (induction hs) (auto simp: any_in_def contains_other_head)

lemma dropWhile_head: "xs \<noteq> [] \<Longrightarrow> \<not> P (hd xs) \<Longrightarrow> dropWhile P xs = xs"
  by (cases xs) auto

lemma strip_id:
  assumes "s \<noteq> []" "\<not> is_space (hd s)" "\<not> is_space (last s)"
  shows "strip s = s"
proof -
  have "dropWhile is_space s = s" using assms by (simp add: dropWhile_head)
  moreover have "dropWhile is_space (rev s) = rev s"
    using assms by (simp add: dropWhile_head hd_rev)
  ultimately show ?thesis by (simp add: strip_def)
qed

lemma lower_replicate: "\<not> is_upper x \<Longrightarrow> lower (replicate n x) = replicate n x"
  by (simp add: lower_def lower_char_def)

lemma strip_replicate: "\<not> is_space x \<Longrightarrow> strip (replicate n x) = replicate n x"
  by (simp add: strip_def dropWhile_replicate)

lemma summary_lines:
  "split_on newline (''Summary'' @ [newline] @ replicate 501 CHR ''x'') =
   [''Summary'', replicate 501 CHR ''x'']"
  by (simp add: split_on_def newline_def split_from_no_sep)

lemma long_summary:
  "spacy_extract_summary (''Summary'' @ [newline] @ replicate 501 CHR ''x'') =
   replicate 501 CHR ''x''"
proof -
  have x: "\<not> is_upper CHR ''x''" "\<not> is_space CHR ''x''"
    by (simp_all add: is_upper_def is_space_def)
  have l1: "strip (lower ''Summary'') = ''summary''" by (simp add: strip_def char_simps)
  have h1: "any_in summary_headers ''summary''"
    by (simp add: any_in_def summary_headers_def starts_with_def)
  have n1: "\<not> any_in summary_headers (replicate 501 CHR ''x'')"
    by (rule any_in_other_head) (simp add: summary_headers_def)
  have n2: "\<not> any_in [''experience'', ''education'', ''skills''] (replicate 501 CHR ''x'')"
    by (rule any_in_other_head) simp
  show ?thesis
    unfolding spacy_extract_summary_def summary_lines
    by (simp add: Let_def l1 h1 lower_replicate strip_replicate x n1 n2)
qed

text \<open>
  C8 at the NLP provider. A text file has the line \<open>Summary\<close> and then one line of
  501 characters. The NLP provider parses it, and the summary of the result is that
  line whole: 501 characters, more than 500. \<open>_extract_summary\<close> of the NLP parser
  joins the lines of the summary section and does not truncate.
\<close>

theorem nlp_summary_is_not_truncated:
  "\<exists>parsed raw_text.
     parse_resume env0 now0 long_summary_file ''spacy_nlp'' =
       Success parsed raw_text ''spacy_nlp'' \<and>
     pr_summary parsed = replicate 501 CHR ''x'' \<and> length (pr_summary parsed) = 501"
proof -
  define t where "t = ''Summary'' @ [newline] @ replicate 501 CHR ''x''"
  have c: "content long_summary_file = t" "filename long_summary_file = Val ''cv.txt''"
    by (simp_all add: long_summary_file_def t_def)
  have ext: "ext_or_txt long_summary_file = ''txt''"
    by (simp add: ext_or_txt_def filename_of_def get_or_def c file_ext_def split_on_def
          char_simps)
  have valid: "validate_file long_summary_file"
    by (simp add: validate_file_def filename_of_def get_or_def c file_ext_def split_on_def
          char_simps Let_def t_def max_file_size_def allowed_extensions_def)
  have extracted: "spacy_extract_text_from_file env0 long_summary_file = Inr t"
    by (simp add: spacy_extract_text_from_file_def ext c env0_def)
  have "strip t = t"
    by (rule strip_id) (simp_all add: t_def is_space_def)
  then have long: "\<not> (t = [] \<or> length (strip t) < 50)" by (simp add: t_def)
  have pipeline: "nlp env0 t = Inr \<lparr>ents = [], matcher = [], sents = 1\<rparr>"
    by (simp add: env0_def)
  have s: "spacy_extract_summary t = replicate 501 CHR ''x''"
    unfolding t_def by (rule long_summary)
  show ?thesis
    using long
    by (simp add: parse_resume_def valid providers_def parse_with_spacy_def
          spacy_parse_resume_def spacy_parse_body_def extracted pipeline Let_def s)
qed

lemma basic_summary_bounded: "length (extract_basic_summary t) \<le> 500"
  by (simp add: extract_basic_summary_def split: option.splits)


lemma text_summary:
  "parse_with_text_extraction ev now f = Success p t n \<Longrightarrow> pr_summary p = extract_basic_summary t"
  by (auto simp: parse_with_text_extraction_def text_extraction_body_def with_provider_def
        parse_text_content_def Let_def split: sum.splits if_splits)

lemma local_summary:
  "parse_with_local_ocr ev now f = Success p t n \<Longrightarrow> pr_summary p = extract_basic_summary t"
  using text_summary
  by (auto simp: parse_with_local_ocr_def local_ocr_body_def with_provider_def
        parse_text_content_def Let_def split: sum.splits if_splits)

lemma ocr_space_summary:
  "parse_with_ocr_space ev now f = Success p t n \<Longrightarrow> pr_summary p = extract_basic_summary t"
  using local_summary
  by (auto simp: parse_with_ocr_space_def ocr_space_body_def with_provider_def
        parse_text_content_def Let_def split: sum.splits if_splits option.splits list.splits)

lemma summary_length_bounded:
  assumes "\<And>p t n. r = Success p t n \<Longrightarrow> pr_summary p = extract_basic_summary t"
  shows "summary_length r \<le> 500"
  using assms basic_summary_bounded by (cases r) (simp_all add: summary_length_def)

text \<open>
  The three rule-based providers (cloud OCR, local OCR, text extraction) take the
  summary from \<open>_extract_basic_summary\<close>, which truncates: for every file, time and
  environment the summary of their result has at most 500 characters.
\<close>

theorem rule_based_summary_bounded:
  "summary_length (parse_with_text_extraction ev now f) \<le> 500
   \<and> summary_length (parse_with_local_ocr ev now f) \<le> 500
   \<and> summary_length (parse_with_ocr_space ev now f) \<le> 500"
proof -
  have "summary_length (parse_with_text_extraction ev now f) \<le> 500"
    by (rule summary_length_bounded) (rule text_summary)
  moreover have "summary_length (parse_with_local_ocr ev now f) \<le> 500"
    by (rule summary_length_bounded) (rule local_summary)
  moreover have "summary_length (parse_with_ocr_space ev now f) \<le> 500"
    by (rule summary_length_bounded) (rule ocr_space_summary)
  ultimately show ?thesis by simp
qed

subsection \<open>An unrecognized provider name\<close>

text \<open>
  C3, as the code has it. A provider name that is not recognized gives the result of the
  default provider of the service that is called: in the enhanced service the NLP
  provider (\<open>spacy_nlp\<close>), in the first parsing service text extraction.
\<close>

theorem unrecognized_provider_defaults:
  "(provider \<notin> {''spacy_nlp'', ''ocr_space'', ''local_ocr'', ''text_extraction''} \<longrightarrow>
      parse_resume ev now f provider = parse_resume ev now f ''spacy_nlp'')
   \<and> (provider \<notin> {''ocr_space'', ''local_ocr'', ''text_extraction''} \<longrightarrow>
      legacy_parse_resume ev now g provider = legacy_parse_resume ev now g ''text_extraction'')"
  by (simp add: parse_resume_def providers_def legacy_parse_resume_def legacy_providers_def
        Let_def split: prod.splits)

theorem unrecognized_provider_defaults_witness:
  "''unknown'' \<notin> {''spacy_nlp'', ''ocr_space'', ''local_ocr'', ''text_extraction''}
   \<and> parse_resume env0 now0 short_file ''unknown'' = parse_resume env0 now0 short_file ''spacy_nlp''
   \<and> (\<exists>data. legacy_parse_resume env0 now0 legacy_file ''unknown'' =
         Legacy_success data ''xxxxxxxxxxxxxxxxxxxx'' ''text_extraction'')"
proof -
  have other: "''unknown'' \<notin> {''spacy_nlp'', ''ocr_space'', ''local_ocr'', ''text_extraction''}"
    "''unknown'' \<notin> {''ocr_space'', ''local_ocr'', ''text_extraction''}"
    by simp_all
  note default = unrecognized_provider_defaults [where provider = "''unknown''" and ev = env0
      and now = now0 and f = short_file and g = legacy_file]
  from default have
    e: "parse_resume env0 now0 short_file ''unknown'' = parse_resume env0 now0 short_file ''spacy_nlp''"
    by simp
  from default have
    l: "legacy_parse_resume env0 now0 legacy_file ''unknown'' =
        legacy_parse_resume env0 now0 legacy_file ''text_extraction''"
    by simp
  have ext: "lower (last (split_on CHR ''.'' ''cv.txt'')) = ''txt''"
    by (simp add: split_on_def char_simps)
  have allowed: "allowed_file ''cv.txt''"
    by (simp add: allowed_file_def ext allowed_extensions_def)
  have valid: "legacy_validate_file env0 legacy_file = (True, ''File is valid'')"
    by (simp add: legacy_validate_file_def legacy_file_def allowed max_file_size_def)
  have stripped: "strip ''xxxxxxxxxxxxxxxxxxxx'' \<noteq> []"
    by (simp add: strip_def is_space_def)
  have "\<exists>data. legacy_parse_resume env0 now0 legacy_file ''text_extraction'' =
          Legacy_success data ''xxxxxxxxxxxxxxxxxxxx'' ''text_extraction''"
  proof -
    have name: "secure_filename env0 (case fst legacy_file of None \<Rightarrow> [] | Some n \<Rightarrow> n) = ''cv.txt''"
      by (simp add: env0_def legacy_file_def)
    have decoded: "decode_strict env0 (snd legacy_file) = Inr ''xxxxxxxxxxxxxxxxxxxx''"
      by (simp add: env0_def legacy_file_def)
    have "legacy_parse_with_text_extraction env0 legacy_file ''txt'' =
            Legacy_success (legacy_parse_text_content env0 ''xxxxxxxxxxxxxxxxxxxx'')
              ''xxxxxxxxxxxxxxxxxxxx'' ''text_extraction''"
      using stripped
      by (simp add: legacy_parse_with_text_extraction_def decoded legacy_finish_def)
    then show ?thesis
      by (simp add: legacy_parse_resume_def valid name ext legacy_providers_def
            apply_enhance_def)
  qed
  with other e l show ?thesis by simp
qed

text \<open>
  The claim as stated fails in the enhanced service. For a text file of 20 characters
  the provider name \<open>unknown\<close> runs the NLP provider, which wants 50 characters and
  returns a failure; the provider \<open>text_extraction\<close> parses the same file.
\<close>

theorem unrecognized_provider_runs_nlp:
  "parse_resume env0 now0 short_file ''unknown'' =
     Failure ''Insufficient text content extracted from file''
   \<and> (\<exists>parsed. parse_resume env0 now0 short_file ''text_extraction'' =
         Success parsed ''xxxxxxxxxxxxxxxxxxxx'' ''text_extraction'')"
proof -
  have ext: "ext_or_txt short_file = ''txt''"
    by (simp add: ext_or_txt_def filename_of_def get_or_def file_ext_def split_on_def char_simps
          short_file_def)
  have valid: "validate_file short_file"
    by (simp add: validate_file_def filename_of_def get_or_def file_ext_def split_on_def
          char_simps short_file_def max_file_size_def allowed_extensions_def)
  have extracted: "spacy_extract_text_from_file env0 short_file = Inr (content short_file)"
    by (simp add: spacy_extract_text_from_file_def ext env0_def)
  have few: "length (strip (content short_file)) < 50"
    by (simp add: strip_def is_space_def short_file_def)
  have nlp_result: "parse_resume env0 now0 short_file ''unknown'' =
      Failure ''Insufficient text content extracted from file''"
    by (simp add: parse_resume_def valid providers_def parse_with_spacy_def
          spacy_parse_resume_def spacy_parse_body_def extracted few)
  have "ext_or_txt short_file \<notin> set [''pdf'', ''doc'', ''docx'']"
    by (simp add: ext)
  from text_extraction_plain [OF this, of env0 now0]
  have "parse_with_text_extraction env0 now0 short_file =
          Success (with_provider ''text_extraction''
                     (parse_text_content env0 now0 (content short_file)))
            (content short_file) ''text_extraction''"
    by (simp add: Let_def too_short_def strip_def is_space_def env0_def short_file_def)
  moreover have "parse_resume env0 now0 short_file ''text_extraction'' =
      parse_with_text_extraction env0 now0 short_file"
    by (simp add: parse_resume_def valid providers_def)
  moreover have "content short_file = ''xxxxxxxxxxxxxxxxxxxx''"
    by (simp add: short_file_def)
  ultimately have "\<exists>parsed. parse_resume env0 now0 short_file ''text_extraction'' =
         Success parsed ''xxxxxxxxxxxxxxxxxxxx'' ''text_extraction''"
    by simp
  with nlp_result show ?thesis by simp
qed

end
